theory Spec2Isabelle
  imports Main "HOL-Library.AList"
begin

section \<open>Cluster reconciliation (pkg/cluster/sync.go)\<close>

text \<open>
  The file sync.go holds the \<open>Sync\<close> pass of a cluster and the reconciler of each resource
  kind.  Everything the pass calls outside this file (the resource store client, the
  database helpers, the generators and comparators, the other methods of the cluster)
  is a field of the record \<open>env\<close>, so every theorem holds for whatever those do.

  A Go function returning \<open>(*T, error)\<close> answers \<open>Ok x\<close> (no error, object \<open>x\<close>) or
  \<open>Fail p err\<close>, where \<open>p\<close> is the pointer handed back beside the error (\<open>None\<close> for nil).
  A function returning \<open>error\<close> answers \<open>error option\<close>.  A reconciler of this file ends
  in \<open>Success\<close> (nil), \<open>Failure err\<close>, or \<open>Panic\<close> when it reads a field through a nil
  pointer.
\<close>

subsection \<open>Errors\<close>

text \<open>
  \<open>Errorf fmt errs\<close> is \<open>fmt.Errorf(fmt, ...)\<close>: the format string and the error
  operands in order (the role and name operands only fill in text).
\<close>

datatype error = ApiError string | Errorf string "error list"

datatype 'a res = Ok 'a | Fail "'a option" error

datatype outcome = Success | Failure error | Panic

datatype logline = Warningf string | Errorlog string

subsection \<open>Data\<close>

datatype PostgresRole = Master | Replica

datatype K8sObject = K8sObject (objNamespace: string) (objName: string) (objSpec: string)

type_synonym Service = K8sObject
type_synonym Endpoints = K8sObject
type_synonym PodDisruptionBudget = K8sObject
type_synonym CronJob = K8sObject
type_synonym Deployment = K8sObject
type_synonym Pod = K8sObject

record Secret =
  SecretNamespace :: string
  SecretName :: string
  SecretUID :: string
  Data :: "(string \<times> string) list"

record Container =
  ContainerName :: string
  ContainerImage :: string

record StatefulSet =
  SsetName :: string
  Containers :: "Container list"
  SsetSpec :: string

text \<open>
  Modelled from the spec: the account origin (\<open>spec.RoleOrigin\<close>, declared outside this
  file).  The spec names Infrastructure and Manifest; \<open>RoleOriginOther\<close> stands for any
  further constant of the type.
\<close>

datatype RoleOrigin = RoleOriginManifest | RoleOriginInfrastructure | RoleOriginOther nat

record PgUser =
  Name :: string
  Password :: string
  Origin :: RoleOrigin

datatype ClusterStatus = ClusterStatusRunning | ClusterStatusSyncFailed | ClusterStatusOther string

record acid_ConnectionPool =
  Schema :: string
  User :: string

record acid_PostgresSpec =
  EnableLogicalBackup :: bool
  StandbyCluster :: "string option"
  PgVersion :: string
  Parameters :: "(string \<times> string) list"
  Volume :: string
  Databases :: "(string \<times> string) list"
  SpecConnectionPool :: "acid_ConnectionPool option"

record acid_Postgresql =
  Spec :: acid_PostgresSpec
  Status :: ClusterStatus

record config_ConnectionPool =
  ConfigSchema :: string
  ConfigUser :: string

record Config =
  AWSRegion :: string
  ConfigConnectionPool :: config_ConnectionPool

record ConnectionPoolObjects =
  Deployment :: "Deployment option"
  Service :: "Service option"
  LookupFunction :: bool

record compareStatefulsetResult =
  match :: bool
  replace :: bool
  rollingUpdate :: bool
  reasons :: "string list"

text \<open>
  The cluster: the fields this file reads or writes, and \<open>world\<close> for all the rest (the
  resource stores, the database, the pods, the other fields of the cluster).  A Go map
  is an association list read with \<open>map_of\<close> and written with \<open>AList.update\<close>; the order
  of the list is the order \<open>range\<close> happens to take.  The maps are allocated.
\<close>

record 'w Cluster =
  Postgresql :: acid_Postgresql
  Namespace :: string
  OpConfig :: Config
  Services :: "PostgresRole \<Rightarrow> Service option"
  Endpoints :: "PostgresRole \<Rightarrow> Endpoints option"
  PodDisruptionBudget :: "PodDisruptionBudget option"
  Statefulset :: "StatefulSet option"
  Secrets :: "(string \<times> Secret) list"
  systemUsers :: "(string \<times> PgUser) list"
  pgUsers :: "(string \<times> PgUser) list"
  ConnectionPool :: "ConnectionPoolObjects option"
  world :: 'w

subsection \<open>Calls that leave this file\<close>

datatype event =
    EvServicesGet string string
  | EvServicesCreate string Service
  | EvEndpointsGet string string
  | EvPodDisruptionBudgetsGet string string
  | EvStatefulSetsGet string string
  | EvSecretsCreate string Secret
  | EvSecretsGet string string
  | EvSecretsUpdate string Secret
  | EvCronJobsGet string string
  | EvDeploymentsGet string string
  | EvDeploymentsCreate string Deployment
  | EvSetSpec acid_Postgresql
  | EvSetStatus ClusterStatus
  | EvInitUsers
  | EvEnforceMinResourceLimits
  | EvCreateService PostgresRole
  | EvUpdateService PostgresRole Service
  | EvCreateEndpoint PostgresRole
  | EvCreatePodDisruptionBudget
  | EvUpdatePodDisruptionBudget PodDisruptionBudget
  | EvListPods
  | EvCreateStatefulSet
  | EvWaitStatefulsetPodsReady
  | EvApplyRollingUpdateFlagforStatefulSet bool
  | EvUpdateStatefulSet StatefulSet
  | EvReplaceStatefulSet StatefulSet
  | EvRecreatePods
  | EvSetPostgresParameters Pod "(string \<times> string) list"
  | EvVolumesNeedResizing string
  | EvResizeVolumes string "string list"
  | EvInitDbConn
  | EvCloseDbConn
  | EvReadPgUsersFromDatabase "string list"
  | EvExecuteSyncRequests "string list"
  | EvGetDatabases
  | EvExecuteCreateDatabase string string
  | EvExecuteAlterDatabaseOwner string string
  | EvCreateLogicalBackupJob
  | EvPatchLogicalBackupJob CronJob
  | EvInstallLookupFunction string string
  | EvDeleteConnectionPool
  | EvUpdateConnPoolDeployment Deployment Deployment

text \<open>
  The collaborators.  The store client and the Patroni client act on the world alone.
  Generators, comparators, name builders and predicates only read the cluster (the
  interface section of the spec declares them pure).  Every other method of the cluster
  that this file calls may change any field.
\<close>

record 'w env =
  ServicesGet :: "string \<Rightarrow> string \<Rightarrow> 'w \<Rightarrow> Service res \<times> 'w"
  ServicesCreate :: "string \<Rightarrow> Service \<Rightarrow> 'w \<Rightarrow> Service res \<times> 'w"
  EndpointsGet :: "string \<Rightarrow> string \<Rightarrow> 'w \<Rightarrow> Endpoints res \<times> 'w"
  PodDisruptionBudgetsGet :: "string \<Rightarrow> string \<Rightarrow> 'w \<Rightarrow> PodDisruptionBudget res \<times> 'w"
  StatefulSetsGet :: "string \<Rightarrow> string \<Rightarrow> 'w \<Rightarrow> StatefulSet res \<times> 'w"
  SecretsCreate :: "string \<Rightarrow> Secret \<Rightarrow> 'w \<Rightarrow> Secret res \<times> 'w"
  SecretsGet :: "string \<Rightarrow> string \<Rightarrow> 'w \<Rightarrow> Secret res \<times> 'w"
  SecretsUpdate :: "string \<Rightarrow> Secret \<Rightarrow> 'w \<Rightarrow> Secret res \<times> 'w"
  CronJobsGet :: "string \<Rightarrow> string \<Rightarrow> 'w \<Rightarrow> CronJob res \<times> 'w"
  DeploymentsGet :: "string \<Rightarrow> string \<Rightarrow> 'w \<Rightarrow> Deployment res \<times> 'w"
  DeploymentsCreate :: "string \<Rightarrow> Deployment \<Rightarrow> 'w \<Rightarrow> Deployment res \<times> 'w"
  SetPostgresParameters :: "Pod \<Rightarrow> (string \<times> string) list \<Rightarrow> 'w \<Rightarrow> error option \<times> 'w"
  ResourceNotFound :: "error \<Rightarrow> bool"
  ResourceAlreadyExists :: "error \<Rightarrow> bool"
  SameService :: "Service \<Rightarrow> Service \<Rightarrow> bool \<times> string"
  SamePDB :: "PodDisruptionBudget \<Rightarrow> PodDisruptionBudget \<Rightarrow> bool \<times> string"
  SameLogicalBackupJob :: "CronJob \<Rightarrow> CronJob \<Rightarrow> bool \<times> string"
  isBootstrapOnlyParameter :: "string \<Rightarrow> bool"
  ProduceSyncRequests :: "(string \<times> PgUser) list \<Rightarrow> (string \<times> PgUser) list \<Rightarrow> string list"
  Running :: "ClusterStatus \<Rightarrow> bool"
  SuperuserKeyName :: string
  ReplicationUserKeyName :: string
  ConnectionPoolUserKeyName :: string
  zeroRoleOrigin :: RoleOrigin
  serviceName :: "PostgresRole \<Rightarrow> 'w Cluster \<Rightarrow> string"
  endpointName :: "PostgresRole \<Rightarrow> 'w Cluster \<Rightarrow> string"
  podDisruptionBudgetName :: "'w Cluster \<Rightarrow> string"
  statefulSetName :: "'w Cluster \<Rightarrow> string"
  getLogicalBackupJobName :: "'w Cluster \<Rightarrow> string"
  connPoolName :: "'w Cluster \<Rightarrow> string"
  generateService :: "PostgresRole \<Rightarrow> acid_PostgresSpec \<Rightarrow> 'w Cluster \<Rightarrow> Service"
  generatePodDisruptionBudget :: "'w Cluster \<Rightarrow> PodDisruptionBudget"
  generateStatefulSet :: "acid_PostgresSpec \<Rightarrow> 'w Cluster \<Rightarrow> StatefulSet res"
  generateLogicalBackupJob :: "'w Cluster \<Rightarrow> CronJob res"
  generateUserSecrets :: "'w Cluster \<Rightarrow> (string \<times> Secret) list"
  generateConnPoolDeployment :: "acid_PostgresSpec \<Rightarrow> 'w Cluster \<Rightarrow> Deployment res"
  generateConnPoolService :: "acid_PostgresSpec \<Rightarrow> 'w Cluster \<Rightarrow> Service"
  compareStatefulSetWith :: "StatefulSet \<Rightarrow> 'w Cluster \<Rightarrow> compareStatefulsetResult"
  mergeRollingUpdateFlagUsingCache :: "StatefulSet \<Rightarrow> 'w Cluster \<Rightarrow> bool"
  setRollingUpdateFlagForStatefulSet :: "StatefulSet \<Rightarrow> bool \<Rightarrow> 'w Cluster \<Rightarrow> StatefulSet"
  getNewPgVersion :: "Container \<Rightarrow> string \<Rightarrow> 'w Cluster \<Rightarrow> string res"
  needConnectionPool :: "'w Cluster \<Rightarrow> bool"
  needConnectionPoolWorker :: "acid_PostgresSpec \<Rightarrow> 'w Cluster \<Rightarrow> bool"
  needSyncConnPoolSpecs ::
    "acid_ConnectionPool option \<Rightarrow> acid_ConnectionPool option \<Rightarrow> 'w Cluster \<Rightarrow> bool \<times> string list"
  needSyncConnPoolDefaults ::
    "acid_ConnectionPool option \<Rightarrow> Deployment \<Rightarrow> 'w Cluster \<Rightarrow> bool \<times> string list"
  getNumberOfInstances :: "acid_PostgresSpec \<Rightarrow> 'w Cluster \<Rightarrow> int"
  databaseAccessDisabled :: "'w Cluster \<Rightarrow> bool"
  setSpec :: "acid_Postgresql \<Rightarrow> 'w Cluster \<Rightarrow> 'w Cluster"
  setStatus :: "ClusterStatus \<Rightarrow> 'w Cluster \<Rightarrow> 'w Cluster"
  initUsers :: "'w Cluster \<Rightarrow> error option \<times> 'w Cluster"
  enforceMinResourceLimits :: "'w Cluster \<Rightarrow> error option \<times> 'w Cluster"
  createService :: "PostgresRole \<Rightarrow> 'w Cluster \<Rightarrow> Service res \<times> 'w Cluster"
  updateService :: "PostgresRole \<Rightarrow> Service \<Rightarrow> 'w Cluster \<Rightarrow> error option \<times> 'w Cluster"
  createEndpoint :: "PostgresRole \<Rightarrow> 'w Cluster \<Rightarrow> Endpoints res \<times> 'w Cluster"
  createPodDisruptionBudget :: "'w Cluster \<Rightarrow> PodDisruptionBudget res \<times> 'w Cluster"
  updatePodDisruptionBudget :: "PodDisruptionBudget \<Rightarrow> 'w Cluster \<Rightarrow> error option \<times> 'w Cluster"
  listPods :: "'w Cluster \<Rightarrow> Pod list res \<times> 'w Cluster"
  createStatefulSet :: "'w Cluster \<Rightarrow> StatefulSet res \<times> 'w Cluster"
  waitStatefulsetPodsReady :: "'w Cluster \<Rightarrow> error option \<times> 'w Cluster"
  applyRollingUpdateFlagforStatefulSet :: "bool \<Rightarrow> 'w Cluster \<Rightarrow> error option \<times> 'w Cluster"
  updateStatefulSet :: "StatefulSet \<Rightarrow> 'w Cluster \<Rightarrow> error option \<times> 'w Cluster"
  replaceStatefulSet :: "StatefulSet \<Rightarrow> 'w Cluster \<Rightarrow> error option \<times> 'w Cluster"
  recreatePods :: "'w Cluster \<Rightarrow> error option \<times> 'w Cluster"
  volumesNeedResizing :: "string \<Rightarrow> 'w Cluster \<Rightarrow> bool res \<times> 'w Cluster"
  resizeVolumes :: "string \<Rightarrow> string list \<Rightarrow> 'w Cluster \<Rightarrow> error option \<times> 'w Cluster"
  initDbConn :: "'w Cluster \<Rightarrow> error option \<times> 'w Cluster"
  closeDbConn :: "'w Cluster \<Rightarrow> error option \<times> 'w Cluster"
  readPgUsersFromDatabase :: "string list \<Rightarrow> 'w Cluster \<Rightarrow> (string \<times> PgUser) list res \<times> 'w Cluster"
  ExecuteSyncRequests :: "string list \<Rightarrow> 'w Cluster \<Rightarrow> error option \<times> 'w Cluster"
  getDatabases :: "'w Cluster \<Rightarrow> (string \<times> string) list res \<times> 'w Cluster"
  executeCreateDatabase :: "string \<Rightarrow> string \<Rightarrow> 'w Cluster \<Rightarrow> error option \<times> 'w Cluster"
  executeAlterDatabaseOwner :: "string \<Rightarrow> string \<Rightarrow> 'w Cluster \<Rightarrow> error option \<times> 'w Cluster"
  createLogicalBackupJob :: "'w Cluster \<Rightarrow> error option \<times> 'w Cluster"
  patchLogicalBackupJob :: "CronJob \<Rightarrow> 'w Cluster \<Rightarrow> error option \<times> 'w Cluster"
  installLookupFunction :: "string \<Rightarrow> string \<Rightarrow> 'w Cluster \<Rightarrow> error option \<times> 'w Cluster"
  deleteConnectionPool :: "'w Cluster \<Rightarrow> error option \<times> 'w Cluster"
  updateConnPoolDeployment :: "Deployment \<Rightarrow> Deployment \<Rightarrow> 'w Cluster \<Rightarrow> Deployment res \<times> 'w Cluster"

subsection \<open>The state of a run\<close>

text \<open>
  A run carries the cluster, the calls made so far in order, and the warning and error
  lines written to the log (debug and info lines are left out).
\<close>

record 'w st =
  cl :: "'w Cluster"
  calls :: "event list"
  logs :: "logline list"

definition upd :: "('w Cluster \<Rightarrow> 'w Cluster) \<Rightarrow> 'w st \<Rightarrow> 'w st" where
  "upd f s = s\<lparr>cl := f (cl s)\<rparr>"

definition logline :: "logline \<Rightarrow> 'w st \<Rightarrow> 'w st" where
  "logline l s = s\<lparr>logs := logs s @ [l]\<rparr>"

definition kube :: "event \<Rightarrow> ('w \<Rightarrow> 'a \<times> 'w) \<Rightarrow> 'w st \<Rightarrow> 'a \<times> 'w st" where
  "kube ev f s =
     (case f (world (cl s)) of
        (r, w') \<Rightarrow> (r, s\<lparr>cl := (cl s)\<lparr>world := w'\<rparr>, calls := calls s @ [ev]\<rparr>))"

definition act :: "event \<Rightarrow> ('w Cluster \<Rightarrow> 'a \<times> 'w Cluster) \<Rightarrow> 'w st \<Rightarrow> 'a \<times> 'w st" where
  "act ev f s =
     (case f (cl s) of (r, c') \<Rightarrow> (r, s\<lparr>cl := c', calls := calls s @ [ev]\<rparr>))"

definition act0 :: "event \<Rightarrow> ('w Cluster \<Rightarrow> 'w Cluster) \<Rightarrow> 'w st \<Rightarrow> 'w st" where
  "act0 ev f s = s\<lparr>cl := f (cl s), calls := calls s @ [ev]\<rparr>"

definition ret :: "error option \<Rightarrow> outcome" where
  "ret r = (case r of None \<Rightarrow> Success | Some err \<Rightarrow> Failure err)"


definition setEndpoint :: "PostgresRole \<Rightarrow> Endpoints option \<Rightarrow> 'w Cluster \<Rightarrow> 'w Cluster" where
  "setEndpoint role ep c = c\<lparr>Endpoints := (Endpoints c)(role := ep)\<rparr>"

definition setService :: "PostgresRole \<Rightarrow> Service option \<Rightarrow> 'w Cluster \<Rightarrow> 'w Cluster" where
  "setService role svc c = c\<lparr>Services := (Services c)(role := svc)\<rparr>"

subsection \<open>Services and endpoints\<close>

text \<open>
  \<open>syncEndpoint\<close> (lines 178-210).  The log line of the already-exists branch reads
  \<open>ep.ObjectMeta\<close> of the pointer that \<open>createEndpoint\<close> handed back beside its error.
\<close>

definition syncEndpoint :: "'w env \<Rightarrow> PostgresRole \<Rightarrow> 'w st \<Rightarrow> outcome \<times> 'w st" where
  "syncEndpoint env role s0 =
     (case kube (EvEndpointsGet (Namespace (cl s0)) (endpointName env role (cl s0)))
             (EndpointsGet env (Namespace (cl s0)) (endpointName env role (cl s0))) s0 of
        (Ok ep, s1) \<Rightarrow> (Success, upd (setEndpoint role (Some ep)) s1)
      | (Fail _ err, s1) \<Rightarrow>
          if \<not> ResourceNotFound env err
          then (Failure (Errorf ''could not get %s endpoint: %v'' [err]), s1)
          else
            (case act (EvCreateEndpoint role) (createEndpoint env role)
                    (upd (setEndpoint role None) s1) of
               (Ok ep, s2) \<Rightarrow> (Success, upd (setEndpoint role (Some ep)) s2)
             | (Fail p err, s2) \<Rightarrow>
                 if \<not> ResourceAlreadyExists env err
                 then (Failure (Errorf ''could not create missing %s endpoint: %v'' [err]), s2)
                 else
                   (case p of
                      None \<Rightarrow> (Panic, s2)
                    | Some _ \<Rightarrow>
                        (case kube (EvEndpointsGet (Namespace (cl s2)) (endpointName env role (cl s2)))
                                (EndpointsGet env (Namespace (cl s2)) (endpointName env role (cl s2))) s2 of
                           (Fail _ err, s3) \<Rightarrow>
                             (Failure (Errorf ''could not fetch existing %s endpoint: %v'' [err]), s3)
                         | (Ok ep, s3) \<Rightarrow> (Success, upd (setEndpoint role (Some ep)) s3)))))"

text \<open>\<open>syncService\<close> (lines 137-176).\<close>

definition syncService :: "'w env \<Rightarrow> PostgresRole \<Rightarrow> 'w st \<Rightarrow> outcome \<times> 'w st" where
  "syncService env role s0 =
     (case kube (EvServicesGet (Namespace (cl s0)) (serviceName env role (cl s0)))
             (ServicesGet env (Namespace (cl s0)) (serviceName env role (cl s0))) s0 of
        (Ok svc, s1) \<Rightarrow>
          (let s2 = upd (setService role (Some svc)) s1;
               desiredSvc = generateService env role (Spec (Postgresql (cl s2))) (cl s2)
           in if \<not> fst (SameService env svc desiredSvc)
              then
                (case act (EvUpdateService role desiredSvc) (updateService env role desiredSvc) s2 of
                   (Some err, s3) \<Rightarrow>
                     (Failure (Errorf ''could not update %s service to match desired state: %v'' [err]), s3)
                 | (None, s3) \<Rightarrow> (Success, s3))
              else (Success, s2))
      | (Fail _ err, s1) \<Rightarrow>
          if \<not> ResourceNotFound env err
          then (Failure (Errorf ''could not get %s service: %v'' [err]), s1)
          else
            (case act (EvCreateService role) (createService env role)
                    (upd (setService role None) s1) of
               (Ok svc, s2) \<Rightarrow> (Success, upd (setService role (Some svc)) s2)
             | (Fail p err, s2) \<Rightarrow>
                 if \<not> ResourceAlreadyExists env err
                 then (Failure (Errorf ''could not create missing %s service: %v'' [err]), s2)
                 else
                   (case p of
                      None \<Rightarrow> (Panic, s2)
                    | Some _ \<Rightarrow>
                        (case kube (EvServicesGet (Namespace (cl s2)) (serviceName env role (cl s2)))
                                (ServicesGet env (Namespace (cl s2)) (serviceName env role (cl s2))) s2 of
                           (Fail _ err, s3) \<Rightarrow>
                             (Failure (Errorf ''could not fetch existing %s service: %v'' [err]), s3)
                         | (Ok svc, s3) \<Rightarrow> (Success, upd (setService role (Some svc)) s3)))))"

text \<open>\<open>syncServices\<close> (lines 121-135): the endpoint, then the service, of each role.\<close>

fun syncServicesLoop :: "'w env \<Rightarrow> PostgresRole list \<Rightarrow> 'w st \<Rightarrow> outcome \<times> 'w st" where
  "syncServicesLoop env [] s = (Success, s)"
| "syncServicesLoop env (role # roles) s =
     (case syncEndpoint env role s of
        (Failure err, s1) \<Rightarrow> (Failure (Errorf ''could not sync %s endpoint: %v'' [err]), s1)
      | (Panic, s1) \<Rightarrow> (Panic, s1)
      | (Success, s1) \<Rightarrow>
          (case syncService env role s1 of
             (Failure err, s2) \<Rightarrow> (Failure (Errorf ''could not sync %s service: %v'' [err]), s2)
           | (Panic, s2) \<Rightarrow> (Panic, s2)
           | (Success, s2) \<Rightarrow> syncServicesLoop env roles s2))"

definition syncServices :: "'w env \<Rightarrow> 'w st \<Rightarrow> outcome \<times> 'w st" where
  "syncServices env s = syncServicesLoop env [Master, Replica] s"

subsection \<open>Pod disruption budget\<close>

text \<open>
  \<open>syncPodDisruptionBudget\<close> (lines 212-252).  The already-exists branch reads
  \<open>pdb.ObjectMeta\<close> of the pointer beside the create error, and the error of the failed
  second fetch is built from \<open>pdb.ObjectMeta\<close> of the pointer beside that fetch's error.
\<close>

definition syncPodDisruptionBudget :: "'w env \<Rightarrow> bool \<Rightarrow> 'w st \<Rightarrow> outcome \<times> 'w st" where
  "syncPodDisruptionBudget env isUpdate s0 =
     (case kube (EvPodDisruptionBudgetsGet (Namespace (cl s0)) (podDisruptionBudgetName env (cl s0)))
             (PodDisruptionBudgetsGet env (Namespace (cl s0)) (podDisruptionBudgetName env (cl s0))) s0 of
        (Ok pdb, s1) \<Rightarrow>
          (let s2 = upd (\<lambda>c. c\<lparr>PodDisruptionBudget := Some pdb\<rparr>) s1;
               newPDB = generatePodDisruptionBudget env (cl s2)
           in if \<not> fst (SamePDB env pdb newPDB)
              then
                (case act (EvUpdatePodDisruptionBudget newPDB) (updatePodDisruptionBudget env newPDB) s2 of
                   (Some err, s3) \<Rightarrow> (Failure err, s3)
                 | (None, s3) \<Rightarrow> (Success, s3))
              else (Success, upd (\<lambda>c. c\<lparr>PodDisruptionBudget := Some pdb\<rparr>) s2))
      | (Fail _ err, s1) \<Rightarrow>
          if \<not> ResourceNotFound env err
          then (Failure (Errorf ''could not get pod disruption budget: %v'' [err]), s1)
          else
            (case act EvCreatePodDisruptionBudget (createPodDisruptionBudget env)
                    (upd (\<lambda>c. c\<lparr>PodDisruptionBudget := None\<rparr>) s1) of
               (Ok pdb, s2) \<Rightarrow> (Success, upd (\<lambda>c. c\<lparr>PodDisruptionBudget := Some pdb\<rparr>) s2)
             | (Fail p err, s2) \<Rightarrow>
                 if \<not> ResourceAlreadyExists env err
                 then (Failure (Errorf ''could not create pod disruption budget: %v'' [err]), s2)
                 else
                   (case p of
                      None \<Rightarrow> (Panic, s2)
                    | Some _ \<Rightarrow>
                        (case kube (EvPodDisruptionBudgetsGet (Namespace (cl s2))
                                      (podDisruptionBudgetName env (cl s2)))
                                (PodDisruptionBudgetsGet env (Namespace (cl s2))
                                      (podDisruptionBudgetName env (cl s2))) s2 of
                           (Fail None err, s3) \<Rightarrow> (Panic, s3)
                         | (Fail (Some _) err, s3) \<Rightarrow>
                             (Failure (Errorf ''could not fetch existing %q pod disruption budget'' []), s3)
                         | (Ok pdb, s3) \<Rightarrow>
                             (Success, upd (\<lambda>c. c\<lparr>PodDisruptionBudget := Some pdb\<rparr>) s3)))))"


subsection \<open>Statefulset\<close>

text \<open>
  \<open>checkAndSetGlobalPostgreSQLConfiguration\<close> (lines 358-397): the bootstrap-only
  parameters of the manifest are sent to the pods in turn until one accepts them.
\<close>

fun bootstrapOptions ::
  "'w env \<Rightarrow> (string \<times> string) list \<Rightarrow> (string \<times> string) list \<Rightarrow> (string \<times> string) list" where
  "bootstrapOptions env [] optionsToSet = optionsToSet"
| "bootstrapOptions env ((k, v) # pgOptions) optionsToSet =
     bootstrapOptions env pgOptions
       (if isBootstrapOnlyParameter env k then AList.update k v optionsToSet else optionsToSet)"

fun setPostgresParametersOnPods ::
  "'w env \<Rightarrow> Pod list \<Rightarrow> (string \<times> string) list \<Rightarrow> 'w st \<Rightarrow> error option \<times> 'w st" where
  "setPostgresParametersOnPods env [] optionsToSet s =
     (Some (Errorf ''could not reach Patroni API to set Postgres options: failed on every pod (%d total)'' []), s)"
| "setPostgresParametersOnPods env (pod # pods) optionsToSet s =
     (case kube (EvSetPostgresParameters pod optionsToSet) (SetPostgresParameters env pod optionsToSet) s of
        (None, s1) \<Rightarrow> (None, s1)
      | (Some err, s1) \<Rightarrow>
          setPostgresParametersOnPods env pods optionsToSet
            (logline (Warningf ''could not patch postgres parameters with a pod %s: %v'') s1))"

definition checkAndSetGlobalPostgreSQLConfiguration :: "'w env \<Rightarrow> 'w st \<Rightarrow> error option \<times> 'w st" where
  "checkAndSetGlobalPostgreSQLConfiguration env s0 =
     (let optionsToSet = bootstrapOptions env (Parameters (Spec (Postgresql (cl s0)))) []
      in if length optionsToSet = 0 then (None, s0)
         else
           (case act EvListPods (listPods env) s0 of
              (Fail _ err, s1) \<Rightarrow> (Some err, s1)
            | (Ok pods, s1) \<Rightarrow>
                if length pods = 0
                then (Some (Errorf ''could not call Patroni API: cluster has no pods'' []), s1)
                else setPostgresParametersOnPods env pods optionsToSet s1))"

definition setPgVersion :: "string \<Rightarrow> 'w Cluster \<Rightarrow> 'w Cluster" where
  "setPgVersion pgVersion c =
     c\<lparr>Postgresql := (Postgresql c)\<lparr>Spec := (Spec (Postgresql c))\<lparr>PgVersion := pgVersion\<rparr>\<rparr>\<rparr>"

text \<open>The version check over the containers of the live statefulset (lines 296-305).\<close>

fun syncPgVersion :: "'w env \<Rightarrow> Container list \<Rightarrow> 'w st \<Rightarrow> error option \<times> 'w st" where
  "syncPgVersion env [] s = (None, s)"
| "syncPgVersion env (container # containers) s =
     (if ContainerName container \<noteq> ''postgres'' then syncPgVersion env containers s
      else
        (case getNewPgVersion env container (PgVersion (Spec (Postgresql (cl s)))) (cl s) of
           Fail _ err \<Rightarrow> (Some (Errorf ''could not parse current Postgres version: %v'' [err]), s)
         | Ok pgVersion \<Rightarrow> syncPgVersion env containers (upd (setPgVersion pgVersion) s)))"

text \<open>
  The end of \<open>syncStatefulSet\<close> (lines 334-353), reached from both branches with the
  value of \<open>podsRollingUpdateRequired\<close>.
\<close>

definition syncStatefulSet_finish :: "'w env \<Rightarrow> bool \<Rightarrow> 'w st \<Rightarrow> outcome \<times> 'w st" where
  "syncStatefulSet_finish env podsRollingUpdateRequired s0 =
     (case checkAndSetGlobalPostgreSQLConfiguration env s0 of
        (Some err, s1) \<Rightarrow>
          (Failure (Errorf ''could not set cluster-wide PostgreSQL configuration options: %v'' [err]), s1)
      | (None, s1) \<Rightarrow>
          if podsRollingUpdateRequired
          then
            (case act EvRecreatePods (recreatePods env) s1 of
               (Some err, s2) \<Rightarrow> (Failure (Errorf ''could not recreate pods: %v'' [err]), s2)
             | (None, s2) \<Rightarrow>
                 (case act (EvApplyRollingUpdateFlagforStatefulSet False)
                         (applyRollingUpdateFlagforStatefulSet env False) s2 of
                    (Some err, s3) \<Rightarrow>
                      (Success, logline (Warningf ''could not clear rolling update for the statefulset: %v'') s3)
                  | (None, s3) \<Rightarrow> (Success, s3)))
          else (Success, s1))"

text \<open>\<open>syncStatefulSet\<close> (lines 254-354).\<close>

definition syncStatefulSet :: "'w env \<Rightarrow> 'w st \<Rightarrow> outcome \<times> 'w st" where
  "syncStatefulSet env s0 =
     (case kube (EvStatefulSetsGet (Namespace (cl s0)) (statefulSetName env (cl s0)))
             (StatefulSetsGet env (Namespace (cl s0)) (statefulSetName env (cl s0))) s0 of
        (Fail _ err, s1) \<Rightarrow>
          if \<not> ResourceNotFound env err
          then (Failure (Errorf ''could not get statefulset: %v'' [err]), s1)
          else
            (case act EvListPods (listPods env) (upd (\<lambda>c. c\<lparr>Statefulset := None\<rparr>) s1) of
               (Fail _ err, s2) \<Rightarrow>
                 (Failure (Errorf ''could not list pods of the statefulset: %v'' [err]), s2)
             | (Ok pods, s2) \<Rightarrow>
                 (case act EvCreateStatefulSet (createStatefulSet env) s2 of
                    (Fail _ err, s3) \<Rightarrow>
                      (Failure (Errorf ''could not create missing statefulset: %v'' [err]), s3)
                  | (Ok sset, s3) \<Rightarrow>
                      (case act EvWaitStatefulsetPodsReady (waitStatefulsetPodsReady env) s3 of
                         (Some err, s4) \<Rightarrow> (Failure (Errorf ''cluster is not ready: %v'' [err]), s4)
                       | (None, s4) \<Rightarrow>
                           (let podsRollingUpdateRequired = (length pods > 0)
                            in if podsRollingUpdateRequired
                               then
                                 (case act (EvApplyRollingUpdateFlagforStatefulSet podsRollingUpdateRequired)
                                         (applyRollingUpdateFlagforStatefulSet env podsRollingUpdateRequired)
                                         (logline (Warningf ''found pods from the previous statefulset: trigger rolling update'') s4) of
                                    (Some err, s5) \<Rightarrow>
                                      (Failure (Errorf ''could not set rolling update flag for the statefulset: %v'' [err]), s5)
                                  | (None, s5) \<Rightarrow>
                                      syncStatefulSet_finish env podsRollingUpdateRequired s5)
                               else syncStatefulSet_finish env podsRollingUpdateRequired s4))))
      | (Ok sset, s1) \<Rightarrow>
          (let podsRollingUpdateRequired = mergeRollingUpdateFlagUsingCache env sset (cl s1);
               s2 = upd (\<lambda>c. c\<lparr>Statefulset := Some sset\<rparr>) s1
           in case syncPgVersion env (Containers sset) s2 of
                (Some err, s3) \<Rightarrow> (Failure err, s3)
              | (None, s3) \<Rightarrow>
                  (case generateStatefulSet env (Spec (Postgresql (cl s3))) (cl s3) of
                     Fail _ err \<Rightarrow> (Failure (Errorf ''could not generate statefulset: %v'' [err]), s3)
                   | Ok generated \<Rightarrow>
                       (let desiredSS = setRollingUpdateFlagForStatefulSet env generated
                                          podsRollingUpdateRequired (cl s3);
                            cmp = compareStatefulSetWith env desiredSS (cl s3)
                        in if \<not> match cmp
                           then
                             (let raise = (rollingUpdate cmp \<and> \<not> podsRollingUpdateRequired);
                                  podsRollingUpdateRequired' =
                                    (if raise then True else podsRollingUpdateRequired);
                                  desiredSS' =
                                    (if raise
                                     then setRollingUpdateFlagForStatefulSet env desiredSS True (cl s3)
                                     else desiredSS)
                              in if \<not> replace cmp
                                 then
                                   (case act (EvUpdateStatefulSet desiredSS')
                                           (updateStatefulSet env desiredSS') s3 of
                                      (Some err, s4) \<Rightarrow>
                                        (Failure (Errorf ''could not update statefulset: %v'' [err]), s4)
                                    | (None, s4) \<Rightarrow>
                                        syncStatefulSet_finish env podsRollingUpdateRequired' s4)
                                 else
                                   (case act (EvReplaceStatefulSet desiredSS')
                                           (replaceStatefulSet env desiredSS') s3 of
                                      (Some err, s4) \<Rightarrow>
                                        (Failure (Errorf ''could not replace statefulset: %v'' [err]), s4)
                                    | (None, s4) \<Rightarrow>
                                        syncStatefulSet_finish env podsRollingUpdateRequired' s4))
                           else syncStatefulSet_finish env podsRollingUpdateRequired s3))))"

subsection \<open>Secrets\<close>

text \<open>Reading a key that a Go map does not hold gives the zero value.\<close>

definition lookupUser :: "'w env \<Rightarrow> (string \<times> PgUser) list \<Rightarrow> string \<Rightarrow> PgUser" where
  "lookupUser env userMap k =
     (case map_of userMap k of
        Some u \<Rightarrow> u
      | None \<Rightarrow> \<lparr>Name = [], Password = [], Origin = zeroRoleOrigin env\<rparr>)"

definition secretData :: "Secret \<Rightarrow> string \<Rightarrow> string" where
  "secretData secret k = (case map_of (Data secret) k of Some v \<Rightarrow> v | None \<Rightarrow> [])"

text \<open>\<open>userMap\<close> is \<open>c.systemUsers\<close> or \<open>c.pgUsers\<close>; a write through it writes that map.\<close>

definition setUser :: "bool \<Rightarrow> string \<Rightarrow> PgUser \<Rightarrow> 'w Cluster \<Rightarrow> 'w Cluster" where
  "setUser system k u c =
     (if system then c\<lparr>systemUsers := AList.update k u (systemUsers c)\<rparr>
      else c\<lparr>pgUsers := AList.update k u (pgUsers c)\<rparr>)"

text \<open>
  The registry entry of a secret's user name (lines 423-431): the map, as
  \<open>True\<close> for \<open>c.systemUsers\<close>, and the key.
\<close>

definition userEntry :: "'w env \<Rightarrow> 'w Cluster \<Rightarrow> string \<Rightarrow> bool \<times> string" where
  "userEntry env c secretUsername =
     (if secretUsername = Name (lookupUser env (systemUsers c) (SuperuserKeyName env))
      then (True, SuperuserKeyName env)
      else if secretUsername = Name (lookupUser env (systemUsers c) (ReplicationUserKeyName env))
      then (True, ReplicationUserKeyName env)
      else (False, secretUsername))"

definition registry :: "'w Cluster \<Rightarrow> bool \<Rightarrow> (string \<times> PgUser) list" where
  "registry c system = (if system then systemUsers c else pgUsers c)"

text \<open>
  One turn of the loop of \<open>syncSecrets\<close> (lines 408-448); \<open>None\<close> goes on to the next
  secret, \<open>Some err\<close> returns \<open>err\<close>.
\<close>

definition syncSecret :: "'w env \<Rightarrow> string \<Rightarrow> Secret \<Rightarrow> 'w st \<Rightarrow> error option \<times> 'w st" where
  "syncSecret env secretUsername secretSpec s0 =
     (case kube (EvSecretsCreate (SecretNamespace secretSpec) secretSpec)
             (SecretsCreate env (SecretNamespace secretSpec) secretSpec) s0 of
        (Ok secret, s1) \<Rightarrow>
          (None, upd (\<lambda>c. c\<lparr>Secrets := AList.update (SecretUID secret) secret (Secrets c)\<rparr>) s1)
      | (Fail _ err, s1) \<Rightarrow>
          if ResourceAlreadyExists env err
          then
            (case kube (EvSecretsGet (SecretNamespace secretSpec) (SecretName secretSpec))
                    (SecretsGet env (SecretNamespace secretSpec) (SecretName secretSpec)) s1 of
               (Fail _ err, s2) \<Rightarrow> (Some (Errorf ''could not get current secret: %v'' [err]), s2)
             | (Ok secret, s2) \<Rightarrow>
                 if secretUsername \<noteq> secretData secret ''username''
                 then (None, logline (Warningf ''secret %q does not contain the role %q'') s2)
                 else
                   (case userEntry env (cl s2) secretUsername of
                      (system, k) \<Rightarrow>
                        (let pwdUser = lookupUser env (registry (cl s2) system) k
                         in if Password pwdUser \<noteq> secretData secret ''password''
                               \<and> Origin pwdUser = RoleOriginInfrastructure
                            then
                              (case kube (EvSecretsUpdate (SecretNamespace secretSpec) secretSpec)
                                      (SecretsUpdate env (SecretNamespace secretSpec) secretSpec) s2 of
                                 (Fail _ err, s3) \<Rightarrow>
                                   (Some (Errorf ''could not update infrastructure role secret for role %q: %v'' [err]), s3)
                               | (Ok _, s3) \<Rightarrow> (None, s3))
                            else
                              (None,
                               upd (setUser system k
                                      (pwdUser\<lparr>Password := secretData secret ''password''\<rparr>)) s2))))
          else (Some (Errorf ''could not create secret for user %q: %v'' [err]), s1))"

fun syncSecretsLoop :: "'w env \<Rightarrow> (string \<times> Secret) list \<Rightarrow> 'w st \<Rightarrow> error option \<times> 'w st" where
  "syncSecretsLoop env [] s = (None, s)"
| "syncSecretsLoop env ((secretUsername, secretSpec) # secrets) s =
     (case syncSecret env secretUsername secretSpec s of
        (Some err, s1) \<Rightarrow> (Some err, s1)
      | (None, s1) \<Rightarrow> syncSecretsLoop env secrets s1)"

text \<open>\<open>syncSecrets\<close> (lines 399-452).\<close>

definition syncSecrets :: "'w env \<Rightarrow> 'w st \<Rightarrow> outcome \<times> 'w st" where
  "syncSecrets env s =
     (case syncSecretsLoop env (generateUserSecrets env (cl s)) s of (r, s1) \<Rightarrow> (ret r, s1))"


subsection \<open>Roles, volumes and databases\<close>

text \<open>The body of \<open>syncRoles\<close> after the connection is open (lines 477-500).\<close>

definition syncRoles_body :: "'w env \<Rightarrow> 'w st \<Rightarrow> error option \<times> 'w st" where
  "syncRoles_body env s0 =
     (let userNames = map (\<lambda>(k, u). Name u) (pgUsers (cl s0));
          connPoolUser = lookupUser env (systemUsers (cl s0)) (ConnectionPoolUserKeyName env);
          userNames' =
            (if needConnectionPool env (cl s0) then userNames @ [Name connPoolUser] else userNames);
          s1 =
            (if needConnectionPool env (cl s0) \<and> map_of (pgUsers (cl s0)) (Name connPoolUser) = None
             then upd (\<lambda>c. c\<lparr>pgUsers := AList.update (Name connPoolUser) connPoolUser (pgUsers c)\<rparr>) s0
             else s0)
      in case act (EvReadPgUsersFromDatabase userNames') (readPgUsersFromDatabase env userNames') s1 of
           (Fail _ err, s2) \<Rightarrow> (Some (Errorf ''error getting users from the database: %v'' [err]), s2)
         | (Ok dbUsers, s2) \<Rightarrow>
             (let pgSyncRequests = ProduceSyncRequests env dbUsers (pgUsers (cl s2))
              in case act (EvExecuteSyncRequests pgSyncRequests)
                        (ExecuteSyncRequests env pgSyncRequests) s2 of
                   (Some err, s3) \<Rightarrow> (Some (Errorf ''error executing sync statements: %v'' [err]), s3)
                 | (None, s3) \<Rightarrow> (None, s3)))"

text \<open>
  \<open>syncRoles\<close> (lines 454-501).  The deferred function closes the connection after the
  body and rewrites the named result \<open>err\<close> when closing fails.
\<close>

definition syncRoles :: "'w env \<Rightarrow> 'w st \<Rightarrow> outcome \<times> 'w st" where
  "syncRoles env s0 =
     (case act EvInitDbConn (initDbConn env) s0 of
        (Some err, s1) \<Rightarrow> (Failure (Errorf ''could not init db connection: %v'' [err]), s1)
      | (None, s1) \<Rightarrow>
          (case syncRoles_body env s1 of
             (err, s2) \<Rightarrow>
               (case act EvCloseDbConn (closeDbConn env) s2 of
                  (None, s3) \<Rightarrow> (ret err, s3)
                | (Some err2, s3) \<Rightarrow>
                    (case err of
                       None \<Rightarrow>
                         (Failure (Errorf ''could not close database connection: %v'' [err2]), s3)
                     | Some prior \<Rightarrow>
                         (Failure (Errorf ''could not close database connection: %v (prior error: %v)''
                                     [err2, prior]), s3)))))"

text \<open>\<open>syncVolumes\<close> (lines 504-521).\<close>

definition syncVolumes :: "'w env \<Rightarrow> 'w st \<Rightarrow> outcome \<times> 'w st" where
  "syncVolumes env s0 =
     (case act (EvVolumesNeedResizing (Volume (Spec (Postgresql (cl s0)))))
             (volumesNeedResizing env (Volume (Spec (Postgresql (cl s0))))) s0 of
        (Fail _ err, s1) \<Rightarrow> (Failure (Errorf ''could not compare size of the volumes: %v'' [err]), s1)
      | (Ok needed, s1) \<Rightarrow>
          if \<not> needed then (Success, s1)
          else
            (case act (EvResizeVolumes (Volume (Spec (Postgresql (cl s1)))) [AWSRegion (OpConfig (cl s1))])
                    (resizeVolumes env (Volume (Spec (Postgresql (cl s1)))) [AWSRegion (OpConfig (cl s1))])
                    s1 of
               (Some err, s2) \<Rightarrow> (Failure (Errorf ''could not sync volumes: %v'' [err]), s2)
             | (None, s2) \<Rightarrow> (Success, s2)))"

text \<open>
  The loop over the declared databases (lines 543-550), filling \<open>createDatabases\<close> and
  \<open>alterOwnerDatabases\<close>.
\<close>

fun partitionDatabases ::
  "(string \<times> string) list \<Rightarrow> (string \<times> string) list \<Rightarrow>
   (string \<times> string) list \<times> (string \<times> string) list \<Rightarrow>
   (string \<times> string) list \<times> (string \<times> string) list" where
  "partitionDatabases currentDatabases [] acc = acc"
| "partitionDatabases currentDatabases ((datname, newOwner) # declared) (createDatabases, alterOwnerDatabases) =
     (case map_of currentDatabases datname of
        None \<Rightarrow>
          partitionDatabases currentDatabases declared
            (AList.update datname newOwner createDatabases, alterOwnerDatabases)
      | Some currentOwner \<Rightarrow>
          if currentOwner \<noteq> newOwner
          then partitionDatabases currentDatabases declared
                 (createDatabases, AList.update datname newOwner alterOwnerDatabases)
          else partitionDatabases currentDatabases declared (createDatabases, alterOwnerDatabases))"

fun executeCreateDatabases :: "'w env \<Rightarrow> (string \<times> string) list \<Rightarrow> 'w st \<Rightarrow> error option \<times> 'w st" where
  "executeCreateDatabases env [] s = (None, s)"
| "executeCreateDatabases env ((datname, owner) # rest) s =
     (case act (EvExecuteCreateDatabase datname owner) (executeCreateDatabase env datname owner) s of
        (Some err, s1) \<Rightarrow> (Some err, s1)
      | (None, s1) \<Rightarrow> executeCreateDatabases env rest s1)"

fun executeAlterDatabaseOwners :: "'w env \<Rightarrow> (string \<times> string) list \<Rightarrow> 'w st \<Rightarrow> error option \<times> 'w st" where
  "executeAlterDatabaseOwners env [] s = (None, s)"
| "executeAlterDatabaseOwners env ((datname, owner) # rest) s =
     (case act (EvExecuteAlterDatabaseOwner datname owner) (executeAlterDatabaseOwner env datname owner) s of
        (Some err, s1) \<Rightarrow> (Some err, s1)
      | (None, s1) \<Rightarrow> executeAlterDatabaseOwners env rest s1)"

text \<open>The body of \<open>syncDatabases\<close> after the connection is open (lines 538-567).\<close>

definition syncDatabases_body :: "'w env \<Rightarrow> 'w st \<Rightarrow> error option \<times> 'w st" where
  "syncDatabases_body env s0 =
     (case act EvGetDatabases (getDatabases env) s0 of
        (Fail _ err, s1) \<Rightarrow> (Some (Errorf ''could not get current databases: %v'' [err]), s1)
      | (Ok currentDatabases, s1) \<Rightarrow>
          (case partitionDatabases currentDatabases (Databases (Spec (Postgresql (cl s1)))) ([], []) of
             (createDatabases, alterOwnerDatabases) \<Rightarrow>
               if length createDatabases + length alterOwnerDatabases = 0 then (None, s1)
               else
                 (case executeCreateDatabases env createDatabases s1 of
                    (Some err, s2) \<Rightarrow> (Some err, s2)
                  | (None, s2) \<Rightarrow> executeAlterDatabaseOwners env alterOwnerDatabases s2)))"

text \<open>
  \<open>syncDatabases\<close> (lines 523-568).  The result is unnamed: the deferred function
  closes the connection and writes a failure to close to the log.
\<close>

definition syncDatabases :: "'w env \<Rightarrow> 'w st \<Rightarrow> outcome \<times> 'w st" where
  "syncDatabases env s0 =
     (case act EvInitDbConn (initDbConn env) s0 of
        (Some err, s1) \<Rightarrow> (Failure (Errorf ''could not init database connection'' []), s1)
      | (None, s1) \<Rightarrow>
          (case syncDatabases_body env s1 of
             (r, s2) \<Rightarrow>
               (case act EvCloseDbConn (closeDbConn env) s2 of
                  (Some err, s3) \<Rightarrow>
                    (ret r, logline (Errorlog ''could not close database connection: %v'') s3)
                | (None, s3) \<Rightarrow> (ret r, s3))))"

subsection \<open>Logical backup job\<close>

text \<open>\<open>syncLogicalBackupJob\<close> (lines 570-621).\<close>

definition syncLogicalBackupJob :: "'w env \<Rightarrow> 'w st \<Rightarrow> outcome \<times> 'w st" where
  "syncLogicalBackupJob env s0 =
     (let jobName = getLogicalBackupJobName env (cl s0)
      in case kube (EvCronJobsGet (Namespace (cl s0)) jobName)
                (CronJobsGet env (Namespace (cl s0)) jobName) s0 of
           (Ok job, s1) \<Rightarrow>
             (case generateLogicalBackupJob env (cl s1) of
                Fail _ err \<Rightarrow>
                  (Failure (Errorf ''could not generate the desired logical backup job state: %v'' [err]), s1)
              | Ok desiredJob \<Rightarrow>
                  if \<not> fst (SameLogicalBackupJob env job desiredJob)
                  then
                    (case act (EvPatchLogicalBackupJob desiredJob) (patchLogicalBackupJob env desiredJob) s1 of
                       (Some err, s2) \<Rightarrow>
                         (Failure (Errorf ''could not update logical backup job to match desired state: %v'' [err]), s2)
                     | (None, s2) \<Rightarrow> (Success, s2))
                  else (Success, s1))
         | (Fail _ err, s1) \<Rightarrow>
             if \<not> ResourceNotFound env err
             then (Failure (Errorf ''could not get logical backp job: %v'' [err]), s1)
             else
               (case act EvCreateLogicalBackupJob (createLogicalBackupJob env) s1 of
                  (None, s2) \<Rightarrow> (Success, s2)
                | (Some err, s2) \<Rightarrow>
                    if \<not> ResourceAlreadyExists env err
                    then (Failure (Errorf ''could not create missing logical backup job: %v'' [err]), s2)
                    else
                      (case kube (EvCronJobsGet (Namespace (cl s2)) jobName)
                              (CronJobsGet env (Namespace (cl s2)) jobName) s2 of
                         (Fail _ err, s3) \<Rightarrow>
                           (Failure (Errorf ''could not fetch existing logical backup job: %v'' [err]), s3)
                       | (Ok _, s3) \<Rightarrow> (Success, s3))))"

subsection \<open>Connection pool\<close>

text \<open>
  Modelled from the spec: \<open>util.Coalesce\<close>, declared outside this file ("explicit pool
  config value, else operator-wide default").
\<close>

definition Coalesce :: "string \<Rightarrow> string \<Rightarrow> string" where
  "Coalesce val defaultVal = (if val = [] then defaultVal else val)"

text \<open>
  Writing a field of \<open>c.ConnectionPool\<close> goes through the pointer, and panics when the
  pointer is nil.
\<close>

definition setPoolDeployment :: "Deployment \<Rightarrow> 'w st \<Rightarrow> 'w st option" where
  "setPoolDeployment deployment s =
     (case ConnectionPool (cl s) of
        None \<Rightarrow> None
      | Some cp \<Rightarrow> Some (upd (\<lambda>c. c\<lparr>ConnectionPool := Some (cp\<lparr>Deployment := Some deployment\<rparr>)\<rparr>) s))"

definition setPoolService :: "Service \<Rightarrow> 'w st \<Rightarrow> 'w st option" where
  "setPoolService service s =
     (case ConnectionPool (cl s) of
        None \<Rightarrow> None
      | Some cp \<Rightarrow> Some (upd (\<lambda>c. c\<lparr>ConnectionPool := Some (cp\<lparr>Service := Some service\<rparr>)\<rparr>) s))"

text \<open>The service half of \<open>syncConnectionPoolWorker\<close> (lines 757-782).\<close>

definition syncConnectionPoolWorker_service ::
  "'w env \<Rightarrow> acid_Postgresql \<Rightarrow> 'w st \<Rightarrow> outcome \<times> 'w st" where
  "syncConnectionPoolWorker_service env newSpec s0 =
     (case kube (EvServicesGet (Namespace (cl s0)) (connPoolName env (cl s0)))
             (ServicesGet env (Namespace (cl s0)) (connPoolName env (cl s0))) s0 of
        (Fail _ err, s1) \<Rightarrow>
          if ResourceNotFound env err
          then
            (let s1w =
                   logline (Warningf ''Service %s for connection pool synchronization is not found, create it'')
                     s1;
                 serviceSpec = generateConnPoolService env (Spec newSpec) (cl s1w)
             in case kube (EvServicesCreate (objNamespace serviceSpec) serviceSpec)
                       (ServicesCreate env (objNamespace serviceSpec) serviceSpec) s1w of
                  (Fail _ err, s2) \<Rightarrow> (Failure err, s2)
                | (Ok service, s2) \<Rightarrow>
                    (case setPoolService service s2 of
                       None \<Rightarrow> (Panic, s2)
                     | Some s3 \<Rightarrow> (Success, s3)))
          else (Failure (Errorf ''could not get connection pool service to sync: %v'' [err]), s1)
      | (Ok service, s1) \<Rightarrow>
          (case setPoolService service s1 of
             None \<Rightarrow> (Panic, s1)
           | Some s2 \<Rightarrow> (Success, s2)))"

text \<open>\<open>syncConnectionPoolWorker\<close> (lines 697-783).\<close>

definition syncConnectionPoolWorker ::
  "'w env \<Rightarrow> acid_Postgresql \<Rightarrow> acid_Postgresql \<Rightarrow> 'w st \<Rightarrow> outcome \<times> 'w st" where
  "syncConnectionPoolWorker env oldSpec newSpec s0 =
     (case kube (EvDeploymentsGet (Namespace (cl s0)) (connPoolName env (cl s0)))
             (DeploymentsGet env (Namespace (cl s0)) (connPoolName env (cl s0))) s0 of
        (Fail _ err, s1) \<Rightarrow>
          if ResourceNotFound env err
          then
            (let s1w =
                   logline
                     (Warningf ''Deployment %s for connection pool synchronization is not found, create it'') s1
             in case generateConnPoolDeployment env (Spec newSpec) (cl s1w) of
                  Fail _ err \<Rightarrow>
                    (Failure (Errorf ''could not generate deployment for connection pool: %v'' [err]), s1w)
                | Ok deploymentSpec \<Rightarrow>
                    (case kube (EvDeploymentsCreate (objNamespace deploymentSpec) deploymentSpec)
                            (DeploymentsCreate env (objNamespace deploymentSpec) deploymentSpec) s1w of
                       (Fail _ err, s2) \<Rightarrow> (Failure err, s2)
                     | (Ok deployment, s2) \<Rightarrow>
                         (case setPoolDeployment deployment s2 of
                            None \<Rightarrow> (Panic, s2)
                          | Some s3 \<Rightarrow> syncConnectionPoolWorker_service env newSpec s3)))
          else (Failure (Errorf ''could not get connection pool deployment to sync: %v'' [err]), s1)
      | (Ok deployment, s1) \<Rightarrow>
          (case setPoolDeployment deployment s1 of
             None \<Rightarrow> (Panic, s1)
           | Some s2 \<Rightarrow>
               (let oldConnPool = SpecConnectionPool (Spec oldSpec);
                    newConnPool = SpecConnectionPool (Spec newSpec);
                    specSync = fst (needSyncConnPoolSpecs env oldConnPool newConnPool (cl s2));
                    defaultsSync = fst (needSyncConnPoolDefaults env newConnPool deployment (cl s2))
                in if specSync \<or> defaultsSync
                   then
                     (case generateConnPoolDeployment env (Spec newSpec) (cl s2) of
                        Fail _ err \<Rightarrow>
                          (Failure (Errorf ''could not generate deployment for connection pool: %v'' [err]), s2)
                      | Ok newDeploymentSpec \<Rightarrow>
                          (case act (EvUpdateConnPoolDeployment deployment newDeploymentSpec)
                                  (updateConnPoolDeployment env deployment newDeploymentSpec) s2 of
                             (Fail _ err, s3) \<Rightarrow> (Failure err, s3)
                           | (Ok updated, s3) \<Rightarrow>
                               (case setPoolDeployment updated s3 of
                                  None \<Rightarrow> (Panic, s3)
                                | Some s4 \<Rightarrow> (Success, s4))))
                   else syncConnectionPoolWorker_service env newSpec s2)))"

text \<open>The removal of the pool (the call and its warning, lines 673-675 and 684-686).\<close>

definition removeConnectionPool :: "'w env \<Rightarrow> 'w st \<Rightarrow> 'w st" where
  "removeConnectionPool env s =
     (case act EvDeleteConnectionPool (deleteConnectionPool env) s of
        (Some err, s1) \<Rightarrow> logline (Warningf ''could not remove connection pool: %v'') s1
      | (None, s1) \<Rightarrow> s1)"

text \<open>The two removal cases at the end of \<open>syncConnectionPool\<close> (lines 671-690).\<close>

definition syncConnectionPool_cleanup :: "'w env \<Rightarrow> bool \<Rightarrow> bool \<Rightarrow> 'w st \<Rightarrow> outcome \<times> 'w st" where
  "syncConnectionPool_cleanup env oldNeedConnPool newNeedConnPool s0 =
     (let s1 = (if oldNeedConnPool \<and> \<not> newNeedConnPool then removeConnectionPool env s0 else s0);
          s2 =
            (if \<not> oldNeedConnPool \<and> \<not> newNeedConnPool
             then
               (case ConnectionPool (cl s1) of
                  None \<Rightarrow> s1
                | Some cp \<Rightarrow>
                    if Deployment cp \<noteq> None \<or> Service cp \<noteq> None then removeConnectionPool env s1 else s1)
             else s1)
      in (Success, s2))"

text \<open>Lines 624-626: an empty bundle of pool objects when the cluster has none.\<close>

definition ensureConnectionPool :: "'w Cluster \<Rightarrow> 'w Cluster" where
  "ensureConnectionPool c =
     (if ConnectionPool c = None
      then c\<lparr>ConnectionPool := Some \<lparr>Deployment = None, Service = None, LookupFunction = False\<rparr>\<rparr>
      else c)"

text \<open>The schema and the user of the lookup function (lines 642-658).\<close>

definition lookupSchema :: "acid_Postgresql \<Rightarrow> 'w Cluster \<Rightarrow> string" where
  "lookupSchema newSpec c =
     Coalesce (case SpecConnectionPool (Spec newSpec) of None \<Rightarrow> [] | Some newConnPool \<Rightarrow> Schema newConnPool)
       (ConfigSchema (ConfigConnectionPool (OpConfig c)))"

definition lookupUserName :: "acid_Postgresql \<Rightarrow> 'w Cluster \<Rightarrow> string" where
  "lookupUserName newSpec c =
     Coalesce (case SpecConnectionPool (Spec newSpec) of None \<Rightarrow> [] | Some newConnPool \<Rightarrow> User newConnPool)
       (ConfigUser (ConfigConnectionPool (OpConfig c)))"

text \<open>\<open>syncConnectionPool\<close> (lines 623-691).\<close>

definition syncConnectionPool ::
  "'w env \<Rightarrow> acid_Postgresql \<Rightarrow> acid_Postgresql \<Rightarrow>
   (string \<Rightarrow> string \<Rightarrow> 'w Cluster \<Rightarrow> error option \<times> 'w Cluster) \<Rightarrow> 'w st \<Rightarrow> outcome \<times> 'w st" where
  "syncConnectionPool env oldSpec newSpec lookup s =
     (let s0 = upd ensureConnectionPool s;
          newNeedConnPool = needConnectionPoolWorker env (Spec newSpec) (cl s0);
          oldNeedConnPool = needConnectionPoolWorker env (Spec oldSpec) (cl s0)
      in if newNeedConnPool
         then
           (case ConnectionPool (cl s0) of
              None \<Rightarrow> (Panic, s0)
            | Some cp \<Rightarrow>
                (case (if \<not> oldNeedConnPool \<or> \<not> LookupFunction cp
                       then
                         (let schema = lookupSchema newSpec (cl s0);
                              user = lookupUserName newSpec (cl s0)
                          in act (EvInstallLookupFunction schema user) (lookup schema user) s0)
                       else (None, s0)) of
                   (Some err, s1) \<Rightarrow> (Failure err, s1)
                 | (None, s1) \<Rightarrow>
                     (case syncConnectionPoolWorker env oldSpec newSpec s1 of
                        (Failure err, s2) \<Rightarrow>
                          (Failure err, logline (Errorlog ''could not sync connection pool: %v'') s2)
                      | (Panic, s2) \<Rightarrow> (Panic, s2)
                      | (Success, s2) \<Rightarrow>
                          syncConnectionPool_cleanup env oldNeedConnPool newNeedConnPool s2)))
         else syncConnectionPool_cleanup env oldNeedConnPool newNeedConnPool s0)"


subsection \<open>The pass\<close>

text \<open>
  The body of \<open>Sync\<close> answers its result together with the value that the local
  variable \<open>err\<close> holds on the way out, which the deferred function reads.  A step
  that fails leaves \<open>err\<close> holding the wrapped error.
\<close>

definition failed :: "string \<Rightarrow> error \<Rightarrow> 'w st \<Rightarrow> (outcome \<times> error option) \<times> 'w st" where
  "failed context err s =
     ((Failure (Errorf context [err]), Some (Errorf context [err])), s)"

text \<open>Lines 113-118: the connection pool, whose error is wrapped in the return only.\<close>

definition Sync_connectionPool ::
  "'w env \<Rightarrow> acid_Postgresql \<Rightarrow> acid_Postgresql \<Rightarrow> 'w st \<Rightarrow> (outcome \<times> error option) \<times> 'w st" where
  "Sync_connectionPool env oldSpec newSpec s0 =
     (case syncConnectionPool env oldSpec newSpec (installLookupFunction env) s0 of
        (Failure err, s1) \<Rightarrow>
          ((Failure (Errorf ''could not sync connection pool: %v'' [err]), Some err), s1)
      | (Panic, s1) \<Rightarrow> ((Panic, None), s1)
      | (Success, s1) \<Rightarrow> ((Success, None), s1))"

text \<open>The condition of line 90 for the logical backup job, and of line 100 for roles and databases.\<close>

definition logicalBackupWanted :: "'w env \<Rightarrow> 'w Cluster \<Rightarrow> bool" where
  "logicalBackupWanted env c =
     (EnableLogicalBackup (Spec (Postgresql c)) \<and> getNumberOfInstances env (Spec (Postgresql c)) c > 0)"

definition databaseObjectsWanted :: "'w env \<Rightarrow> acid_Postgresql \<Rightarrow> 'w Cluster \<Rightarrow> bool" where
  "databaseObjectsWanted env newSpec c =
     (\<not> (databaseAccessDisabled env c
          \<or> getNumberOfInstances env (Spec newSpec) c \<le> 0
          \<or> StandbyCluster (Spec (Postgresql c)) \<noteq> None))"

text \<open>Lines 99-118: roles and databases when database access is on, then the pool.\<close>

definition Sync_databases ::
  "'w env \<Rightarrow> acid_Postgresql \<Rightarrow> acid_Postgresql \<Rightarrow> 'w st \<Rightarrow> (outcome \<times> error option) \<times> 'w st" where
  "Sync_databases env oldSpec newSpec s0 =
     (if databaseObjectsWanted env newSpec (cl s0)
      then
        (case syncRoles env s0 of
           (Failure err, s1) \<Rightarrow> failed ''could not sync roles: %v'' err s1
         | (Panic, s1) \<Rightarrow> ((Panic, None), s1)
         | (Success, s1) \<Rightarrow>
             (case syncDatabases env s1 of
                (Failure err, s2) \<Rightarrow> failed ''could not sync databases: %v'' err s2
              | (Panic, s2) \<Rightarrow> ((Panic, None), s2)
              | (Success, s2) \<Rightarrow> Sync_connectionPool env oldSpec newSpec s2))
      else Sync_connectionPool env oldSpec newSpec s0)"

text \<open>
  Lines 83-118, entered with the value \<open>err0\<close> of \<open>err\<close> after the statefulset step:
  nil, or the already-exists error that the step was forgiven.
\<close>

definition Sync_afterStatefulSet ::
  "'w env \<Rightarrow> acid_Postgresql \<Rightarrow> acid_Postgresql \<Rightarrow> error option \<Rightarrow> 'w st \<Rightarrow>
   (outcome \<times> error option) \<times> 'w st" where
  "Sync_afterStatefulSet env oldSpec newSpec err0 s0 =
     (case syncPodDisruptionBudget env False s0 of
        (Failure err, s1) \<Rightarrow> failed ''could not sync pod disruption budget: %v'' err s1
      | (Panic, s1) \<Rightarrow> ((Panic, err0), s1)
      | (Success, s1) \<Rightarrow>
          if logicalBackupWanted env (cl s1)
          then
            (case syncLogicalBackupJob env s1 of
               (Failure err, s2) \<Rightarrow> failed ''could not sync the logical backup job: %v'' err s2
             | (Panic, s2) \<Rightarrow> ((Panic, None), s2)
             | (Success, s2) \<Rightarrow> Sync_databases env oldSpec newSpec s2)
          else Sync_databases env oldSpec newSpec s1)"

text \<open>Lines 39-118.\<close>

definition Sync_body ::
  "'w env \<Rightarrow> acid_Postgresql \<Rightarrow> acid_Postgresql \<Rightarrow> 'w st \<Rightarrow> (outcome \<times> error option) \<times> 'w st" where
  "Sync_body env oldSpec newSpec s0 =
     (case act EvInitUsers (initUsers env) s0 of
        (Some err, s1) \<Rightarrow> failed ''could not init users: %v'' err s1
      | (None, s1) \<Rightarrow>
          (case syncSecrets env s1 of
             (Failure err, s2) \<Rightarrow> failed ''could not sync secrets: %v'' err s2
           | (Panic, s2) \<Rightarrow> ((Panic, None), s2)
           | (Success, s2) \<Rightarrow>
               (case syncServices env s2 of
                  (Failure err, s3) \<Rightarrow> failed ''could not sync services: %v'' err s3
                | (Panic, s3) \<Rightarrow> ((Panic, None), s3)
                | (Success, s3) \<Rightarrow>
                    (case syncVolumes env s3 of
                       (Failure err, s4) \<Rightarrow> failed ''could not sync persistent volumes: %v'' err s4
                     | (Panic, s4) \<Rightarrow> ((Panic, None), s4)
                     | (Success, s4) \<Rightarrow>
                         (case act EvEnforceMinResourceLimits (enforceMinResourceLimits env) s4 of
                            (Some err, s5) \<Rightarrow>
                              failed ''could not enforce minimum resource limits: %v'' err s5
                          | (None, s5) \<Rightarrow>
                              (case syncStatefulSet env s5 of
                                 (Failure err, s6) \<Rightarrow>
                                   if \<not> ResourceAlreadyExists env err
                                   then failed ''could not sync statefulsets: %v'' err s6
                                   else Sync_afterStatefulSet env oldSpec newSpec (Some err) s6
                               | (Panic, s6) \<Rightarrow> ((Panic, None), s6)
                               | (Success, s6) \<Rightarrow>
                                   Sync_afterStatefulSet env oldSpec newSpec None s6))))))"

text \<open>
  \<open>Sync\<close> (lines 22-119).  The deferred function sets the status from \<open>err\<close>, also
  when the body panics.  The cluster lock is not part of the model: a pass runs alone.
\<close>

definition Sync_deferred :: "'w env \<Rightarrow> error option \<Rightarrow> 'w st \<Rightarrow> 'w st" where
  "Sync_deferred env err s =
     (case err of
        Some e \<Rightarrow>
          act0 (EvSetStatus ClusterStatusSyncFailed) (setStatus env ClusterStatusSyncFailed)
            (logline (Warningf ''error while syncing cluster state: %v'') s)
      | None \<Rightarrow>
          if \<not> Running env (Status (Postgresql (cl s)))
          then act0 (EvSetStatus ClusterStatusRunning) (setStatus env ClusterStatusRunning) s
          else s)"

definition Sync :: "'w env \<Rightarrow> acid_Postgresql \<Rightarrow> 'w st \<Rightarrow> outcome \<times> 'w st" where
  "Sync env newSpec s0 =
     (let oldSpec = Postgresql (cl s0);
          s1 = act0 (EvSetSpec newSpec) (setSpec env newSpec) s0
      in case Sync_body env oldSpec newSpec s1 of
           ((r, err), s2) \<Rightarrow> (r, Sync_deferred env err s2))"


section \<open>A steady environment\<close>

text \<open>
  An environment in which every resource exists and matches its desired definition, no
  call fails and nothing outside the pass changes anything, for any type of world.
  A create call is answered with the already-exists error, a failed call hands back a
  nil pointer.  The examples below change single answers of it.
\<close>

definition NotFound :: error where
  "NotFound = ApiError ''NotFound''"

definition AlreadyExists :: error where
  "AlreadyExists = ApiError ''AlreadyExists''"

definition roleName :: "PostgresRole \<Rightarrow> string" where
  "roleName role = (case role of Master \<Rightarrow> ''acid-test'' | Replica \<Rightarrow> ''acid-test-repl'')"

definition postgresContainer :: Container where
  "postgresContainer = \<lparr>ContainerName = ''postgres'', ContainerImage = ''spilo''\<rparr>"

definition desiredStatefulSet :: StatefulSet where
  "desiredStatefulSet =
     \<lparr>SsetName = ''acid-test'', Containers = [postgresContainer], SsetSpec = ''statefulset''\<rparr>"

definition userSecret :: "string \<Rightarrow> PgUser \<Rightarrow> Secret" where
  "userSecret ns u =
     \<lparr>SecretNamespace = ns, SecretName = Name u, SecretUID = Name u,
      Data = [(''username'', Name u), (''password'', Password u)]\<rparr>"

definition liveSecret :: "string \<Rightarrow> string \<Rightarrow> Secret" where
  "liveSecret ns n =
     \<lparr>SecretNamespace = ns, SecretName = n, SecretUID = n,
      Data = [(''username'', n), (''password'', ''live'')]\<rparr>"

definition steadyEnv :: "'w env" where
  "steadyEnv =
     \<lparr>ServicesGet = (\<lambda>ns n w. (Ok (K8sObject ns n ''service''), w)),
      ServicesCreate = (\<lambda>ns svc w. (Fail None AlreadyExists, w)),
      EndpointsGet = (\<lambda>ns n w. (Ok (K8sObject ns n ''endpoints''), w)),
      PodDisruptionBudgetsGet = (\<lambda>ns n w. (Ok (K8sObject ns n ''pdb''), w)),
      StatefulSetsGet = (\<lambda>ns n w. (Ok desiredStatefulSet, w)),
      SecretsCreate = (\<lambda>ns secret w. (Fail None AlreadyExists, w)),
      SecretsGet = (\<lambda>ns n w. (Ok (liveSecret ns n), w)),
      SecretsUpdate = (\<lambda>ns secret w. (Ok secret, w)),
      CronJobsGet = (\<lambda>ns n w. (Ok (K8sObject ns n ''cronjob''), w)),
      DeploymentsGet = (\<lambda>ns n w. (Ok (K8sObject ns n ''deployment''), w)),
      DeploymentsCreate = (\<lambda>ns d w. (Fail None AlreadyExists, w)),
      SetPostgresParameters = (\<lambda>pod options w. (None, w)),
      ResourceNotFound = (\<lambda>err. err = NotFound),
      ResourceAlreadyExists = (\<lambda>err. err = AlreadyExists),
      SameService = (\<lambda>a b. (a = b, [])),
      SamePDB = (\<lambda>a b. (a = b, [])),
      SameLogicalBackupJob = (\<lambda>a b. (a = b, [])),
      isBootstrapOnlyParameter = (\<lambda>k. k = ''max_connections''),
      ProduceSyncRequests = (\<lambda>dbUsers newUsers. []),
      Running = (\<lambda>status. status = ClusterStatusRunning),
      SuperuserKeyName = ''superuser'',
      ReplicationUserKeyName = ''replication'',
      ConnectionPoolUserKeyName = ''pooler'',
      zeroRoleOrigin = RoleOriginOther 0,
      serviceName = (\<lambda>role c. roleName role),
      endpointName = (\<lambda>role c. roleName role),
      podDisruptionBudgetName = (\<lambda>c. ''postgres-acid-test-pdb''),
      statefulSetName = (\<lambda>c. ''acid-test''),
      getLogicalBackupJobName = (\<lambda>c. ''logical-backup-acid-test''),
      connPoolName = (\<lambda>c. ''acid-test-pooler''),
      generateService = (\<lambda>role spec c. K8sObject (Namespace c) (roleName role) ''service''),
      generatePodDisruptionBudget = (\<lambda>c. K8sObject (Namespace c) ''postgres-acid-test-pdb'' ''pdb''),
      generateStatefulSet = (\<lambda>spec c. Ok desiredStatefulSet),
      generateLogicalBackupJob = (\<lambda>c. Ok (K8sObject (Namespace c) ''logical-backup-acid-test'' ''cronjob'')),
      generateUserSecrets = (\<lambda>c. map (\<lambda>(k, u). (Name u, userSecret (Namespace c) u)) (pgUsers c)),
      generateConnPoolDeployment = (\<lambda>spec c. Ok (K8sObject (Namespace c) ''acid-test-pooler'' ''deployment'')),
      generateConnPoolService = (\<lambda>spec c. K8sObject (Namespace c) ''acid-test-pooler'' ''service''),
      compareStatefulSetWith =
        (\<lambda>desired c. \<lparr>match = (Statefulset c = Some desired), replace = False,
                       rollingUpdate = False, reasons = []\<rparr>),
      mergeRollingUpdateFlagUsingCache = (\<lambda>sset c. False),
      setRollingUpdateFlagForStatefulSet = (\<lambda>sset flag c. sset),
      getNewPgVersion = (\<lambda>container version c. Ok version),
      needConnectionPool = (\<lambda>c. SpecConnectionPool (Spec (Postgresql c)) \<noteq> None),
      needConnectionPoolWorker = (\<lambda>spec c. SpecConnectionPool spec \<noteq> None),
      needSyncConnPoolSpecs = (\<lambda>oldConnPool newConnPool c. (oldConnPool \<noteq> newConnPool, [])),
      needSyncConnPoolDefaults = (\<lambda>newConnPool deployment c. (False, [])),
      getNumberOfInstances = (\<lambda>spec c. 2),
      databaseAccessDisabled = (\<lambda>c. False),
      setSpec = (\<lambda>newSpec c. c\<lparr>Postgresql := newSpec\<rparr>),
      setStatus = (\<lambda>status c. c\<lparr>Postgresql := (Postgresql c)\<lparr>Status := status\<rparr>\<rparr>),
      initUsers = (\<lambda>c. (None, c)),
      enforceMinResourceLimits = (\<lambda>c. (None, c)),
      createService = (\<lambda>role c. (Fail None AlreadyExists, c)),
      updateService = (\<lambda>role svc c. (None, c)),
      createEndpoint = (\<lambda>role c. (Fail None AlreadyExists, c)),
      createPodDisruptionBudget = (\<lambda>c. (Fail None AlreadyExists, c)),
      updatePodDisruptionBudget = (\<lambda>pdb c. (None, c)),
      listPods = (\<lambda>c. (Ok [K8sObject (Namespace c) ''acid-test-0'' ''pod'',
                             K8sObject (Namespace c) ''acid-test-1'' ''pod''], c)),
      createStatefulSet = (\<lambda>c. (Fail None AlreadyExists, c)),
      waitStatefulsetPodsReady = (\<lambda>c. (None, c)),
      applyRollingUpdateFlagforStatefulSet = (\<lambda>flag c. (None, c)),
      updateStatefulSet = (\<lambda>sset c. (None, c)),
      replaceStatefulSet = (\<lambda>sset c. (None, c)),
      recreatePods = (\<lambda>c. (None, c)),
      volumesNeedResizing = (\<lambda>volume c. (Ok False, c)),
      resizeVolumes = (\<lambda>volume resizers c. (None, c)),
      initDbConn = (\<lambda>c. (None, c)),
      closeDbConn = (\<lambda>c. (None, c)),
      readPgUsersFromDatabase = (\<lambda>userNames c. (Ok (pgUsers c), c)),
      ExecuteSyncRequests = (\<lambda>requests c. (None, c)),
      getDatabases = (\<lambda>c. (Ok (Databases (Spec (Postgresql c))), c)),
      executeCreateDatabase = (\<lambda>datname owner c. (None, c)),
      executeAlterDatabaseOwner = (\<lambda>datname owner c. (None, c)),
      createLogicalBackupJob = (\<lambda>c. (Some AlreadyExists, c)),
      patchLogicalBackupJob = (\<lambda>job c. (None, c)),
      installLookupFunction =
        (\<lambda>schema user c.
           (None, c\<lparr>ConnectionPool := map_option (\<lambda>cp. cp\<lparr>LookupFunction := True\<rparr>) (ConnectionPool c)\<rparr>)),
      deleteConnectionPool = (\<lambda>c. (None, c\<lparr>ConnectionPool := None\<rparr>)),
      updateConnPoolDeployment = (\<lambda>oldDeployment newDeployment c. (Ok newDeployment, c))\<rparr>"

definition manifest :: acid_Postgresql where
  "manifest =
     \<lparr>Spec =
        \<lparr>EnableLogicalBackup = True, StandbyCluster = None, PgVersion = ''12'',
         Parameters = [(''max_connections'', ''100''), (''log_statement'', ''all'')],
         Volume = ''10Gi'',
         Databases = [(''a'', ''owner2''), (''b'', ''owner1'')],
         SpecConnectionPool = Some \<lparr>Schema = ''pooler'', User = ''pooler''\<rparr>\<rparr>,
      Status = ClusterStatusRunning\<rparr>"

definition cluster0 :: "'w \<Rightarrow> 'w Cluster" where
  "cluster0 w =
     \<lparr>Postgresql = manifest,
      Namespace = ''default'',
      OpConfig = \<lparr>AWSRegion = ''eu-central-1'',
                  ConfigConnectionPool = \<lparr>ConfigSchema = ''pooler'', ConfigUser = ''pooler''\<rparr>\<rparr>,
      Services = (\<lambda>role. None),
      Endpoints = (\<lambda>role. None),
      PodDisruptionBudget = None,
      Statefulset = None,
      Secrets = [],
      systemUsers =
        [(''superuser'', \<lparr>Name = ''postgres'', Password = ''live'', Origin = RoleOriginOther 0\<rparr>),
         (''replication'', \<lparr>Name = ''standby'', Password = ''live'', Origin = RoleOriginOther 0\<rparr>),
         (''pooler'', \<lparr>Name = ''pooler'', Password = ''live'', Origin = RoleOriginOther 0\<rparr>)],
      pgUsers =
        [(''app'', \<lparr>Name = ''app'', Password = ''live'', Origin = RoleOriginManifest\<rparr>),
         (''robot'', \<lparr>Name = ''robot'', Password = ''live'', Origin = RoleOriginInfrastructure\<rparr>)],
      ConnectionPool = None,
      world = w\<rparr>"

definition start :: "'w \<Rightarrow> 'w st" where
  "start w = \<lparr>cl = cluster0 w, calls = [], logs = []\<rparr>"

section \<open>Kinds of calls\<close>






section \<open>The pass in the words of the spec\<close>

text \<open>
  The spec gives \<open>Sync\<close> as a list of steps run in order.  A step wraps its error with
  the context of the step; the first step that does not succeed ends the run, and the
  steps after it do not run.  The statefulset step alone forgives an error classified
  as already-exists.  A step under a condition is skipped when the condition does not
  hold on the cluster at that point.
\<close>

definition step :: "string \<Rightarrow> ('w st \<Rightarrow> outcome \<times> 'w st) \<Rightarrow> 'w st \<Rightarrow> outcome \<times> 'w st" where
  "step context f s =
     (case f s of
        (Failure err, s1) \<Rightarrow> (Failure (Errorf context [err]), s1)
      | (Success, s1) \<Rightarrow> (Success, s1)
      | (Panic, s1) \<Rightarrow> (Panic, s1))"

definition forgivingStep ::
  "'w env \<Rightarrow> string \<Rightarrow> ('w st \<Rightarrow> outcome \<times> 'w st) \<Rightarrow> 'w st \<Rightarrow> outcome \<times> 'w st" where
  "forgivingStep env context f s =
     (case f s of
        (Failure err, s1) \<Rightarrow>
          if ResourceAlreadyExists env err then (Success, s1)
          else (Failure (Errorf context [err]), s1)
      | (Success, s1) \<Rightarrow> (Success, s1)
      | (Panic, s1) \<Rightarrow> (Panic, s1))"

fun inOrder :: "('w st \<Rightarrow> outcome \<times> 'w st) list \<Rightarrow> 'w st \<Rightarrow> outcome \<times> 'w st" where
  "inOrder [] s = (Success, s)"
| "inOrder (f # fs) s =
     (case f s of
        (Success, s1) \<Rightarrow> inOrder fs s1
      | (Failure err, s1) \<Rightarrow> (Failure err, s1)
      | (Panic, s1) \<Rightarrow> (Panic, s1))"

definition provided ::
  "('w Cluster \<Rightarrow> bool) \<Rightarrow> ('w st \<Rightarrow> outcome \<times> 'w st) \<Rightarrow> 'w st \<Rightarrow> outcome \<times> 'w st" where
  "provided condition f s = (if condition (cl s) then f s else (Success, s))"

definition called :: "event \<Rightarrow> ('w Cluster \<Rightarrow> error option \<times> 'w Cluster) \<Rightarrow> 'w st \<Rightarrow> outcome \<times> 'w st" where
  "called ev f s = (case act ev f s of (r, s1) \<Rightarrow> (ret r, s1))"

definition spec_Sync_steps ::
  "'w env \<Rightarrow> acid_Postgresql \<Rightarrow> acid_Postgresql \<Rightarrow> ('w st \<Rightarrow> outcome \<times> 'w st) list" where
  "spec_Sync_steps env oldSpec newSpec =
     [step ''could not init users: %v'' (called EvInitUsers (initUsers env)),
      step ''could not sync secrets: %v'' (syncSecrets env),
      step ''could not sync services: %v'' (syncServices env),
      step ''could not sync persistent volumes: %v'' (syncVolumes env),
      step ''could not enforce minimum resource limits: %v''
        (called EvEnforceMinResourceLimits (enforceMinResourceLimits env)),
      forgivingStep env ''could not sync statefulsets: %v'' (syncStatefulSet env),
      step ''could not sync pod disruption budget: %v'' (syncPodDisruptionBudget env False),
      provided (logicalBackupWanted env)
        (step ''could not sync the logical backup job: %v'' (syncLogicalBackupJob env)),
      provided (databaseObjectsWanted env newSpec)
        (inOrder [step ''could not sync roles: %v'' (syncRoles env),
                  step ''could not sync databases: %v'' (syncDatabases env)]),
      step ''could not sync connection pool: %v''
        (syncConnectionPool env oldSpec newSpec (installLookupFunction env))]"

text \<open>
  On the way out an error sets the status of the cluster to failed; without an error the
  status is set to running unless it is running already.  The spec says nothing of a
  pass that panics.
\<close>

definition spec_Sync :: "'w env \<Rightarrow> acid_Postgresql \<Rightarrow> 'w st \<Rightarrow> outcome \<times> 'w st" where
  "spec_Sync env newSpec s0 =
     (case inOrder (spec_Sync_steps env (Postgresql (cl s0)) newSpec)
             (act0 (EvSetSpec newSpec) (setSpec env newSpec) s0) of
        (Failure err, s1) \<Rightarrow>
          (Failure err,
           act0 (EvSetStatus ClusterStatusSyncFailed) (setStatus env ClusterStatusSyncFailed)
             (logline (Warningf ''error while syncing cluster state: %v'') s1))
      | (Success, s1) \<Rightarrow>
          (Success,
           if \<not> Running env (Status (Postgresql (cl s1)))
           then act0 (EvSetStatus ClusterStatusRunning) (setStatus env ClusterStatusRunning) s1
           else s1)
      | (Panic, s1) \<Rightarrow> (Panic, s1))"

section \<open>Examples\<close>

text \<open>The comparison of the volume sizes fails.\<close>

definition volumesFailEnv :: "unit env" where
  "volumesFailEnv =
     steadyEnv\<lparr>volumesNeedResizing := (\<lambda>volume c. (Fail None (ApiError ''no such volume''), c))\<rparr>"

text \<open>
  The statefulset is not found and its creation is answered with the already-exists
  error; the classifier recognises that error also inside the error that
  \<open>syncStatefulSet\<close> builds from it.
\<close>

definition statefulSetRaceEnv :: "unit env" where
  "statefulSetRaceEnv =
     steadyEnv
       \<lparr>StatefulSetsGet := (\<lambda>ns n w. (Fail None NotFound, w)),
        ResourceAlreadyExists :=
          (\<lambda>err. err = AlreadyExists
                  \<or> err = Errorf ''could not create missing statefulset: %v'' [AlreadyExists])\<rparr>"

text \<open>The deployment of the pool has drifted from the defaults of the platform.\<close>

definition driftEnv :: "unit env" where
  "driftEnv =
     steadyEnv\<lparr>needSyncConnPoolDefaults := (\<lambda>newConnPool deployment c. (True, [''replicas'']))\<rparr>"

text \<open>The installation of the lookup function fails.\<close>

definition failingLookup :: "string \<Rightarrow> string \<Rightarrow> unit Cluster \<Rightarrow> error option \<times> unit Cluster" where
  "failingLookup schema user c = (Some (ApiError ''no database connection''), c)"

text \<open>The removal of the pool fails.\<close>

definition failingDeleteEnv :: "unit env" where
  "failingDeleteEnv =
     steadyEnv\<lparr>deleteConnectionPool := (\<lambda>c. (Some (ApiError ''deployment is gone''), c))\<rparr>"

text \<open>The manifest without a connection pool.\<close>

definition unpooledManifest :: acid_Postgresql where
  "unpooledManifest = manifest\<lparr>Spec := (Spec manifest)\<lparr>SpecConnectionPool := None\<rparr>\<rparr>"






text \<open>
  A race on creation.  The world counts the fetches seen so far: the first fetch finds
  nothing, another writer then creates the resource, so that the create call of the
  pass is answered with the already-exists error (and the object), and a later fetch
  finds the resource.  The service of the pool is never found.  The creation of the
  statefulset is answered as every creation of the steady environment is, with the
  already-exists error.
\<close>

definition raceEnv :: "nat env" where
  "raceEnv =
     steadyEnv
       \<lparr>ServicesGet :=
          (\<lambda>ns n w. if w = 0 \<or> n = ''acid-test-pooler'' then (Fail None NotFound, Suc w)
                     else (Ok (K8sObject ns n ''service''), w)),
        EndpointsGet :=
          (\<lambda>ns n w. if w = 0 then (Fail None NotFound, Suc w) else (Ok (K8sObject ns n ''endpoints''), w)),
        PodDisruptionBudgetsGet :=
          (\<lambda>ns n w. if w = 0 then (Fail None NotFound, Suc w) else (Ok (K8sObject ns n ''pdb''), w)),
        CronJobsGet :=
          (\<lambda>ns n w. if w = 0 then (Fail None NotFound, Suc w) else (Ok (K8sObject ns n ''cronjob''), w)),
        DeploymentsGet :=
          (\<lambda>ns n w. if w = 0 then (Fail None NotFound, Suc w) else (Ok (K8sObject ns n ''deployment''), w)),
        StatefulSetsGet :=
          (\<lambda>ns n w. if w = 0 then (Fail None NotFound, Suc w) else (Ok desiredStatefulSet, w)),
        createService :=
          (\<lambda>role c. (Fail (Some (K8sObject (Namespace c) (roleName role) ''service'')) AlreadyExists, c)),
        createEndpoint :=
          (\<lambda>role c. (Fail (Some (K8sObject (Namespace c) (roleName role) ''endpoints'')) AlreadyExists, c)),
        createPodDisruptionBudget :=
          (\<lambda>c. (Fail (Some (K8sObject (Namespace c) ''postgres-acid-test-pdb'' ''pdb'')) AlreadyExists, c))\<rparr>"

definition appUser :: PgUser where
  "appUser = \<lparr>Name = ''app'', Password = ''declared'', Origin = RoleOriginManifest\<rparr>"

definition robotUser :: PgUser where
  "robotUser = \<lparr>Name = ''robot'', Password = ''declared'', Origin = RoleOriginInfrastructure\<rparr>"

text \<open>A cluster whose bundle of pool objects is there, with the lookup function installed.\<close>

definition pooled :: "'w \<Rightarrow> 'w st" where
  "pooled w =
     \<lparr>cl = (cluster0 w)
              \<lparr>ConnectionPool :=
                 Some \<lparr>Deployment = Some (K8sObject ''default'' ''acid-test-pooler'' ''deployment''),
                       Service = Some (K8sObject ''default'' ''acid-test-pooler'' ''service''),
                       LookupFunction = True\<rparr>,
               pgUsers := [(''app'', appUser), (''robot'', robotUser)]\<rparr>,
      calls = [], logs = []\<rparr>"

text \<open>The database holds \<open>a\<close> owned by \<open>owner1\<close>; the manifest declares \<open>a\<close> for \<open>owner2\<close> and \<open>b\<close> for \<open>owner1\<close>.\<close>

definition liveDatabasesEnv :: "unit env" where
  "liveDatabasesEnv = steadyEnv\<lparr>getDatabases := (\<lambda>c. (Ok [(''a'', ''owner1'')], c))\<rparr>"

text \<open>Closing the database connection fails; in the second environment the query of the databases fails too.\<close>

definition closeFailsEnv :: "unit env" where
  "closeFailsEnv = steadyEnv\<lparr>closeDbConn := (\<lambda>c. (Some (ApiError ''close failed''), c))\<rparr>"

definition queryAndCloseFailEnv :: "unit env" where
  "queryAndCloseFailEnv =
     steadyEnv
       \<lparr>closeDbConn := (\<lambda>c. (Some (ApiError ''close failed''), c)),
        getDatabases := (\<lambda>c. (Fail None (ApiError ''query failed''), c)),
        readPgUsersFromDatabase := (\<lambda>userNames c. (Fail None (ApiError ''query failed''), c))\<rparr>"

text \<open>The live endpoints are stale; a created endpoint would be the desired one.\<close>

definition staleEndpointEnv :: "unit env" where
  "staleEndpointEnv =
     steadyEnv
       \<lparr>EndpointsGet := (\<lambda>ns n w. (Ok (K8sObject ns n ''stale''), w)),
        createEndpoint := (\<lambda>role c. (Ok (K8sObject (Namespace c) (roleName role) ''endpoints''), c))\<rparr>"


section \<open>Properties\<close>

lemmas run_defs = kube_def act_def act0_def upd_def logline_def ret_def

lemmas example_defs =
  steadyEnv_def start_def cluster0_def manifest_def NotFound_def AlreadyExists_def roleName_def
  desiredStatefulSet_def postgresContainer_def userSecret_def liveSecret_def

text \<open>Updates of the fields of a run, brought into the order of the fields.\<close>

lemma st_reorder [simp]:
  "s\<lparr>calls := a, cl := c\<rparr> = s\<lparr>cl := c, calls := a\<rparr>"
  "s\<lparr>logs := l, cl := c\<rparr> = s\<lparr>cl := c, logs := l\<rparr>"
  "s\<lparr>logs := l, calls := a\<rparr> = s\<lparr>calls := a, logs := l\<rparr>"
  by (cases s; simp)+

subsection \<open>The order of the pass\<close>

text \<open>A run of steps in order is the run of a first part followed, on success, by the run of the rest.\<close>

lemma inOrder_append:
  "inOrder (fs @ gs) s =
     (case inOrder fs s of
        (Success, s1) \<Rightarrow> inOrder gs s1
      | (Failure err, s1) \<Rightarrow> (Failure err, s1)
      | (Panic, s1) \<Rightarrow> (Panic, s1))"
proof (induction fs arbitrary: s)
  case Nil
  then show ?case by simp
next
  case (Cons f fs)
  obtain r s1 where f: "f s = (r, s1)" by (cases "f s")
  with Cons.IH show ?case by (cases r) simp_all
qed

text \<open>The first step that fails gives the result and the state of the run: no later step runs.\<close>

lemma inOrder_first_failure:
  assumes "inOrder fs s = (Success, s1)" and "f s1 = (Failure err, s2)"
  shows "inOrder (fs @ f # gs) s = (Failure err, s2)"
  using assms by (simp add: inOrder_append)

lemma Sync_connectionPool_spec:
  "inOrder [step ''could not sync connection pool: %v''
              (syncConnectionPool env oldSpec newSpec (installLookupFunction env))] s
     = (fst (fst (Sync_connectionPool env oldSpec newSpec s)), snd (Sync_connectionPool env oldSpec newSpec s))
   \<and> (fst (fst (Sync_connectionPool env oldSpec newSpec s)) \<noteq> Panic \<longrightarrow>
        (snd (fst (Sync_connectionPool env oldSpec newSpec s)) = None)
          = (fst (fst (Sync_connectionPool env oldSpec newSpec s)) = Success))"
proof -
  obtain r s1 where p: "syncConnectionPool env oldSpec newSpec (installLookupFunction env) s = (r, s1)"
    by (cases "syncConnectionPool env oldSpec newSpec (installLookupFunction env) s")
  then show ?thesis
    by (cases r) (simp_all add: Sync_connectionPool_def step_def)
qed

lemma Sync_databases_spec:
  "inOrder [provided (databaseObjectsWanted env newSpec)
              (inOrder [step ''could not sync roles: %v'' (syncRoles env),
                        step ''could not sync databases: %v'' (syncDatabases env)]),
            step ''could not sync connection pool: %v''
              (syncConnectionPool env oldSpec newSpec (installLookupFunction env))] s
     = (fst (fst (Sync_databases env oldSpec newSpec s)), snd (Sync_databases env oldSpec newSpec s))
   \<and> (fst (fst (Sync_databases env oldSpec newSpec s)) \<noteq> Panic \<longrightarrow>
        (snd (fst (Sync_databases env oldSpec newSpec s)) = None)
          = (fst (fst (Sync_databases env oldSpec newSpec s)) = Success))"
proof (cases "databaseObjectsWanted env newSpec (cl s)")
  case False
  with Sync_connectionPool_spec [of env oldSpec newSpec s] show ?thesis
    by (simp add: Sync_databases_def provided_def)
next
  case True
  obtain r s1 where roles: "syncRoles env s = (r, s1)" by (cases "syncRoles env s")
  show ?thesis
  proof (cases r)
    case Success
    obtain r2 s2 where dbs: "syncDatabases env s1 = (r2, s2)" by (cases "syncDatabases env s1")
    show ?thesis
    proof (cases r2)
      case Success': Success
      with True roles Success dbs Sync_connectionPool_spec [of env oldSpec newSpec s2] show ?thesis
        by (simp add: Sync_databases_def provided_def step_def)
    next
      case (Failure err)
      with True roles Success dbs show ?thesis
        by (simp add: Sync_databases_def provided_def step_def failed_def)
    next
      case Panic
      with True roles Success dbs show ?thesis
        by (simp add: Sync_databases_def provided_def step_def)
    qed
  next
    case (Failure err)
    with True roles show ?thesis
      by (simp add: Sync_databases_def provided_def step_def failed_def)
  next
    case Panic
    with True roles show ?thesis
      by (simp add: Sync_databases_def provided_def step_def)
  qed
qed

lemma Sync_afterStatefulSet_spec:
  "inOrder [step ''could not sync pod disruption budget: %v'' (syncPodDisruptionBudget env False),
            provided (logicalBackupWanted env)
              (step ''could not sync the logical backup job: %v'' (syncLogicalBackupJob env)),
            provided (databaseObjectsWanted env newSpec)
              (inOrder [step ''could not sync roles: %v'' (syncRoles env),
                        step ''could not sync databases: %v'' (syncDatabases env)]),
            step ''could not sync connection pool: %v''
              (syncConnectionPool env oldSpec newSpec (installLookupFunction env))] s
     = (fst (fst (Sync_afterStatefulSet env oldSpec newSpec err0 s)),
        snd (Sync_afterStatefulSet env oldSpec newSpec err0 s))
   \<and> (fst (fst (Sync_afterStatefulSet env oldSpec newSpec err0 s)) \<noteq> Panic \<longrightarrow>
        (snd (fst (Sync_afterStatefulSet env oldSpec newSpec err0 s)) = None)
          = (fst (fst (Sync_afterStatefulSet env oldSpec newSpec err0 s)) = Success))"
proof -
  obtain r s1 where pdb: "syncPodDisruptionBudget env False s = (r, s1)"
    by (cases "syncPodDisruptionBudget env False s")
  show ?thesis
  proof (cases r)
    case (Failure err)
    with pdb show ?thesis
      by (simp add: Sync_afterStatefulSet_def step_def failed_def)
  next
    case Panic
    with pdb show ?thesis
      by (simp add: Sync_afterStatefulSet_def step_def)
  next
    case Success
    show ?thesis
    proof (cases "logicalBackupWanted env (cl s1)")
      case False
      with pdb Success Sync_databases_spec [of env newSpec oldSpec s1] show ?thesis
        by (simp add: Sync_afterStatefulSet_def step_def provided_def)
    next
      case True
      obtain r2 s2 where job: "syncLogicalBackupJob env s1 = (r2, s2)"
        by (cases "syncLogicalBackupJob env s1")
      show ?thesis
      proof (cases r2)
        case Success': Success
        with pdb Success True job Sync_databases_spec [of env newSpec oldSpec s2] show ?thesis
          by (simp add: Sync_afterStatefulSet_def step_def provided_def)
      next
        case (Failure err)
        with pdb Success True job show ?thesis
          by (simp add: Sync_afterStatefulSet_def step_def provided_def failed_def)
      next
        case Panic
        with pdb Success True job show ?thesis
          by (simp add: Sync_afterStatefulSet_def step_def provided_def)
      qed
    qed
  qed
qed

lemma Sync_body_spec:
  "inOrder (spec_Sync_steps env oldSpec newSpec) s
     = (fst (fst (Sync_body env oldSpec newSpec s)), snd (Sync_body env oldSpec newSpec s))
   \<and> (fst (fst (Sync_body env oldSpec newSpec s)) \<noteq> Panic \<longrightarrow>
        (snd (fst (Sync_body env oldSpec newSpec s)) = None)
          = (fst (fst (Sync_body env oldSpec newSpec s)) = Success))"
proof -
  obtain r1 c1 where users: "initUsers env (cl s) = (r1, c1)" by (cases "initUsers env (cl s)")
  define s1 where "s1 = s\<lparr>cl := c1, calls := calls s @ [EvInitUsers]\<rparr>"
  show ?thesis
  proof (cases r1)
    case (Some err)
    with users show ?thesis
      by (simp add: Sync_body_def spec_Sync_steps_def step_def called_def act_def ret_def failed_def)
  next
    case None
    obtain r2 s2 where secrets: "syncSecrets env s1 = (r2, s2)" by (cases "syncSecrets env s1")
    show ?thesis
    proof (cases r2)
      case (Failure err)
      with users None secrets show ?thesis
        by (simp add: Sync_body_def spec_Sync_steps_def step_def called_def act_def ret_def failed_def s1_def)
    next
      case Panic
      with users None secrets show ?thesis
        by (simp add: Sync_body_def spec_Sync_steps_def step_def called_def act_def ret_def s1_def)
    next
      case Success
      note two = users None secrets Success
      obtain r3 s3 where services: "syncServices env s2 = (r3, s3)" by (cases "syncServices env s2")
      show ?thesis
      proof (cases r3)
        case (Failure err)
        with two services show ?thesis
          by (simp add: Sync_body_def spec_Sync_steps_def step_def called_def act_def ret_def failed_def s1_def)
      next
        case Panic
        with two services show ?thesis
          by (simp add: Sync_body_def spec_Sync_steps_def step_def called_def act_def ret_def s1_def)
      next
        case Success
        note three = two services Success
        obtain r4 s4 where volumes: "syncVolumes env s3 = (r4, s4)" by (cases "syncVolumes env s3")
        show ?thesis
        proof (cases r4)
          case (Failure err)
          with three volumes show ?thesis
            by (simp add: Sync_body_def spec_Sync_steps_def step_def called_def act_def ret_def failed_def s1_def)
        next
          case Panic
          with three volumes show ?thesis
            by (simp add: Sync_body_def spec_Sync_steps_def step_def called_def act_def ret_def s1_def)
        next
          case Success
          note four = three volumes Success
          obtain r5 c5 where limits: "enforceMinResourceLimits env (cl s4) = (r5, c5)"
            by (cases "enforceMinResourceLimits env (cl s4)")
          define s5 where "s5 = s4\<lparr>cl := c5, calls := calls s4 @ [EvEnforceMinResourceLimits]\<rparr>"
          show ?thesis
          proof (cases r5)
            case (Some err)
            with four limits show ?thesis
              by (simp add: Sync_body_def spec_Sync_steps_def step_def called_def act_def ret_def failed_def s1_def)
          next
            case None': None
            note five = four limits None'
            obtain r6 s6 where sset: "syncStatefulSet env s5 = (r6, s6)"
              by (cases "syncStatefulSet env s5")
            show ?thesis
            proof (cases r6)
              case Panic
              with five sset show ?thesis
                by (simp add: Sync_body_def spec_Sync_steps_def step_def forgivingStep_def called_def act_def
                      ret_def s1_def s5_def)
            next
              case Success
              with five sset Sync_afterStatefulSet_spec [of env newSpec oldSpec s6 None] show ?thesis
                by (simp add: Sync_body_def spec_Sync_steps_def step_def forgivingStep_def called_def act_def
                      ret_def s1_def s5_def)
            next
              case (Failure err)
              show ?thesis
              proof (cases "ResourceAlreadyExists env err")
                case False
                with five sset Failure show ?thesis
                  by (simp add: Sync_body_def spec_Sync_steps_def step_def forgivingStep_def called_def act_def
                        ret_def failed_def s1_def s5_def)
              next
                case True
                with five sset Failure Sync_afterStatefulSet_spec [of env newSpec oldSpec s6 "Some err"]
                show ?thesis
                  by (simp add: Sync_body_def spec_Sync_steps_def step_def forgivingStep_def called_def act_def
                        ret_def s1_def s5_def)
              qed
            qed
          qed
        qed
      qed
    qed
  qed
qed

text \<open>
  C1.  \<open>Sync\<close> is the run of the steps in the order of the spec: it records the spec,
  then runs init users, secrets, services and endpoints, volumes, minimum resource
  limits, statefulset, pod disruption budget, the logical backup job when it is enabled
  and there are instances, roles and then databases when database access is on, and the
  connection pool.  The first step that fails ends the run and its error, wrapped with
  the context of the step, is the result, except that an error of the statefulset step
  classified as already-exists is forgiven and the run goes on.  The result is that of
  the run of steps in every case; the state after the pass, with the status of the
  cluster, is that of the run of steps whenever the pass does not panic.
\<close>

theorem Sync_runs_steps_in_order:
  "fst (Sync env newSpec s) = fst (spec_Sync env newSpec s)
   \<and> (fst (Sync env newSpec s) \<noteq> Panic \<longrightarrow> Sync env newSpec s = spec_Sync env newSpec s)"
proof -
  define s1 where "s1 = act0 (EvSetSpec newSpec) (setSpec env newSpec) s"
  obtain r err s2 where body: "Sync_body env (Postgresql (cl s)) newSpec s1 = ((r, err), s2)"
    by (cases "Sync_body env (Postgresql (cl s)) newSpec s1") auto
  from Sync_body_spec [of env "Postgresql (cl s)" newSpec s1] body
  have run: "inOrder (spec_Sync_steps env (Postgresql (cl s)) newSpec) s1 = (r, s2)"
    and var: "r \<noteq> Panic \<longrightarrow> (err = None) = (r = Success)"
    by simp_all
  have sync: "Sync env newSpec s = (r, Sync_deferred env err s2)"
    using body by (simp add: Sync_def Let_def s1_def)
  show ?thesis
  proof (cases r)
    case Success
    with var have "err = None" by simp
    with sync run Success show ?thesis
      by (simp add: spec_Sync_def Sync_deferred_def s1_def)
  next
    case (Failure e)
    with var obtain x where "err = Some x" by (cases err) simp_all
    with sync run Failure show ?thesis
      by (simp add: spec_Sync_def Sync_deferred_def s1_def)
  next
    case Panic
    with sync run show ?thesis
      by (simp add: spec_Sync_def s1_def)
  qed
qed

subsection \<open>Connection pool\<close>

text \<open>
  C10: when the deployment of the pool is found and the spec-driven or the defaulted
  fields call for an update, \<open>syncConnectionPoolWorker\<close> updates the deployment,
  records the updated deployment and returns nil.  Its calls are the fetch of the
  deployment and the update: the service of the pool is not fetched and not created.
  Of the bundle that the update left behind only the deployment is written, so the
  recorded service is the one found there (the one from before the call when the update
  itself does not touch it).
\<close>

theorem syncConnectionPoolWorker_update_skips_service:
  assumes "DeploymentsGet env (Namespace (cl s)) (connPoolName env (cl s)) (world (cl s)) = (Ok deployment, w1)"
    and "ConnectionPool (cl s) = Some cp"
    and "c2 = (cl s)\<lparr>world := w1, ConnectionPool := Some (cp\<lparr>Deployment := Some deployment\<rparr>)\<rparr>"
    and "fst (needSyncConnPoolSpecs env (SpecConnectionPool (Spec oldSpec)) (SpecConnectionPool (Spec newSpec)) c2)
         \<or> fst (needSyncConnPoolDefaults env (SpecConnectionPool (Spec newSpec)) deployment c2)"
    and "generateConnPoolDeployment env (Spec newSpec) c2 = Ok newDeploymentSpec"
    and "updateConnPoolDeployment env deployment newDeploymentSpec c2 = (Ok updated, c3)"
    and "ConnectionPool c3 = Some cp3"
  shows "syncConnectionPoolWorker env oldSpec newSpec s =
           (Success,
            s\<lparr>cl := c3\<lparr>ConnectionPool := Some (cp3\<lparr>Deployment := Some updated\<rparr>)\<rparr>,
              calls := calls s @ [EvDeploymentsGet (Namespace (cl s)) (connPoolName env (cl s)),
                                  EvUpdateConnPoolDeployment deployment newDeploymentSpec]\<rparr>)
         \<and> map_option Service (ConnectionPool (cl (snd (syncConnectionPoolWorker env oldSpec newSpec s))))
             = Some (Service cp3)
         \<and> (Service cp3 = Service cp \<longrightarrow>
              map_option Service (ConnectionPool (cl (snd (syncConnectionPoolWorker env oldSpec newSpec s))))
                = map_option Service (ConnectionPool (cl s)))"
  using assms by (auto simp add: syncConnectionPoolWorker_def setPoolDeployment_def run_defs)

theorem syncConnectionPoolWorker_update_skips_service_witness:
  "fst (needSyncConnPoolDefaults driftEnv (SpecConnectionPool (Spec manifest))
          (K8sObject ''default'' ''acid-test-pooler'' ''deployment'') (cl (pooled ())))
   \<and> fst (syncConnectionPoolWorker driftEnv manifest manifest (pooled ())) = Success
   \<and> calls (snd (syncConnectionPoolWorker driftEnv manifest manifest (pooled ()))) =
       [EvDeploymentsGet ''default'' ''acid-test-pooler'',
        EvUpdateConnPoolDeployment (K8sObject ''default'' ''acid-test-pooler'' ''deployment'')
          (K8sObject ''default'' ''acid-test-pooler'' ''deployment'')]
   \<and> map_option Service (ConnectionPool (cl (snd (syncConnectionPoolWorker driftEnv manifest manifest (pooled ())))))
       = Some (Some (K8sObject ''default'' ''acid-test-pooler'' ''service''))"
  using syncConnectionPoolWorker_update_skips_service
    [where env = driftEnv and s = "pooled ()" and oldSpec = manifest and newSpec = manifest
       and deployment = "K8sObject ''default'' ''acid-test-pooler'' ''deployment''" and ?w1.0 = "()"
       and cp = "\<lparr>Deployment = Some (K8sObject ''default'' ''acid-test-pooler'' ''deployment''),
                  Service = Some (K8sObject ''default'' ''acid-test-pooler'' ''service''),
                  LookupFunction = True\<rparr>"
       and ?c2.0 = "cl (pooled ())"
       and newDeploymentSpec = "K8sObject ''default'' ''acid-test-pooler'' ''deployment''"
       and updated = "K8sObject ''default'' ''acid-test-pooler'' ''deployment''"
       and ?c3.0 = "cl (pooled ())"
       and ?cp3.0 = "\<lparr>Deployment = Some (K8sObject ''default'' ''acid-test-pooler'' ''deployment''),
                  Service = Some (K8sObject ''default'' ''acid-test-pooler'' ''service''),
                  LookupFunction = True\<rparr>"]
  by (simp add: driftEnv_def pooled_def example_defs)

lemmas model_defs =
  Sync_def Sync_body_def Sync_afterStatefulSet_def Sync_databases_def Sync_connectionPool_def
  Sync_deferred_def failed_def logicalBackupWanted_def databaseObjectsWanted_def
  syncSecrets_def syncSecret_def userEntry_def registry_def setUser_def lookupUser_def secretData_def
  syncServices_def syncEndpoint_def syncService_def setEndpoint_def setService_def
  syncVolumes_def syncStatefulSet_def syncStatefulSet_finish_def
  checkAndSetGlobalPostgreSQLConfiguration_def setPgVersion_def
  syncPodDisruptionBudget_def syncLogicalBackupJob_def
  syncRoles_def syncRoles_body_def syncDatabases_def syncDatabases_body_def
  syncConnectionPool_def syncConnectionPool_cleanup_def removeConnectionPool_def
  ensureConnectionPool_def lookupSchema_def lookupUserName_def Coalesce_def
  syncConnectionPoolWorker_def syncConnectionPoolWorker_service_def setPoolDeployment_def
  setPoolService_def Let_def

theorem Sync_runs_steps_in_order_witness:
  "fst (Sync steadyEnv manifest (start ())) \<noteq> Panic
   \<and> Sync steadyEnv manifest (start ()) = spec_Sync steadyEnv manifest (start ())
   \<and> fst (Sync steadyEnv manifest (start ())) = Success"
proof -
  have run: "fst (Sync steadyEnv manifest (start ())) = Success"
    by (simp add: model_defs run_defs example_defs)
  with Sync_runs_steps_in_order [of steadyEnv manifest "start ()"] show ?thesis
    by simp
qed

text \<open>
  A pass whose volume step fails: the steps before it have run, none after it, the
  error of the step is the result, and the status is set to failed by the deferred
  function.
\<close>

lemma Sync_volumes_fail_example:
  "\<exists>s'. Sync volumesFailEnv manifest (start ()) =
          (Failure (Errorf ''could not sync persistent volumes: %v''
                     [Errorf ''could not compare size of the volumes: %v''
                        [ApiError ''no such volume'']]), s')
        \<and> drop 2 (calls s') =
            [EvSecretsCreate ''default'' 
               (userSecret ''default''
                  \<lparr>Name = ''app'', Password = ''live'', Origin = RoleOriginManifest\<rparr>),
             EvSecretsGet ''default'' ''app'',
             EvSecretsCreate ''default'' 
               (userSecret ''default''
                  \<lparr>Name = ''robot'', Password = ''live'', Origin = RoleOriginInfrastructure\<rparr>),
             EvSecretsGet ''default'' ''robot'',
             EvEndpointsGet ''default'' ''acid-test'',
             EvServicesGet ''default'' ''acid-test'',
             EvEndpointsGet ''default'' ''acid-test-repl'',
             EvServicesGet ''default'' ''acid-test-repl'',
             EvVolumesNeedResizing ''10Gi'',
             EvSetStatus ClusterStatusSyncFailed]
        \<and> logs s' = [Warningf ''error while syncing cluster state: %v'']"
  by (simp add: volumesFailEnv_def model_defs run_defs example_defs)

text \<open>
  A pass whose statefulset step loses the creation race, with a classifier that
  recognises the error of the step: the steps after it run and the pass succeeds.
\<close>

lemma Sync_statefulset_race_example:
  "\<exists>s'. Sync statefulSetRaceEnv manifest (start ()) = (Success, s')
        \<and> drop 10 (calls s') =
            [EvVolumesNeedResizing ''10Gi'', EvEnforceMinResourceLimits,
             EvStatefulSetsGet ''default'' ''acid-test'', EvListPods,
             EvCreateStatefulSet,
             EvPodDisruptionBudgetsGet ''default'' ''postgres-acid-test-pdb'',
             EvCronJobsGet ''default'' ''logical-backup-acid-test'', EvInitDbConn,
             EvReadPgUsersFromDatabase [''app'', ''robot'', ''pooler''],
             EvExecuteSyncRequests [], EvCloseDbConn, EvInitDbConn, EvGetDatabases,
             EvCloseDbConn, EvInstallLookupFunction ''pooler'' ''pooler'',
             EvDeploymentsGet ''default'' ''acid-test-pooler'',
             EvServicesGet ''default'' ''acid-test-pooler'']
        \<and> logs s' = []"
  by (simp add: statefulSetRaceEnv_def model_defs run_defs example_defs)

subsection \<open>Statefulset\<close>










subsection \<open>Secrets\<close>



lemma userEntry_world [simp]: "userEntry env (c\<lparr>world := w\<rparr>) secretUsername = userEntry env c secretUsername"
  by (simp add: userEntry_def)

lemma registry_world [simp]: "registry (c\<lparr>world := w\<rparr>) system = registry c system"
  by (simp add: registry_def)





subsection \<open>A pass in the steady environment\<close>


































subsection \<open>A create call that loses a race\<close>

lemma syncEndpoint_race:
  assumes "EndpointsGet env (Namespace (cl s)) (endpointName env role (cl s)) (world (cl s)) = (Fail p1 e1, w1)"
    and "ResourceNotFound env e1"
    and "createEndpoint env role (setEndpoint role None ((cl s)\<lparr>world := w1\<rparr>)) = (Fail (Some x) e2, c2)"
    and "ResourceAlreadyExists env e2"
    and "EndpointsGet env (Namespace c2) (endpointName env role c2) (world c2) = (fetched, w3)"
  shows "syncEndpoint env role s =
           ((case fetched of
               Ok ep \<Rightarrow> Success
             | Fail p3 e3 \<Rightarrow> Failure (Errorf ''could not fetch existing %s endpoint: %v'' [e3])),
            s\<lparr>cl := (case fetched of
                       Ok ep \<Rightarrow> setEndpoint role (Some ep) (c2\<lparr>world := w3\<rparr>)
                     | Fail p3 e3 \<Rightarrow> c2\<lparr>world := w3\<rparr>),
              calls := calls s @ [EvEndpointsGet (Namespace (cl s)) (endpointName env role (cl s)),
                                  EvCreateEndpoint role,
                                  EvEndpointsGet (Namespace c2) (endpointName env role c2)]\<rparr>)"
  using assms by (cases fetched) (simp_all add: syncEndpoint_def run_defs)

lemma syncService_race:
  assumes "ServicesGet env (Namespace (cl s)) (serviceName env role (cl s)) (world (cl s)) = (Fail p1 e1, w1)"
    and "ResourceNotFound env e1"
    and "createService env role (setService role None ((cl s)\<lparr>world := w1\<rparr>)) = (Fail (Some x) e2, c2)"
    and "ResourceAlreadyExists env e2"
    and "ServicesGet env (Namespace c2) (serviceName env role c2) (world c2) = (fetched, w3)"
  shows "syncService env role s =
           ((case fetched of
               Ok svc \<Rightarrow> Success
             | Fail p3 e3 \<Rightarrow> Failure (Errorf ''could not fetch existing %s service: %v'' [e3])),
            s\<lparr>cl := (case fetched of
                       Ok svc \<Rightarrow> setService role (Some svc) (c2\<lparr>world := w3\<rparr>)
                     | Fail p3 e3 \<Rightarrow> c2\<lparr>world := w3\<rparr>),
              calls := calls s @ [EvServicesGet (Namespace (cl s)) (serviceName env role (cl s)),
                                  EvCreateService role,
                                  EvServicesGet (Namespace c2) (serviceName env role c2)]\<rparr>)"
  using assms by (cases fetched) (simp_all add: syncService_def run_defs)

lemma syncPodDisruptionBudget_race:
  assumes "PodDisruptionBudgetsGet env (Namespace (cl s)) (podDisruptionBudgetName env (cl s)) (world (cl s))
             = (Fail p1 e1, w1)"
    and "ResourceNotFound env e1"
    and "createPodDisruptionBudget env ((cl s)\<lparr>world := w1, PodDisruptionBudget := None\<rparr>)
             = (Fail (Some x) e2, c2)"
    and "ResourceAlreadyExists env e2"
    and "PodDisruptionBudgetsGet env (Namespace c2) (podDisruptionBudgetName env c2) (world c2) = (fetched, w3)"
  shows "syncPodDisruptionBudget env isUpdate s =
           ((case fetched of
               Ok pdb \<Rightarrow> Success
             | Fail None e3 \<Rightarrow> Panic
             | Fail (Some y) e3 \<Rightarrow> Failure (Errorf ''could not fetch existing %q pod disruption budget'' [])),
            s\<lparr>cl := (case fetched of
                       Ok pdb \<Rightarrow> c2\<lparr>world := w3, PodDisruptionBudget := Some pdb\<rparr>
                     | Fail p3 e3 \<Rightarrow> c2\<lparr>world := w3\<rparr>),
              calls := calls s @ [EvPodDisruptionBudgetsGet (Namespace (cl s)) (podDisruptionBudgetName env (cl s)),
                                  EvCreatePodDisruptionBudget,
                                  EvPodDisruptionBudgetsGet (Namespace c2) (podDisruptionBudgetName env c2)]\<rparr>)"
  using assms
  by (cases fetched) (simp_all add: syncPodDisruptionBudget_def run_defs split: option.splits)

lemma syncLogicalBackupJob_race:
  assumes "CronJobsGet env (Namespace (cl s)) (getLogicalBackupJobName env (cl s)) (world (cl s)) = (Fail p1 e1, w1)"
    and "ResourceNotFound env e1"
    and "createLogicalBackupJob env ((cl s)\<lparr>world := w1\<rparr>) = (Some e2, c2)"
    and "ResourceAlreadyExists env e2"
    and "CronJobsGet env (Namespace c2) (getLogicalBackupJobName env (cl s)) (world c2) = (fetched, w3)"
  shows "syncLogicalBackupJob env s =
           ((case fetched of
               Ok job \<Rightarrow> Success
             | Fail p3 e3 \<Rightarrow> Failure (Errorf ''could not fetch existing logical backup job: %v'' [e3])),
            s\<lparr>cl := c2\<lparr>world := w3\<rparr>,
              calls := calls s @ [EvCronJobsGet (Namespace (cl s)) (getLogicalBackupJobName env (cl s)),
                                  EvCreateLogicalBackupJob,
                                  EvCronJobsGet (Namespace c2) (getLogicalBackupJobName env (cl s))]\<rparr>)"
  using assms by (cases fetched) (simp_all add: syncLogicalBackupJob_def run_defs Let_def)

lemma syncSecret_race:
  assumes "SecretsCreate env (SecretNamespace secretSpec) secretSpec (world (cl s)) = (Fail q1 e2, w1)"
    and "ResourceAlreadyExists env e2"
    and "SecretsGet env (SecretNamespace secretSpec) (SecretName secretSpec) w1 = (fetchedSecret, w2)"
    and "SecretsUpdate env (SecretNamespace secretSpec) secretSpec w2 = (written, w4)"
  shows "(calls (snd (syncSecret env secretUsername secretSpec s)) =
              calls s @ [EvSecretsCreate (SecretNamespace secretSpec) secretSpec,
                         EvSecretsGet (SecretNamespace secretSpec) (SecretName secretSpec)]
            \<or> calls (snd (syncSecret env secretUsername secretSpec s)) =
              calls s @ [EvSecretsCreate (SecretNamespace secretSpec) secretSpec,
                         EvSecretsGet (SecretNamespace secretSpec) (SecretName secretSpec),
                         EvSecretsUpdate (SecretNamespace secretSpec) secretSpec])
         \<and> (case fetchedSecret of
              Fail p3 e3 \<Rightarrow>
                syncSecret env secretUsername secretSpec s =
                  (Some (Errorf ''could not get current secret: %v'' [e3]),
                   s\<lparr>cl := (cl s)\<lparr>world := w2\<rparr>,
                     calls := calls s @ [EvSecretsCreate (SecretNamespace secretSpec) secretSpec,
                                         EvSecretsGet (SecretNamespace secretSpec) (SecretName secretSpec)]\<rparr>)
            | Ok secret \<Rightarrow>
                (case written of
                   Ok updated \<Rightarrow> fst (syncSecret env secretUsername secretSpec s) = None
                 | Fail p4 e4 \<Rightarrow>
                     fst (syncSecret env secretUsername secretSpec s) = None
                     \<or> fst (syncSecret env secretUsername secretSpec s) =
                         Some (Errorf ''could not update infrastructure role secret for role %q: %v'' [e4])))"
  using assms
  by (cases fetchedSecret; cases written)
     (simp_all add: syncSecret_def run_defs Let_def split: prod.splits)

lemma syncStatefulSet_create_fails:
  assumes "StatefulSetsGet env (Namespace (cl s)) (statefulSetName env (cl s)) (world (cl s)) = (Fail q3 e1, w1)"
    and "ResourceNotFound env e1"
    and "listPods env ((cl s)\<lparr>world := w1, Statefulset := None\<rparr>) = (Ok pods, c2)"
    and "createStatefulSet env c2 = (Fail q4 e2, c3)"
  shows "syncStatefulSet env s =
           (Failure (Errorf ''could not create missing statefulset: %v'' [e2]),
            s\<lparr>cl := c3,
              calls := calls s @ [EvStatefulSetsGet (Namespace (cl s)) (statefulSetName env (cl s)),
                                  EvListPods, EvCreateStatefulSet]\<rparr>)"
  using assms by (simp add: syncStatefulSet_def run_defs)

lemma syncConnectionPoolWorker_deployment_race:
  assumes "DeploymentsGet env (Namespace (cl s)) (connPoolName env (cl s)) (world (cl s)) = (Fail p1 e1, w1)"
    and "ResourceNotFound env e1"
    and "generateConnPoolDeployment env (Spec newSpec) ((cl s)\<lparr>world := w1\<rparr>) = Ok deploymentSpec"
    and "DeploymentsCreate env (objNamespace deploymentSpec) deploymentSpec w1 = (Fail p2 e2, w2)"
  shows "syncConnectionPoolWorker env oldSpec newSpec s =
           (Failure e2,
            s\<lparr>cl := (cl s)\<lparr>world := w2\<rparr>,
              calls := calls s @ [EvDeploymentsGet (Namespace (cl s)) (connPoolName env (cl s)),
                                  EvDeploymentsCreate (objNamespace deploymentSpec) deploymentSpec],
              logs := logs s @
                [Warningf ''Deployment %s for connection pool synchronization is not found, create it'']\<rparr>)"
  using assms by (simp add: syncConnectionPoolWorker_def run_defs Let_def)

lemma syncConnectionPoolWorker_service_race:
  assumes "ServicesGet env (Namespace (cl s)) (connPoolName env (cl s)) (world (cl s)) = (Fail p1 e1, w1)"
    and "ResourceNotFound env e1"
    and "serviceSpec = generateConnPoolService env (Spec newSpec) ((cl s)\<lparr>world := w1\<rparr>)"
    and "ServicesCreate env (objNamespace serviceSpec) serviceSpec w1 = (Fail p2 e2, w2)"
  shows "syncConnectionPoolWorker_service env newSpec s =
           (Failure e2,
            s\<lparr>cl := (cl s)\<lparr>world := w2\<rparr>,
              calls := calls s @ [EvServicesGet (Namespace (cl s)) (connPoolName env (cl s)),
                                  EvServicesCreate (objNamespace serviceSpec) serviceSpec],
              logs := logs s @
                [Warningf ''Service %s for connection pool synchronization is not found, create it'']\<rparr>)"
  using assms by (simp add: syncConnectionPoolWorker_service_def run_defs Let_def)

text \<open>
  C5, as the code has it.  For an endpoint, a service and a pod disruption budget
  (when the failed create hands back an object beside its error), for the logical backup
  job and for a secret: a create call answered with an already-exists error is followed
  by exactly one fetch of the same resource, whatever that fetch answers, and by no
  other call (for a secret, by at most the one password update that may be due).  When
  the fetch succeeds (and, for a secret, the update that may be due) the reconciler ends
  without error, with the fetched resource recorded where the kind has a cache; when
  the fetch fails, it ends with the error of the fetch (for the pod disruption budget,
  with a nil-pointer panic when the fetch hands back no object beside its error).  The
  statefulset, and the deployment and the service of the connection pool, have no such
  branch: the error of the create call is returned, wrapped for the statefulset, and no
  fetch follows.
\<close>

theorem create_race_per_kind:
  "(EndpointsGet env (Namespace (cl s)) (endpointName env role (cl s)) (world (cl s)) = (Fail p1 e1, w1)
      \<and> ResourceNotFound env e1
      \<and> createEndpoint env role (setEndpoint role None ((cl s)\<lparr>world := w1\<rparr>)) = (Fail (Some x) e2, c2)
      \<and> ResourceAlreadyExists env e2
      \<and> EndpointsGet env (Namespace c2) (endpointName env role c2) (world c2) = (fetched, w3)
    \<longrightarrow> syncEndpoint env role s =
         ((case fetched of
             Ok ep \<Rightarrow> Success
           | Fail p3 e3 \<Rightarrow> Failure (Errorf ''could not fetch existing %s endpoint: %v'' [e3])),
          s\<lparr>cl := (case fetched of
                     Ok ep \<Rightarrow> setEndpoint role (Some ep) (c2\<lparr>world := w3\<rparr>)
                   | Fail p3 e3 \<Rightarrow> c2\<lparr>world := w3\<rparr>),
            calls := calls s @ [EvEndpointsGet (Namespace (cl s)) (endpointName env role (cl s)),
                                EvCreateEndpoint role,
                                EvEndpointsGet (Namespace c2) (endpointName env role c2)]\<rparr>))
   \<and> (ServicesGet env (Namespace (cl s)) (serviceName env role (cl s)) (world (cl s)) = (Fail p1 e1, w1)
      \<and> ResourceNotFound env e1
      \<and> createService env role (setService role None ((cl s)\<lparr>world := w1\<rparr>)) = (Fail (Some x) e2, c2)
      \<and> ResourceAlreadyExists env e2
      \<and> ServicesGet env (Namespace c2) (serviceName env role c2) (world c2) = (fetched, w3)
    \<longrightarrow> syncService env role s =
         ((case fetched of
             Ok svc \<Rightarrow> Success
           | Fail p3 e3 \<Rightarrow> Failure (Errorf ''could not fetch existing %s service: %v'' [e3])),
          s\<lparr>cl := (case fetched of
                     Ok svc \<Rightarrow> setService role (Some svc) (c2\<lparr>world := w3\<rparr>)
                   | Fail p3 e3 \<Rightarrow> c2\<lparr>world := w3\<rparr>),
            calls := calls s @ [EvServicesGet (Namespace (cl s)) (serviceName env role (cl s)),
                                EvCreateService role,
                                EvServicesGet (Namespace c2) (serviceName env role c2)]\<rparr>))
   \<and> (PodDisruptionBudgetsGet env (Namespace (cl s)) (podDisruptionBudgetName env (cl s)) (world (cl s))
             = (Fail p1 e1, w1)
      \<and> ResourceNotFound env e1
      \<and> createPodDisruptionBudget env ((cl s)\<lparr>world := w1, PodDisruptionBudget := None\<rparr>)
             = (Fail (Some x) e2, c2)
      \<and> ResourceAlreadyExists env e2
      \<and> PodDisruptionBudgetsGet env (Namespace c2) (podDisruptionBudgetName env c2) (world c2) = (fetched, w3)
    \<longrightarrow> syncPodDisruptionBudget env isUpdate s =
         ((case fetched of
             Ok pdb \<Rightarrow> Success
           | Fail None e3 \<Rightarrow> Panic
           | Fail (Some y) e3 \<Rightarrow> Failure (Errorf ''could not fetch existing %q pod disruption budget'' [])),
          s\<lparr>cl := (case fetched of
                     Ok pdb \<Rightarrow> c2\<lparr>world := w3, PodDisruptionBudget := Some pdb\<rparr>
                   | Fail p3 e3 \<Rightarrow> c2\<lparr>world := w3\<rparr>),
            calls := calls s @ [EvPodDisruptionBudgetsGet (Namespace (cl s)) (podDisruptionBudgetName env (cl s)),
                                EvCreatePodDisruptionBudget,
                                EvPodDisruptionBudgetsGet (Namespace c2) (podDisruptionBudgetName env c2)]\<rparr>))
   \<and> (CronJobsGet env (Namespace (cl s)) (getLogicalBackupJobName env (cl s)) (world (cl s)) = (Fail p1 e1, w1)
      \<and> ResourceNotFound env e1
      \<and> createLogicalBackupJob env ((cl s)\<lparr>world := w1\<rparr>) = (Some e2, c2)
      \<and> ResourceAlreadyExists env e2
      \<and> CronJobsGet env (Namespace c2) (getLogicalBackupJobName env (cl s)) (world c2) = (fetched, w3)
    \<longrightarrow> syncLogicalBackupJob env s =
         ((case fetched of
             Ok job \<Rightarrow> Success
           | Fail p3 e3 \<Rightarrow> Failure (Errorf ''could not fetch existing logical backup job: %v'' [e3])),
          s\<lparr>cl := c2\<lparr>world := w3\<rparr>,
            calls := calls s @ [EvCronJobsGet (Namespace (cl s)) (getLogicalBackupJobName env (cl s)),
                                EvCreateLogicalBackupJob,
                                EvCronJobsGet (Namespace c2) (getLogicalBackupJobName env (cl s))]\<rparr>))
   \<and> (SecretsCreate env (SecretNamespace secretSpec) secretSpec (world (cl s)) = (Fail q1 e2, w1)
      \<and> ResourceAlreadyExists env e2
      \<and> SecretsGet env (SecretNamespace secretSpec) (SecretName secretSpec) w1 = (fetchedSecret, w2)
      \<and> SecretsUpdate env (SecretNamespace secretSpec) secretSpec w2 = (written, w4)
    \<longrightarrow> (calls (snd (syncSecret env secretUsername secretSpec s)) =
            calls s @ [EvSecretsCreate (SecretNamespace secretSpec) secretSpec,
                       EvSecretsGet (SecretNamespace secretSpec) (SecretName secretSpec)]
          \<or> calls (snd (syncSecret env secretUsername secretSpec s)) =
            calls s @ [EvSecretsCreate (SecretNamespace secretSpec) secretSpec,
                       EvSecretsGet (SecretNamespace secretSpec) (SecretName secretSpec),
                       EvSecretsUpdate (SecretNamespace secretSpec) secretSpec])
       \<and> (case fetchedSecret of
            Fail p3 e3 \<Rightarrow>
              syncSecret env secretUsername secretSpec s =
                (Some (Errorf ''could not get current secret: %v'' [e3]),
                 s\<lparr>cl := (cl s)\<lparr>world := w2\<rparr>,
                   calls := calls s @ [EvSecretsCreate (SecretNamespace secretSpec) secretSpec,
                                       EvSecretsGet (SecretNamespace secretSpec) (SecretName secretSpec)]\<rparr>)
          | Ok secret \<Rightarrow>
              (case written of
                 Ok updated \<Rightarrow> fst (syncSecret env secretUsername secretSpec s) = None
               | Fail p4 e4 \<Rightarrow>
                   fst (syncSecret env secretUsername secretSpec s) = None
                   \<or> fst (syncSecret env secretUsername secretSpec s) =
                       Some (Errorf ''could not update infrastructure role secret for role %q: %v'' [e4]))))
   \<and> (StatefulSetsGet env (Namespace (cl s)) (statefulSetName env (cl s)) (world (cl s)) = (Fail q3 e1, w1)
      \<and> ResourceNotFound env e1
      \<and> listPods env ((cl s)\<lparr>world := w1, Statefulset := None\<rparr>) = (Ok pods, c2)
      \<and> createStatefulSet env c2 = (Fail q4 e2, c3)
    \<longrightarrow> syncStatefulSet env s =
         (Failure (Errorf ''could not create missing statefulset: %v'' [e2]),
          s\<lparr>cl := c3,
            calls := calls s @ [EvStatefulSetsGet (Namespace (cl s)) (statefulSetName env (cl s)),
                                EvListPods, EvCreateStatefulSet]\<rparr>))
   \<and> (DeploymentsGet env (Namespace (cl s)) (connPoolName env (cl s)) (world (cl s)) = (Fail p1 e1, w1)
      \<and> ResourceNotFound env e1
      \<and> generateConnPoolDeployment env (Spec newSpec) ((cl s)\<lparr>world := w1\<rparr>) = Ok deploymentSpec
      \<and> DeploymentsCreate env (objNamespace deploymentSpec) deploymentSpec w1 = (Fail p2 e2, w2)
    \<longrightarrow> syncConnectionPoolWorker env oldSpec newSpec s =
         (Failure e2,
          s\<lparr>cl := (cl s)\<lparr>world := w2\<rparr>,
            calls := calls s @ [EvDeploymentsGet (Namespace (cl s)) (connPoolName env (cl s)),
                                EvDeploymentsCreate (objNamespace deploymentSpec) deploymentSpec],
            logs := logs s @
              [Warningf ''Deployment %s for connection pool synchronization is not found, create it'']\<rparr>))
   \<and> (ServicesGet env (Namespace (cl s)) (connPoolName env (cl s)) (world (cl s)) = (Fail p1 e1, w1)
      \<and> ResourceNotFound env e1
      \<and> serviceSpec = generateConnPoolService env (Spec newSpec) ((cl s)\<lparr>world := w1\<rparr>)
      \<and> ServicesCreate env (objNamespace serviceSpec) serviceSpec w1 = (Fail p2 e2, w2)
    \<longrightarrow> syncConnectionPoolWorker_service env newSpec s =
         (Failure e2,
          s\<lparr>cl := (cl s)\<lparr>world := w2\<rparr>,
            calls := calls s @ [EvServicesGet (Namespace (cl s)) (connPoolName env (cl s)),
                                EvServicesCreate (objNamespace serviceSpec) serviceSpec],
            logs := logs s @
              [Warningf ''Service %s for connection pool synchronization is not found, create it'']\<rparr>))"
  using syncEndpoint_race [of env s role p1 e1 w1 x e2 c2 fetched w3]
        syncService_race [of env s role p1 e1 w1 x e2 c2 fetched w3]
        syncPodDisruptionBudget_race [of env s p1 e1 w1 x e2 c2 fetched w3 isUpdate]
        syncLogicalBackupJob_race [of env s p1 e1 w1 e2 c2 fetched w3]
        syncSecret_race [of env secretSpec s q1 e2 w1 fetchedSecret w2 written w4 secretUsername]
        syncStatefulSet_create_fails [of env s q3 e1 w1 pods c2 q4 e2 c3]
        syncConnectionPoolWorker_deployment_race [of env s p1 e1 w1 newSpec deploymentSpec p2 e2 w2 oldSpec]
        syncConnectionPoolWorker_service_race [of env s p1 e1 w1 serviceSpec newSpec p2 e2 w2]
  by blast

theorem create_race_per_kind_witness:
  "(fst (syncEndpoint raceEnv Master (start 0)) = Success
     \<and> calls (snd (syncEndpoint raceEnv Master (start 0))) =
         [EvEndpointsGet ''default'' ''acid-test'', EvCreateEndpoint Master, EvEndpointsGet ''default'' ''acid-test''])
   \<and> (fst (syncService raceEnv Master (start 0)) = Success
     \<and> calls (snd (syncService raceEnv Master (start 0))) =
         [EvServicesGet ''default'' ''acid-test'', EvCreateService Master, EvServicesGet ''default'' ''acid-test''])
   \<and> (fst (syncPodDisruptionBudget raceEnv False (start 0)) = Success
     \<and> calls (snd (syncPodDisruptionBudget raceEnv False (start 0))) =
         [EvPodDisruptionBudgetsGet ''default'' ''postgres-acid-test-pdb'', EvCreatePodDisruptionBudget,
          EvPodDisruptionBudgetsGet ''default'' ''postgres-acid-test-pdb''])
   \<and> (fst (syncLogicalBackupJob raceEnv (start 0)) = Success
     \<and> calls (snd (syncLogicalBackupJob raceEnv (start 0))) =
         [EvCronJobsGet ''default'' ''logical-backup-acid-test'', EvCreateLogicalBackupJob,
          EvCronJobsGet ''default'' ''logical-backup-acid-test''])
   \<and> fst (syncSecret raceEnv ''app'' (userSecret ''default'' appUser) (start 0)) = None
   \<and> syncStatefulSet raceEnv (start 0) =
       (Failure (Errorf ''could not create missing statefulset: %v'' [AlreadyExists]),
        (start 0)\<lparr>cl := (cl (start 0))\<lparr>world := Suc 0\<rparr>,
                  calls := calls (start 0) @
                    [EvStatefulSetsGet ''default'' ''acid-test'', EvListPods, EvCreateStatefulSet]\<rparr>)
   \<and> syncConnectionPoolWorker raceEnv manifest manifest (start 0) =
       (Failure AlreadyExists,
        (start 0)\<lparr>cl := (cl (start 0))\<lparr>world := Suc 0\<rparr>,
                  calls := calls (start 0) @
                    [EvDeploymentsGet ''default'' ''acid-test-pooler'',
                     EvDeploymentsCreate ''default'' (K8sObject ''default'' ''acid-test-pooler'' ''deployment'')],
                  logs := logs (start 0) @
                    [Warningf ''Deployment %s for connection pool synchronization is not found, create it'']\<rparr>)
   \<and> syncConnectionPoolWorker_service raceEnv manifest (start 1) =
       (Failure AlreadyExists,
        (start 1)\<lparr>cl := (cl (start 1))\<lparr>world := Suc 1\<rparr>,
                  calls := calls (start 1) @
                    [EvServicesGet ''default'' ''acid-test-pooler'',
                     EvServicesCreate ''default'' (K8sObject ''default'' ''acid-test-pooler'' ''service'')],
                  logs := logs (start 1) @
                    [Warningf ''Service %s for connection pool synchronization is not found, create it'']\<rparr>)"
proof -
  have endpoint: "fst (syncEndpoint raceEnv Master (start 0)) = Success
     \<and> calls (snd (syncEndpoint raceEnv Master (start 0))) =
         [EvEndpointsGet ''default'' ''acid-test'', EvCreateEndpoint Master, EvEndpointsGet ''default'' ''acid-test'']"
    using create_race_per_kind
      [where env = raceEnv and s = "start 0" and role = Master and ?p1.0 = None and ?e1.0 = NotFound
         and ?w1.0 = "Suc 0" and x = "K8sObject ''default'' ''acid-test'' ''endpoints''"
         and ?e2.0 = AlreadyExists and ?c2.0 = "setEndpoint Master None ((cluster0 0)\<lparr>world := Suc 0\<rparr>)"
         and fetched = "Ok (K8sObject ''default'' ''acid-test'' ''endpoints'')" and ?w3.0 = "Suc 0", THEN conjunct1]
    by (simp add: raceEnv_def example_defs setEndpoint_def)
  have service: "fst (syncService raceEnv Master (start 0)) = Success
     \<and> calls (snd (syncService raceEnv Master (start 0))) =
         [EvServicesGet ''default'' ''acid-test'', EvCreateService Master, EvServicesGet ''default'' ''acid-test'']"
    using create_race_per_kind
      [where env = raceEnv and s = "start 0" and role = Master and ?p1.0 = None and ?e1.0 = NotFound
         and ?w1.0 = "Suc 0" and x = "K8sObject ''default'' ''acid-test'' ''service''"
         and ?e2.0 = AlreadyExists and ?c2.0 = "setService Master None ((cluster0 0)\<lparr>world := Suc 0\<rparr>)"
         and fetched = "Ok (K8sObject ''default'' ''acid-test'' ''service'')" and ?w3.0 = "Suc 0",
       THEN conjunct2, THEN conjunct1]
    by (simp add: raceEnv_def example_defs setService_def)
  have pdb: "fst (syncPodDisruptionBudget raceEnv False (start 0)) = Success
     \<and> calls (snd (syncPodDisruptionBudget raceEnv False (start 0))) =
         [EvPodDisruptionBudgetsGet ''default'' ''postgres-acid-test-pdb'', EvCreatePodDisruptionBudget,
          EvPodDisruptionBudgetsGet ''default'' ''postgres-acid-test-pdb'']"
    using create_race_per_kind
      [where env = raceEnv and s = "start 0" and ?p1.0 = None and ?e1.0 = NotFound
         and ?w1.0 = "Suc 0" and x = "K8sObject ''default'' ''postgres-acid-test-pdb'' ''pdb''"
         and ?e2.0 = AlreadyExists and ?c2.0 = "(cluster0 0)\<lparr>world := Suc 0, PodDisruptionBudget := None\<rparr>"
         and fetched = "Ok (K8sObject ''default'' ''postgres-acid-test-pdb'' ''pdb'')" and ?w3.0 = "Suc 0"
         and isUpdate = False,
       THEN conjunct2, THEN conjunct2, THEN conjunct1]
    by (simp add: raceEnv_def example_defs)
  have job: "fst (syncLogicalBackupJob raceEnv (start 0)) = Success
     \<and> calls (snd (syncLogicalBackupJob raceEnv (start 0))) =
         [EvCronJobsGet ''default'' ''logical-backup-acid-test'', EvCreateLogicalBackupJob,
          EvCronJobsGet ''default'' ''logical-backup-acid-test'']"
    using create_race_per_kind
      [where env = raceEnv and s = "start 0" and ?p1.0 = None and ?e1.0 = NotFound
         and ?w1.0 = "Suc 0" and ?e2.0 = AlreadyExists and ?c2.0 = "(cluster0 0)\<lparr>world := Suc 0\<rparr>"
         and fetched = "Ok (K8sObject ''default'' ''logical-backup-acid-test'' ''cronjob'')" and ?w3.0 = "Suc 0",
       THEN conjunct2, THEN conjunct2, THEN conjunct2, THEN conjunct1]
    by (simp add: raceEnv_def example_defs)
  have secret: "fst (syncSecret raceEnv ''app'' (userSecret ''default'' appUser) (start 0)) = None"
    using create_race_per_kind
      [where env = raceEnv and s = "start 0" and secretSpec = "userSecret ''default'' appUser"
         and ?q1.0 = None and ?e2.0 = AlreadyExists and ?w1.0 = 0
         and fetchedSecret = "Ok (liveSecret ''default'' ''app'')" and ?w2.0 = 0
         and written = "Ok (userSecret ''default'' appUser)" and ?w4.0 = 0 and secretUsername = "''app''",
       THEN conjunct2, THEN conjunct2, THEN conjunct2, THEN conjunct2, THEN conjunct1]
    by (simp add: raceEnv_def example_defs appUser_def)
  have statefulset: "syncStatefulSet raceEnv (start 0) =
       (Failure (Errorf ''could not create missing statefulset: %v'' [AlreadyExists]),
        (start 0)\<lparr>cl := (cl (start 0))\<lparr>world := Suc 0\<rparr>,
                  calls := calls (start 0) @
                    [EvStatefulSetsGet ''default'' ''acid-test'', EvListPods, EvCreateStatefulSet]\<rparr>)"
    using create_race_per_kind
      [where env = raceEnv and s = "start 0" and ?q3.0 = None and ?e1.0 = NotFound and ?w1.0 = "Suc 0"
         and pods = "[K8sObject ''default'' ''acid-test-0'' ''pod'', K8sObject ''default'' ''acid-test-1'' ''pod'']"
         and ?c2.0 = "(cluster0 0)\<lparr>world := Suc 0, Statefulset := None\<rparr>"
         and ?q4.0 = None and ?e2.0 = AlreadyExists
         and ?c3.0 = "(cluster0 0)\<lparr>world := Suc 0, Statefulset := None\<rparr>",
       THEN conjunct2, THEN conjunct2, THEN conjunct2, THEN conjunct2, THEN conjunct2, THEN conjunct1]
    by (simp add: raceEnv_def example_defs)
  have deployment: "syncConnectionPoolWorker raceEnv manifest manifest (start 0) =
       (Failure AlreadyExists,
        (start 0)\<lparr>cl := (cl (start 0))\<lparr>world := Suc 0\<rparr>,
                  calls := calls (start 0) @
                    [EvDeploymentsGet ''default'' ''acid-test-pooler'',
                     EvDeploymentsCreate ''default'' (K8sObject ''default'' ''acid-test-pooler'' ''deployment'')],
                  logs := logs (start 0) @
                    [Warningf ''Deployment %s for connection pool synchronization is not found, create it'']\<rparr>)"
    using create_race_per_kind
      [where env = raceEnv and s = "start 0" and ?p1.0 = None and ?e1.0 = NotFound and ?w1.0 = "Suc 0"
         and newSpec = manifest and oldSpec = manifest
         and deploymentSpec = "K8sObject ''default'' ''acid-test-pooler'' ''deployment''"
         and ?p2.0 = None and ?e2.0 = AlreadyExists and ?w2.0 = "Suc 0",
       THEN conjunct2, THEN conjunct2, THEN conjunct2, THEN conjunct2, THEN conjunct2, THEN conjunct2,
       THEN conjunct1]
    by (simp add: raceEnv_def example_defs)
  have poolService: "syncConnectionPoolWorker_service raceEnv manifest (start 1) =
       (Failure AlreadyExists,
        (start 1)\<lparr>cl := (cl (start 1))\<lparr>world := Suc 1\<rparr>,
                  calls := calls (start 1) @
                    [EvServicesGet ''default'' ''acid-test-pooler'',
                     EvServicesCreate ''default'' (K8sObject ''default'' ''acid-test-pooler'' ''service'')],
                  logs := logs (start 1) @
                    [Warningf ''Service %s for connection pool synchronization is not found, create it'']\<rparr>)"
    using create_race_per_kind
      [where env = raceEnv and s = "start 1" and ?p1.0 = None and ?e1.0 = NotFound and ?w1.0 = "Suc 1"
         and newSpec = manifest
         and serviceSpec = "K8sObject ''default'' ''acid-test-pooler'' ''service''"
         and ?p2.0 = None and ?e2.0 = AlreadyExists and ?w2.0 = "Suc 1",
       THEN conjunct2, THEN conjunct2, THEN conjunct2, THEN conjunct2, THEN conjunct2, THEN conjunct2,
       THEN conjunct2]
    by (simp add: raceEnv_def example_defs)
  from endpoint service pdb job secret statefulset deployment poolService show ?thesis by blast
qed

text \<open>
  C5 as stated fails for the deployment of the connection pool and for the statefulset:
  the fetch finds nothing, the create call is answered with the already-exists error,
  and \<open>syncConnectionPoolWorker\<close> returns that error, \<open>syncStatefulSet\<close> an error built
  from it, without a second fetch.
\<close>

theorem create_race_counterexample:
  "fst (DeploymentsGet raceEnv ''default'' ''acid-test-pooler'' 0) = Fail None NotFound
   \<and> ResourceNotFound raceEnv NotFound
   \<and> fst (DeploymentsCreate raceEnv ''default'' (K8sObject ''default'' ''acid-test-pooler'' ''deployment'') (Suc 0))
       = Fail None AlreadyExists
   \<and> ResourceAlreadyExists raceEnv AlreadyExists
   \<and> fst (syncConnectionPoolWorker raceEnv manifest manifest (start 0)) = Failure AlreadyExists
   \<and> calls (snd (syncConnectionPoolWorker raceEnv manifest manifest (start 0))) =
       [EvDeploymentsGet ''default'' ''acid-test-pooler'',
        EvDeploymentsCreate ''default'' (K8sObject ''default'' ''acid-test-pooler'' ''deployment'')]
   \<and> fst (StatefulSetsGet raceEnv ''default'' ''acid-test'' 0) = Fail None NotFound
   \<and> fst (createStatefulSet raceEnv ((cluster0 0)\<lparr>world := Suc 0, Statefulset := None\<rparr>))
       = Fail None AlreadyExists
   \<and> fst (syncStatefulSet raceEnv (start 0)) =
       Failure (Errorf ''could not create missing statefulset: %v'' [AlreadyExists])
   \<and> calls (snd (syncStatefulSet raceEnv (start 0))) =
       [EvStatefulSetsGet ''default'' ''acid-test'', EvListPods, EvCreateStatefulSet]"
  by (simp add: syncConnectionPoolWorker_def syncStatefulSet_def run_defs raceEnv_def example_defs)

lemma syncConnectionPool_cleanup_needed:
  "syncConnectionPool_cleanup env oldNeedConnPool True s = (Success, s)"
  by (simp add: syncConnectionPool_cleanup_def)

lemma syncConnectionPool_install_fails:
  assumes "needConnectionPoolWorker env (Spec newSpec) (ensureConnectionPool (cl s))"
    and "ConnectionPool (ensureConnectionPool (cl s)) = Some cp"
    and "\<not> needConnectionPoolWorker env (Spec oldSpec) (ensureConnectionPool (cl s)) \<or> \<not> LookupFunction cp"
    and "lookup (lookupSchema newSpec (ensureConnectionPool (cl s)))
           (lookupUserName newSpec (ensureConnectionPool (cl s))) (ensureConnectionPool (cl s)) = (Some err, c1)"
  shows "syncConnectionPool env oldSpec newSpec lookup s =
          (Failure err,
           s\<lparr>cl := c1,
             calls := calls s @ [EvInstallLookupFunction (lookupSchema newSpec (ensureConnectionPool (cl s)))
                                   (lookupUserName newSpec (ensureConnectionPool (cl s)))]\<rparr>)"
  using assms by (simp add: syncConnectionPool_def run_defs Let_def)

lemma syncConnectionPool_install_then_sync:
  assumes "needConnectionPoolWorker env (Spec newSpec) (ensureConnectionPool (cl s))"
    and "ConnectionPool (ensureConnectionPool (cl s)) = Some cp"
    and "\<not> needConnectionPoolWorker env (Spec oldSpec) (ensureConnectionPool (cl s)) \<or> \<not> LookupFunction cp"
    and "lookup (lookupSchema newSpec (ensureConnectionPool (cl s)))
           (lookupUserName newSpec (ensureConnectionPool (cl s))) (ensureConnectionPool (cl s)) = (None, c1)"
    and "w = syncConnectionPoolWorker env oldSpec newSpec
           (s\<lparr>cl := c1,
              calls := calls s @ [EvInstallLookupFunction (lookupSchema newSpec (ensureConnectionPool (cl s)))
                                    (lookupUserName newSpec (ensureConnectionPool (cl s)))]\<rparr>)"
  shows "fst (syncConnectionPool env oldSpec newSpec lookup s) = fst w
       \<and> cl (snd (syncConnectionPool env oldSpec newSpec lookup s)) = cl (snd w)
       \<and> calls (snd (syncConnectionPool env oldSpec newSpec lookup s)) = calls (snd w)"
proof -
  obtain r s2 where w: "w = (r, s2)" by (cases w)
  show ?thesis
    using assms(1-4) w [unfolded assms(5)]
    by (cases r) (simp_all add: syncConnectionPool_def run_defs Let_def syncConnectionPool_cleanup_needed w)
qed

lemma syncConnectionPool_sync_only:
  assumes "needConnectionPoolWorker env (Spec newSpec) (ensureConnectionPool (cl s))"
    and "ConnectionPool (ensureConnectionPool (cl s)) = Some cp"
    and "needConnectionPoolWorker env (Spec oldSpec) (ensureConnectionPool (cl s))" "LookupFunction cp"
    and "w = syncConnectionPoolWorker env oldSpec newSpec (s\<lparr>cl := ensureConnectionPool (cl s)\<rparr>)"
  shows "fst (syncConnectionPool env oldSpec newSpec lookup s) = fst w
       \<and> cl (snd (syncConnectionPool env oldSpec newSpec lookup s)) = cl (snd w)
       \<and> calls (snd (syncConnectionPool env oldSpec newSpec lookup s)) = calls (snd w)"
proof -
  obtain r s2 where w: "w = (r, s2)" by (cases w)
  show ?thesis
    using assms(1-4) w [unfolded assms(5)]
    by (cases r) (simp_all add: syncConnectionPool_def run_defs Let_def syncConnectionPool_cleanup_needed w)
qed

lemma syncConnectionPool_remove:
  assumes "\<not> needConnectionPoolWorker env (Spec newSpec) (ensureConnectionPool (cl s))"
    and "ConnectionPool (ensureConnectionPool (cl s)) = Some cp"
    and "needConnectionPoolWorker env (Spec oldSpec) (ensureConnectionPool (cl s))
         \<or> Deployment cp \<noteq> None \<or> Service cp \<noteq> None"
    and "deleteConnectionPool env (ensureConnectionPool (cl s)) = (res, c1)"
  shows "syncConnectionPool env oldSpec newSpec lookup s =
          (Success,
           s\<lparr>cl := c1, calls := calls s @ [EvDeleteConnectionPool],
             logs := logs s @ (case res of None \<Rightarrow> []
                               | Some err \<Rightarrow> [Warningf ''could not remove connection pool: %v''])\<rparr>)"
  using assms
  by (cases res; cases "needConnectionPoolWorker env (Spec oldSpec) (ensureConnectionPool (cl s))")
     (simp_all add: syncConnectionPool_def syncConnectionPool_cleanup_def removeConnectionPool_def
        run_defs Let_def)

lemma syncConnectionPool_nothing:
  assumes "\<not> needConnectionPoolWorker env (Spec newSpec) (ensureConnectionPool (cl s))"
    and "ConnectionPool (ensureConnectionPool (cl s)) = Some cp"
    and "\<not> needConnectionPoolWorker env (Spec oldSpec) (ensureConnectionPool (cl s))"
    and "Deployment cp = None" "Service cp = None"
  shows "syncConnectionPool env oldSpec newSpec lookup s = (Success, s\<lparr>cl := ensureConnectionPool (cl s)\<rparr>)"
  using assms
  by (simp add: syncConnectionPool_def syncConnectionPool_cleanup_def removeConnectionPool_def
        run_defs Let_def)

text \<open>
  C6.  \<open>syncConnectionPool\<close> asks whether the pool is needed for the new and for the
  old spec (on the cluster with its bundle of pool objects \<open>cp\<close> in place) and then:
  \<^item> pool needed now, and not needed before or lookup function not marked installed:
    the lookup function is installed first, with the schema and user of the pool
    section or else of the operator configuration; when that fails its error is
    returned and nothing else is called; otherwise the pool resources are synced by
    \<open>syncConnectionPoolWorker\<close>, whose result is the result;
  \<^item> pool needed now and before, lookup function marked installed: the pool resources
    are synced and the lookup function is not installed again;
  \<^item> pool not needed now, and needed before or a deployment or service still recorded:
    the pool is deleted by one call; a failure is written to the log as a warning and
    the result is nil either way;
  \<^item> pool never needed and nothing recorded: no call at all.
\<close>

theorem syncConnectionPool_cases:
  assumes "c0 = ensureConnectionPool (cl s)"
    and "ConnectionPool c0 = Some cp"
    and "new = needConnectionPoolWorker env (Spec newSpec) c0"
    and "old = needConnectionPoolWorker env (Spec oldSpec) c0"
    and "install = EvInstallLookupFunction (lookupSchema newSpec c0) (lookupUserName newSpec c0)"
    and "r = syncConnectionPool env oldSpec newSpec lookup s"
  shows
    "(new \<and> (\<not> old \<or> \<not> LookupFunction cp) \<longrightarrow>
        (case lookup (lookupSchema newSpec c0) (lookupUserName newSpec c0) c0 of
           (Some err, c1) \<Rightarrow> r = (Failure err, s\<lparr>cl := c1, calls := calls s @ [install]\<rparr>)
         | (None, c1) \<Rightarrow>
             fst r = fst (syncConnectionPoolWorker env oldSpec newSpec (s\<lparr>cl := c1, calls := calls s @ [install]\<rparr>))
             \<and> cl (snd r) =
                 cl (snd (syncConnectionPoolWorker env oldSpec newSpec (s\<lparr>cl := c1, calls := calls s @ [install]\<rparr>)))
             \<and> calls (snd r) =
                 calls (snd (syncConnectionPoolWorker env oldSpec newSpec (s\<lparr>cl := c1, calls := calls s @ [install]\<rparr>)))))
     \<and> (new \<and> old \<and> LookupFunction cp \<longrightarrow>
          fst r = fst (syncConnectionPoolWorker env oldSpec newSpec (s\<lparr>cl := c0\<rparr>))
          \<and> cl (snd r) = cl (snd (syncConnectionPoolWorker env oldSpec newSpec (s\<lparr>cl := c0\<rparr>)))
          \<and> calls (snd r) = calls (snd (syncConnectionPoolWorker env oldSpec newSpec (s\<lparr>cl := c0\<rparr>))))
     \<and> (\<not> new \<and> (old \<or> Deployment cp \<noteq> None \<or> Service cp \<noteq> None) \<longrightarrow>
          (case deleteConnectionPool env c0 of
             (res, c1) \<Rightarrow>
               r = (Success,
                    s\<lparr>cl := c1, calls := calls s @ [EvDeleteConnectionPool],
                      logs := logs s @ (case res of None \<Rightarrow> []
                                        | Some err \<Rightarrow> [Warningf ''could not remove connection pool: %v''])\<rparr>)))
     \<and> (\<not> new \<and> \<not> old \<and> Deployment cp = None \<and> Service cp = None \<longrightarrow> r = (Success, s\<lparr>cl := c0\<rparr>))"
proof -
  have install_first:
    "new \<and> (\<not> old \<or> \<not> LookupFunction cp) \<longrightarrow>
        (case lookup (lookupSchema newSpec c0) (lookupUserName newSpec c0) c0 of
           (Some err, c1) \<Rightarrow> r = (Failure err, s\<lparr>cl := c1, calls := calls s @ [install]\<rparr>)
         | (None, c1) \<Rightarrow>
             fst r = fst (syncConnectionPoolWorker env oldSpec newSpec (s\<lparr>cl := c1, calls := calls s @ [install]\<rparr>))
             \<and> cl (snd r) =
                 cl (snd (syncConnectionPoolWorker env oldSpec newSpec (s\<lparr>cl := c1, calls := calls s @ [install]\<rparr>)))
             \<and> calls (snd r) =
                 calls (snd (syncConnectionPoolWorker env oldSpec newSpec (s\<lparr>cl := c1, calls := calls s @ [install]\<rparr>))))"
  proof (rule impI)
    assume a: "new \<and> (\<not> old \<or> \<not> LookupFunction cp)"
    obtain res c1 where l: "lookup (lookupSchema newSpec c0) (lookupUserName newSpec c0) c0 = (res, c1)"
      by (cases "lookup (lookupSchema newSpec c0) (lookupUserName newSpec c0) c0")
    show "case lookup (lookupSchema newSpec c0) (lookupUserName newSpec c0) c0 of
           (Some err, c1) \<Rightarrow> r = (Failure err, s\<lparr>cl := c1, calls := calls s @ [install]\<rparr>)
         | (None, c1) \<Rightarrow>
             fst r = fst (syncConnectionPoolWorker env oldSpec newSpec (s\<lparr>cl := c1, calls := calls s @ [install]\<rparr>))
             \<and> cl (snd r) =
                 cl (snd (syncConnectionPoolWorker env oldSpec newSpec (s\<lparr>cl := c1, calls := calls s @ [install]\<rparr>)))
             \<and> calls (snd r) =
                 calls (snd (syncConnectionPoolWorker env oldSpec newSpec (s\<lparr>cl := c1, calls := calls s @ [install]\<rparr>)))"
    proof (cases res)
      case None
      with a l assms show ?thesis
        using syncConnectionPool_install_then_sync [of env newSpec s cp oldSpec lookup c1]
        by simp
    next
      case (Some err)
      with a l assms show ?thesis
        using syncConnectionPool_install_fails [of env newSpec s cp oldSpec lookup err c1]
        by simp
    qed
  qed
  have sync_only:
    "new \<and> old \<and> LookupFunction cp \<longrightarrow>
          fst r = fst (syncConnectionPoolWorker env oldSpec newSpec (s\<lparr>cl := c0\<rparr>))
          \<and> cl (snd r) = cl (snd (syncConnectionPoolWorker env oldSpec newSpec (s\<lparr>cl := c0\<rparr>)))
          \<and> calls (snd r) = calls (snd (syncConnectionPoolWorker env oldSpec newSpec (s\<lparr>cl := c0\<rparr>)))"
    using assms syncConnectionPool_sync_only [of env newSpec s cp oldSpec _ lookup]
    by simp
  have remove:
    "\<not> new \<and> (old \<or> Deployment cp \<noteq> None \<or> Service cp \<noteq> None) \<longrightarrow>
          (case deleteConnectionPool env c0 of
             (res, c1) \<Rightarrow>
               r = (Success,
                    s\<lparr>cl := c1, calls := calls s @ [EvDeleteConnectionPool],
                      logs := logs s @ (case res of None \<Rightarrow> []
                                        | Some err \<Rightarrow> [Warningf ''could not remove connection pool: %v''])\<rparr>))"
  proof (rule impI)
    assume a: "\<not> new \<and> (old \<or> Deployment cp \<noteq> None \<or> Service cp \<noteq> None)"
    obtain res c1 where d: "deleteConnectionPool env c0 = (res, c1)"
      by (cases "deleteConnectionPool env c0")
    with a assms syncConnectionPool_remove [of env newSpec s cp oldSpec res c1 lookup]
    show "case deleteConnectionPool env c0 of
             (res, c1) \<Rightarrow>
               r = (Success,
                    s\<lparr>cl := c1, calls := calls s @ [EvDeleteConnectionPool],
                      logs := logs s @ (case res of None \<Rightarrow> []
                                        | Some err \<Rightarrow> [Warningf ''could not remove connection pool: %v''])\<rparr>)"
      by simp
  qed
  have no_call:
    "\<not> new \<and> \<not> old \<and> Deployment cp = None \<and> Service cp = None \<longrightarrow> r = (Success, s\<lparr>cl := c0\<rparr>)"
  proof (rule impI)
    assume a: "\<not> new \<and> \<not> old \<and> Deployment cp = None \<and> Service cp = None"
    have "syncConnectionPool env oldSpec newSpec lookup s = (Success, s\<lparr>cl := ensureConnectionPool (cl s)\<rparr>)"
      using a assms by (intro syncConnectionPool_nothing [of env newSpec s cp oldSpec lookup]) simp_all
    with assms show "r = (Success, s\<lparr>cl := c0\<rparr>)" by simp
  qed
  show ?thesis
    by (rule conjI [OF install_first conjI [OF sync_only conjI [OF remove no_call]]])
qed

theorem syncConnectionPool_cases_witness:
  "(needConnectionPoolWorker steadyEnv (Spec manifest) (ensureConnectionPool (cl (start ())))
      \<and> fst (syncConnectionPool steadyEnv manifest manifest (installLookupFunction steadyEnv) (start ())) = Success
      \<and> calls (snd (syncConnectionPool steadyEnv manifest manifest (installLookupFunction steadyEnv) (start ()))) =
          [EvInstallLookupFunction ''pooler'' ''pooler'', EvDeploymentsGet ''default'' ''acid-test-pooler'',
           EvServicesGet ''default'' ''acid-test-pooler''])
   \<and> syncConnectionPool steadyEnv manifest manifest failingLookup (start ()) =
       (Failure (ApiError ''no database connection''),
        (start ())\<lparr>cl := ensureConnectionPool (cl (start ())),
                   calls := [EvInstallLookupFunction ''pooler'' ''pooler'']\<rparr>)
   \<and> (fst (syncConnectionPool steadyEnv manifest manifest (installLookupFunction steadyEnv) (pooled ())) = Success
      \<and> calls (snd (syncConnectionPool steadyEnv manifest manifest (installLookupFunction steadyEnv) (pooled ()))) =
          [EvDeploymentsGet ''default'' ''acid-test-pooler'', EvServicesGet ''default'' ''acid-test-pooler''])
   \<and> (fst (syncConnectionPool failingDeleteEnv manifest unpooledManifest (installLookupFunction failingDeleteEnv)
             (pooled ())) = Success
      \<and> calls (snd (syncConnectionPool failingDeleteEnv manifest unpooledManifest
                       (installLookupFunction failingDeleteEnv) (pooled ()))) = [EvDeleteConnectionPool]
      \<and> logs (snd (syncConnectionPool failingDeleteEnv manifest unpooledManifest
                      (installLookupFunction failingDeleteEnv) (pooled ()))) =
          [Warningf ''could not remove connection pool: %v''])
   \<and> (\<not> needConnectionPoolWorker steadyEnv (Spec unpooledManifest) (ensureConnectionPool (cl (pooled ())))
      \<and> fst (syncConnectionPool steadyEnv unpooledManifest unpooledManifest (installLookupFunction steadyEnv)
               (pooled ())) = Success
      \<and> calls (snd (syncConnectionPool steadyEnv unpooledManifest unpooledManifest
                       (installLookupFunction steadyEnv) (pooled ()))) = [EvDeleteConnectionPool])
   \<and> syncConnectionPool steadyEnv unpooledManifest unpooledManifest (installLookupFunction steadyEnv) (start ()) =
       (Success, (start ())\<lparr>cl := ensureConnectionPool (cl (start ()))\<rparr>)"
proof -
  have empty: "ConnectionPool (ensureConnectionPool (cl (start ()))) =
                 Some \<lparr>Deployment = None, Service = None, LookupFunction = False\<rparr>"
    by (simp add: ensureConnectionPool_def example_defs)
  have full: "ConnectionPool (ensureConnectionPool (cl (pooled ()))) =
                 Some \<lparr>Deployment = Some (K8sObject ''default'' ''acid-test-pooler'' ''deployment''),
                       Service = Some (K8sObject ''default'' ''acid-test-pooler'' ''service''),
                       LookupFunction = True\<rparr>"
    by (simp add: ensureConnectionPool_def pooled_def example_defs)
  have installed: "needConnectionPoolWorker steadyEnv (Spec manifest) (ensureConnectionPool (cl (start ())))
      \<and> fst (syncConnectionPool steadyEnv manifest manifest (installLookupFunction steadyEnv) (start ())) = Success
      \<and> calls (snd (syncConnectionPool steadyEnv manifest manifest (installLookupFunction steadyEnv) (start ()))) =
          [EvInstallLookupFunction ''pooler'' ''pooler'', EvDeploymentsGet ''default'' ''acid-test-pooler'',
           EvServicesGet ''default'' ''acid-test-pooler'']"
    using syncConnectionPool_cases
      [where env = steadyEnv and oldSpec = manifest and newSpec = manifest
         and lookup = "installLookupFunction steadyEnv",
       OF refl empty refl refl refl refl, THEN conjunct1]
    by (simp add: ensureConnectionPool_def lookupSchema_def lookupUserName_def Coalesce_def
          syncConnectionPoolWorker_def syncConnectionPoolWorker_service_def setPoolDeployment_def
          setPoolService_def run_defs example_defs)
  have refused: "syncConnectionPool steadyEnv manifest manifest failingLookup (start ()) =
       (Failure (ApiError ''no database connection''),
        (start ())\<lparr>cl := ensureConnectionPool (cl (start ())),
                   calls := [EvInstallLookupFunction ''pooler'' ''pooler'']\<rparr>)"
    using syncConnectionPool_cases
      [where env = steadyEnv and oldSpec = manifest and newSpec = manifest and lookup = failingLookup,
       OF refl empty refl refl refl refl, THEN conjunct1]
    by (simp add: ensureConnectionPool_def lookupSchema_def lookupUserName_def Coalesce_def
          failingLookup_def example_defs)
  have synced: "fst (syncConnectionPool steadyEnv manifest manifest (installLookupFunction steadyEnv) (pooled ())) = Success
      \<and> calls (snd (syncConnectionPool steadyEnv manifest manifest (installLookupFunction steadyEnv) (pooled ()))) =
          [EvDeploymentsGet ''default'' ''acid-test-pooler'', EvServicesGet ''default'' ''acid-test-pooler'']"
    using syncConnectionPool_cases
      [where env = steadyEnv and oldSpec = manifest and newSpec = manifest
         and lookup = "installLookupFunction steadyEnv",
       OF refl full refl refl refl refl, THEN conjunct2, THEN conjunct1]
    by (simp add: ensureConnectionPool_def syncConnectionPoolWorker_def syncConnectionPoolWorker_service_def
          setPoolDeployment_def setPoolService_def run_defs pooled_def example_defs)
  have removed: "fst (syncConnectionPool failingDeleteEnv manifest unpooledManifest (installLookupFunction failingDeleteEnv)
             (pooled ())) = Success
      \<and> calls (snd (syncConnectionPool failingDeleteEnv manifest unpooledManifest
                       (installLookupFunction failingDeleteEnv) (pooled ()))) = [EvDeleteConnectionPool]
      \<and> logs (snd (syncConnectionPool failingDeleteEnv manifest unpooledManifest
                      (installLookupFunction failingDeleteEnv) (pooled ()))) =
          [Warningf ''could not remove connection pool: %v'']"
    using syncConnectionPool_cases
      [where env = failingDeleteEnv and oldSpec = manifest and newSpec = unpooledManifest
         and lookup = "installLookupFunction failingDeleteEnv",
       OF refl full refl refl refl refl, THEN conjunct2, THEN conjunct2, THEN conjunct1]
    by (simp add: ensureConnectionPool_def failingDeleteEnv_def unpooledManifest_def pooled_def example_defs)
  have stale: "\<not> needConnectionPoolWorker steadyEnv (Spec unpooledManifest) (ensureConnectionPool (cl (pooled ())))
      \<and> fst (syncConnectionPool steadyEnv unpooledManifest unpooledManifest (installLookupFunction steadyEnv)
               (pooled ())) = Success
      \<and> calls (snd (syncConnectionPool steadyEnv unpooledManifest unpooledManifest
                       (installLookupFunction steadyEnv) (pooled ()))) = [EvDeleteConnectionPool]"
    using syncConnectionPool_cases
      [where env = steadyEnv and oldSpec = unpooledManifest and newSpec = unpooledManifest
         and lookup = "installLookupFunction steadyEnv",
       OF refl full refl refl refl refl, THEN conjunct2, THEN conjunct2, THEN conjunct1]
    by (simp add: ensureConnectionPool_def unpooledManifest_def pooled_def example_defs)
  have idle: "syncConnectionPool steadyEnv unpooledManifest unpooledManifest (installLookupFunction steadyEnv) (start ()) =
       (Success, (start ())\<lparr>cl := ensureConnectionPool (cl (start ()))\<rparr>)"
    using syncConnectionPool_cases
      [where env = steadyEnv and oldSpec = unpooledManifest and newSpec = unpooledManifest
         and lookup = "installLookupFunction steadyEnv",
       OF refl empty refl refl refl refl, THEN conjunct2, THEN conjunct2, THEN conjunct2]
    by (simp add: unpooledManifest_def example_defs)
  show ?thesis
    by (rule conjI [OF installed conjI [OF refused conjI [OF synced conjI [OF removed conjI [OF stale idle]]]]])
qed

subsection \<open>Databases\<close>

lemma update_fresh: "k \<notin> fst ` set xs \<Longrightarrow> AList.update k v xs = xs @ [(k, v)]"
  by (induction xs) auto

lemma partitionDatabases_filter:
  assumes "distinct (map fst declared)"
    and "fst ` set declared \<inter> fst ` set createDatabases = {}"
    and "fst ` set declared \<inter> fst ` set alterOwnerDatabases = {}"
  shows "partitionDatabases currentDatabases declared (createDatabases, alterOwnerDatabases) =
          (createDatabases @ filter (\<lambda>(datname, newOwner). map_of currentDatabases datname = None) declared,
           alterOwnerDatabases @
             filter (\<lambda>(datname, newOwner).
                       case map_of currentDatabases datname of
                         None \<Rightarrow> False
                       | Some currentOwner \<Rightarrow> currentOwner \<noteq> newOwner) declared)"
  using assms
proof (induction declared arbitrary: createDatabases alterOwnerDatabases)
  case Nil
  then show ?case by simp
next
  case (Cons p declared)
  obtain datname newOwner where p: "p = (datname, newOwner)" by (cases p)
  from Cons.prems p have fresh: "datname \<notin> fst ` set createDatabases" "datname \<notin> fst ` set alterOwnerDatabases"
    and rest: "distinct (map fst declared)" "datname \<notin> fst ` set declared"
      "fst ` set declared \<inter> fst ` set createDatabases = {}"
      "fst ` set declared \<inter> fst ` set alterOwnerDatabases = {}"
    by auto
  show ?case
  proof (cases "map_of currentDatabases datname")
    case None
    have "fst ` set declared \<inter> fst ` set (createDatabases @ [(datname, newOwner)]) = {}"
      using rest by auto
    from Cons.IH [OF rest(1) this rest(4)] None p fresh show ?thesis
      by (simp add: update_fresh)
  next
    case (Some currentOwner)
    have "fst ` set declared \<inter> fst ` set (alterOwnerDatabases @ [(datname, newOwner)]) = {}"
      using rest by auto
    from Cons.IH [OF rest(1) rest(3) this] Cons.IH [OF rest(1) rest(3) rest(4)] Some p fresh show ?thesis
      by (simp add: update_fresh)
  qed
qed

lemma executeCreateDatabases_calls:
  "\<exists>n. calls (snd (executeCreateDatabases env xs s)) =
          calls s @ map (\<lambda>(d, ow). EvExecuteCreateDatabase d ow) (take n xs)
       \<and> logs (snd (executeCreateDatabases env xs s)) = logs s
       \<and> (fst (executeCreateDatabases env xs s) = None \<longrightarrow> length xs \<le> n)"
proof (induction xs arbitrary: s)
  case Nil
  then show ?case by simp
next
  case (Cons p xs)
  obtain d ow' where p: "p = (d, ow')" by (cases p)
  obtain r c1 where e: "executeCreateDatabase env d ow' (cl s) = (r, c1)"
    by (cases "executeCreateDatabase env d ow' (cl s)")
  show ?case
  proof (cases r)
    case None
    from Cons.IH [of "s\<lparr>cl := c1, calls := calls s @ [EvExecuteCreateDatabase d ow']\<rparr>"]
    obtain n where n: "calls (snd (executeCreateDatabases env xs (s\<lparr>cl := c1, calls := calls s @ [EvExecuteCreateDatabase d ow']\<rparr>))) =
          (calls s @ [EvExecuteCreateDatabase d ow']) @ map (\<lambda>(d, ow). EvExecuteCreateDatabase d ow) (take n xs)"
      "logs (snd (executeCreateDatabases env xs (s\<lparr>cl := c1, calls := calls s @ [EvExecuteCreateDatabase d ow']\<rparr>))) = logs s"
      "fst (executeCreateDatabases env xs (s\<lparr>cl := c1, calls := calls s @ [EvExecuteCreateDatabase d ow']\<rparr>)) = None \<longrightarrow> length xs \<le> n"
      by auto
    show ?thesis
      using n p e None by (intro exI [of _ "Suc n"]) (simp add: act_def)
  next
    case (Some err)
    show ?thesis
      using p e Some by (intro exI [of _ "Suc 0"]) (simp add: act_def)
  qed
qed

lemma executeAlterDatabaseOwners_calls:
  "\<exists>n. calls (snd (executeAlterDatabaseOwners env xs s)) =
          calls s @ map (\<lambda>(d, ow). EvExecuteAlterDatabaseOwner d ow) (take n xs)
       \<and> logs (snd (executeAlterDatabaseOwners env xs s)) = logs s
       \<and> (fst (executeAlterDatabaseOwners env xs s) = None \<longrightarrow> length xs \<le> n)"
proof (induction xs arbitrary: s)
  case Nil
  then show ?case by simp
next
  case (Cons p xs)
  obtain d ow' where p: "p = (d, ow')" by (cases p)
  obtain r c1 where e: "executeAlterDatabaseOwner env d ow' (cl s) = (r, c1)"
    by (cases "executeAlterDatabaseOwner env d ow' (cl s)")
  show ?case
  proof (cases r)
    case None
    from Cons.IH [of "s\<lparr>cl := c1, calls := calls s @ [EvExecuteAlterDatabaseOwner d ow']\<rparr>"]
    obtain n where n: "calls (snd (executeAlterDatabaseOwners env xs (s\<lparr>cl := c1, calls := calls s @ [EvExecuteAlterDatabaseOwner d ow']\<rparr>))) =
          (calls s @ [EvExecuteAlterDatabaseOwner d ow']) @ map (\<lambda>(d, ow). EvExecuteAlterDatabaseOwner d ow) (take n xs)"
      "logs (snd (executeAlterDatabaseOwners env xs (s\<lparr>cl := c1, calls := calls s @ [EvExecuteAlterDatabaseOwner d ow']\<rparr>))) = logs s"
      "fst (executeAlterDatabaseOwners env xs (s\<lparr>cl := c1, calls := calls s @ [EvExecuteAlterDatabaseOwner d ow']\<rparr>)) = None \<longrightarrow> length xs \<le> n"
      by auto
    show ?thesis
      using n p e None by (intro exI [of _ "Suc n"]) (simp add: act_def)
  next
    case (Some err)
    show ?thesis
      using p e Some by (intro exI [of _ "Suc 0"]) (simp add: act_def)
  qed
qed

lemma executeCreateDatabases_never_fails:
  assumes "\<forall>d ow c. fst (executeCreateDatabase env d ow c) = None"
  shows "fst (executeCreateDatabases env xs s) = None"
proof (induction xs arbitrary: s)
  case Nil
  then show ?case by simp
next
  case (Cons p xs)
  obtain d ow' where p: "p = (d, ow')" by (cases p)
  obtain r c1 where e: "executeCreateDatabase env d ow' (cl s) = (r, c1)"
    by (cases "executeCreateDatabase env d ow' (cl s)")
  with assms have "r = None" by (metis fst_conv)
  with p e Cons.IH show ?case by (simp add: act_def)
qed

lemma executeAlterDatabaseOwners_never_fails:
  assumes "\<forall>d ow c. fst (executeAlterDatabaseOwner env d ow c) = None"
  shows "fst (executeAlterDatabaseOwners env xs s) = None"
proof (induction xs arbitrary: s)
  case Nil
  then show ?case by simp
next
  case (Cons p xs)
  obtain d ow' where p: "p = (d, ow')" by (cases p)
  obtain r c1 where e: "executeAlterDatabaseOwner env d ow' (cl s) = (r, c1)"
    by (cases "executeAlterDatabaseOwner env d ow' (cl s)")
  with assms have "r = None" by (metis fst_conv)
  with p e Cons.IH show ?case by (simp add: act_def)
qed

text \<open>
  What the body of \<open>syncDatabases\<close> calls once the list of live databases is read:
  a prefix of the creations, then a prefix of the owner changes, the latter empty
  unless every creation was issued.
\<close>

lemma syncDatabases_body_calls:
  assumes "getDatabases env (cl s) = (Ok currentDatabases, c2)"
    and "partitionDatabases currentDatabases (Databases (Spec (Postgresql c2))) ([], []) = (toCreate, toAlter)"
  shows "\<exists>n m. calls (snd (syncDatabases_body env s)) =
            calls s @ [EvGetDatabases]
              @ map (\<lambda>(d, ow). EvExecuteCreateDatabase d ow) (take n toCreate)
              @ map (\<lambda>(d, ow). EvExecuteAlterDatabaseOwner d ow) (take m toAlter)
          \<and> logs (snd (syncDatabases_body env s)) = logs s
          \<and> (0 < m \<longrightarrow> length toCreate \<le> n)
          \<and> (fst (syncDatabases_body env s) = None \<longrightarrow> length toCreate \<le> n \<and> length toAlter \<le> m)"
proof (cases "length toCreate + length toAlter = 0")
  case True
  with assms show ?thesis
    by (intro exI [of _ 0]) (simp add: syncDatabases_body_def act_def)
next
  case False
  define s1 where "s1 = s\<lparr>cl := c2, calls := calls s @ [EvGetDatabases]\<rparr>"
  obtain r s2 where c: "executeCreateDatabases env toCreate s1 = (r, s2)"
    by (cases "executeCreateDatabases env toCreate s1")
  from executeCreateDatabases_calls [of env toCreate s1] c
  obtain n where n: "calls s2 = calls s1 @ map (\<lambda>(d, ow). EvExecuteCreateDatabase d ow) (take n toCreate)"
    "logs s2 = logs s1" "r = None \<longrightarrow> length toCreate \<le> n"
    by auto
  show ?thesis
  proof (cases r)
    case (Some err)
    with assms False c n show ?thesis
      by (intro exI [of _ n] exI [of _ 0]) (simp add: syncDatabases_body_def act_def s1_def)
  next
    case None
    from executeAlterDatabaseOwners_calls [of env toAlter s2]
    obtain m where m: "calls (snd (executeAlterDatabaseOwners env toAlter s2)) =
          calls s2 @ map (\<lambda>(d, ow). EvExecuteAlterDatabaseOwner d ow) (take m toAlter)"
      "logs (snd (executeAlterDatabaseOwners env toAlter s2)) = logs s2"
      "fst (executeAlterDatabaseOwners env toAlter s2) = None \<longrightarrow> length toAlter \<le> m"
      by auto
    with assms False c n None show ?thesis
      by (intro exI [of _ n] exI [of _ m]) (simp add: syncDatabases_body_def act_def s1_def)
  qed
qed

lemma syncDatabases_body_never_fails:
  assumes "getDatabases env (cl s) = (Ok currentDatabases, c2)"
    and "\<forall>d ow c. fst (executeCreateDatabase env d ow c) = None"
    and "\<forall>d ow c. fst (executeAlterDatabaseOwner env d ow c) = None"
  shows "fst (syncDatabases_body env s) = None"
proof -
  obtain toCreate toAlter where
    p: "partitionDatabases currentDatabases (Databases (Spec (Postgresql c2))) ([], []) = (toCreate, toAlter)"
    by (cases "partitionDatabases currentDatabases (Databases (Spec (Postgresql c2))) ([], [])")
  define s1 where "s1 = s\<lparr>cl := c2, calls := calls s @ [EvGetDatabases]\<rparr>"
  obtain r s2 where c: "executeCreateDatabases env toCreate s1 = (r, s2)"
    by (cases "executeCreateDatabases env toCreate s1")
  with executeCreateDatabases_never_fails [OF assms(2), of toCreate s1] have r: "r = None" by simp
  from assms(1) p c r executeAlterDatabaseOwners_never_fails [OF assms(3), of toAlter s2]
  show ?thesis
    by (simp add: syncDatabases_body_def act_def s1_def)
qed

text \<open>
  C7.  With the connection open and the live databases read, \<open>syncDatabases\<close> splits the
  declared databases into those the database does not hold (to create) and those it
  holds under another owner (to alter).  Whatever fails, its calls are a run of
  creations followed by a run of owner changes, and an owner change is only issued
  after every creation has been; when no statement fails, every creation and then every
  owner change is issued, and the result is nil.
\<close>

theorem syncDatabases_creates_before_alters:
  assumes "initDbConn env (cl s) = (None, c1)"
    and "getDatabases env c1 = (Ok currentDatabases, c2)"
    and "declared = Databases (Spec (Postgresql c2))"
    and "distinct (map fst declared)"
    and "toCreate = filter (\<lambda>(datname, newOwner). map_of currentDatabases datname = None) declared"
    and "toAlter =
           filter (\<lambda>(datname, newOwner).
                     case map_of currentDatabases datname of
                       None \<Rightarrow> False
                     | Some currentOwner \<Rightarrow> currentOwner \<noteq> newOwner) declared"
  shows "partitionDatabases currentDatabases declared ([], []) = (toCreate, toAlter)
       \<and> (\<exists>n m. calls (snd (syncDatabases env s)) =
                   calls s @ [EvInitDbConn, EvGetDatabases]
                     @ map (\<lambda>(d, ow). EvExecuteCreateDatabase d ow) (take n toCreate)
                     @ map (\<lambda>(d, ow). EvExecuteAlterDatabaseOwner d ow) (take m toAlter)
                     @ [EvCloseDbConn]
                 \<and> (0 < m \<longrightarrow> length toCreate \<le> n))
       \<and> ((\<forall>d ow c. fst (executeCreateDatabase env d ow c) = None)
            \<and> (\<forall>d ow c. fst (executeAlterDatabaseOwner env d ow c) = None)
          \<longrightarrow> fst (syncDatabases env s) = Success
              \<and> calls (snd (syncDatabases env s)) =
                  calls s @ [EvInitDbConn, EvGetDatabases]
                    @ map (\<lambda>(d, ow). EvExecuteCreateDatabase d ow) toCreate
                    @ map (\<lambda>(d, ow). EvExecuteAlterDatabaseOwner d ow) toAlter
                    @ [EvCloseDbConn])"
proof -
  define s1 where "s1 = s\<lparr>cl := c1, calls := calls s @ [EvInitDbConn]\<rparr>"
  have part: "partitionDatabases currentDatabases declared ([], []) = (toCreate, toAlter)"
    using partitionDatabases_filter [of declared "[]" "[]" currentDatabases] assms(4-6) by simp
  have g: "getDatabases env (cl s1) = (Ok currentDatabases, c2)"
    using assms(2) by (simp add: s1_def)
  obtain r s2 where b: "syncDatabases_body env s1 = (r, s2)"
    by (cases "syncDatabases_body env s1")
  obtain cr c3 where cl: "closeDbConn env (cl s2) = (cr, c3)"
    by (cases "closeDbConn env (cl s2)")
  have run: "calls (snd (syncDatabases env s)) = calls s2 @ [EvCloseDbConn]"
    "fst (syncDatabases env s) = ret r"
    using assms(1) b cl by (cases cr; simp add: syncDatabases_def act_def logline_def s1_def)+
  from syncDatabases_body_calls [OF g part [unfolded assms(3)]] b
  obtain n m where nm: "calls s2 =
            calls s1 @ [EvGetDatabases]
              @ map (\<lambda>(d, ow). EvExecuteCreateDatabase d ow) (take n toCreate)
              @ map (\<lambda>(d, ow). EvExecuteAlterDatabaseOwner d ow) (take m toAlter)"
      "0 < m \<longrightarrow> length toCreate \<le> n"
      "r = None \<longrightarrow> length toCreate \<le> n \<and> length toAlter \<le> m"
    by auto
  have order: "\<exists>n m. calls (snd (syncDatabases env s)) =
                   calls s @ [EvInitDbConn, EvGetDatabases]
                     @ map (\<lambda>(d, ow). EvExecuteCreateDatabase d ow) (take n toCreate)
                     @ map (\<lambda>(d, ow). EvExecuteAlterDatabaseOwner d ow) (take m toAlter)
                     @ [EvCloseDbConn]
                 \<and> (0 < m \<longrightarrow> length toCreate \<le> n)"
    using run(1) nm(1,2) by (intro exI [of _ n] exI [of _ m]) (simp add: s1_def)
  have all: "(\<forall>d ow c. fst (executeCreateDatabase env d ow c) = None)
            \<and> (\<forall>d ow c. fst (executeAlterDatabaseOwner env d ow c) = None)
          \<longrightarrow> fst (syncDatabases env s) = Success
              \<and> calls (snd (syncDatabases env s)) =
                  calls s @ [EvInitDbConn, EvGetDatabases]
                    @ map (\<lambda>(d, ow). EvExecuteCreateDatabase d ow) toCreate
                    @ map (\<lambda>(d, ow). EvExecuteAlterDatabaseOwner d ow) toAlter
                    @ [EvCloseDbConn]"
  proof (rule impI)
    assume a: "(\<forall>d ow c. fst (executeCreateDatabase env d ow c) = None)
            \<and> (\<forall>d ow c. fst (executeAlterDatabaseOwner env d ow c) = None)"
    from syncDatabases_body_never_fails [OF g] a b have "r = None" by simp
    with run nm show "fst (syncDatabases env s) = Success
              \<and> calls (snd (syncDatabases env s)) =
                  calls s @ [EvInitDbConn, EvGetDatabases]
                    @ map (\<lambda>(d, ow). EvExecuteCreateDatabase d ow) toCreate
                    @ map (\<lambda>(d, ow). EvExecuteAlterDatabaseOwner d ow) toAlter
                    @ [EvCloseDbConn]"
      by (simp add: s1_def ret_def)
  qed
  show ?thesis by (rule conjI [OF part conjI [OF order all]])
qed

text \<open>
  The instance of C7: the database holds \<open>a\<close> owned by \<open>owner1\<close>, the manifest declares
  \<open>a\<close> for \<open>owner2\<close> and \<open>b\<close> for \<open>owner1\<close>; one creation (of \<open>b\<close>), then one owner
  change (of \<open>a\<close>).
\<close>

theorem syncDatabases_creates_before_alters_witness:
  "distinct (map fst (Databases (Spec (Postgresql (cl (start ()))))))
   \<and> (\<forall>d ow c. fst (executeCreateDatabase liveDatabasesEnv d ow c) = None)
   \<and> (\<forall>d ow c. fst (executeAlterDatabaseOwner liveDatabasesEnv d ow c) = None)
   \<and> partitionDatabases [(''a'', ''owner1'')] [(''a'', ''owner2''), (''b'', ''owner1'')] ([], [])
       = ([(''b'', ''owner1'')], [(''a'', ''owner2'')])
   \<and> fst (syncDatabases liveDatabasesEnv (start ())) = Success
   \<and> calls (snd (syncDatabases liveDatabasesEnv (start ()))) =
       [EvInitDbConn, EvGetDatabases, EvExecuteCreateDatabase ''b'' ''owner1'',
        EvExecuteAlterDatabaseOwner ''a'' ''owner2'', EvCloseDbConn]"
proof -
  have i: "initDbConn liveDatabasesEnv (cl (start ())) = (None, cl (start ()))"
    by (simp add: liveDatabasesEnv_def example_defs)
  have g: "getDatabases liveDatabasesEnv (cl (start ())) = (Ok [(''a'', ''owner1'')], cl (start ()))"
    by (simp add: liveDatabasesEnv_def example_defs)
  have d: "distinct (map fst (Databases (Spec (Postgresql (cl (start ()))))))"
    by (simp add: example_defs)
  have never: "(\<forall>d ow c. fst (executeCreateDatabase liveDatabasesEnv d ow c) = None)
      \<and> (\<forall>d ow c. fst (executeAlterDatabaseOwner liveDatabasesEnv d ow c) = None)"
    by (simp add: liveDatabasesEnv_def example_defs)
  show ?thesis
    using syncDatabases_creates_before_alters [OF i g refl d refl refl] d never
    by (simp add: example_defs)
qed

subsection \<open>The database connection of a call\<close>

lemma syncRoles_body_calls:
  "\<exists>evs. calls (snd (syncRoles_body env s)) = calls s @ evs \<and> EvCloseDbConn \<notin> set evs"
proof -
  define userNames where
    "userNames =
       (if needConnectionPool env (cl s)
        then map (\<lambda>(k, u). Name u) (pgUsers (cl s))
               @ [Name (lookupUser env (systemUsers (cl s)) (ConnectionPoolUserKeyName env))]
        else map (\<lambda>(k, u). Name u) (pgUsers (cl s)))"
  define s1 where
    "s1 =
       (if needConnectionPool env (cl s)
           \<and> map_of (pgUsers (cl s)) (Name (lookupUser env (systemUsers (cl s)) (ConnectionPoolUserKeyName env))) = None
        then upd (\<lambda>c. c\<lparr>pgUsers :=
                           AList.update (Name (lookupUser env (systemUsers (cl s)) (ConnectionPoolUserKeyName env)))
                             (lookupUser env (systemUsers (cl s)) (ConnectionPoolUserKeyName env)) (pgUsers c)\<rparr>) s
        else s)"
  have c1: "calls s1 = calls s" by (simp add: s1_def upd_def)
  obtain r c2 where rd: "readPgUsersFromDatabase env userNames (cl s1) = (r, c2)"
    by (cases "readPgUsersFromDatabase env userNames (cl s1)")
  show ?thesis
  proof (cases r)
    case (Fail p err)
    with rd c1 show ?thesis
      by (intro exI [of _ "[EvReadPgUsersFromDatabase userNames]"])
         (simp add: syncRoles_body_def Let_def act_def userNames_def [symmetric] s1_def [symmetric])
  next
    case (Ok dbUsers)
    obtain r3 c3 where ex: "ExecuteSyncRequests env (ProduceSyncRequests env dbUsers (pgUsers c2)) c2 = (r3, c3)"
      by (cases "ExecuteSyncRequests env (ProduceSyncRequests env dbUsers (pgUsers c2)) c2")
    with Ok rd c1 show ?thesis
      by (intro exI [of _ "[EvReadPgUsersFromDatabase userNames,
                            EvExecuteSyncRequests (ProduceSyncRequests env dbUsers (pgUsers c2))]"])
         (cases r3; simp add: syncRoles_body_def Let_def act_def userNames_def [symmetric] s1_def [symmetric])
  qed
qed

lemma syncDatabases_body_no_close:
  "\<exists>evs. calls (snd (syncDatabases_body env s)) = calls s @ evs \<and> EvCloseDbConn \<notin> set evs"
proof -
  obtain r c2 where g: "getDatabases env (cl s) = (r, c2)"
    by (cases "getDatabases env (cl s)")
  show ?thesis
  proof (cases r)
    case (Fail p err)
    with g show ?thesis
      by (intro exI [of _ "[EvGetDatabases]"]) (simp add: syncDatabases_body_def act_def)
  next
    case (Ok currentDatabases)
    obtain toCreate toAlter where
      p: "partitionDatabases currentDatabases (Databases (Spec (Postgresql c2))) ([], []) = (toCreate, toAlter)"
      by (cases "partitionDatabases currentDatabases (Databases (Spec (Postgresql c2))) ([], [])")
    from syncDatabases_body_calls [OF g [unfolded Ok] p]
    obtain n m where "calls (snd (syncDatabases_body env s)) =
            calls s @ [EvGetDatabases]
              @ map (\<lambda>(d, ow). EvExecuteCreateDatabase d ow) (take n toCreate)
              @ map (\<lambda>(d, ow). EvExecuteAlterDatabaseOwner d ow) (take m toAlter)"
      by auto
    then show ?thesis
      by (intro exI [of _ "[EvGetDatabases]
              @ map (\<lambda>(d, ow). EvExecuteCreateDatabase d ow) (take n toCreate)
              @ map (\<lambda>(d, ow). EvExecuteAlterDatabaseOwner d ow) (take m toAlter)"]) auto
  qed
qed

text \<open>
  C8, as the code has it.  Once the connection is open, \<open>syncRoles\<close> and
  \<open>syncDatabases\<close> run their body, which never closes the connection, and close it by
  one call, the last of the function, whatever the body returned.  When closing fails,
  \<open>syncRoles\<close> returns the close error composed with the error of the body, if any;
  \<open>syncDatabases\<close> writes the close error to the log and returns what the body
  returned.
\<close>

theorem connection_closed_after_body:
  assumes "initDbConn env (cl s) = (None, c1)"
    and "s1 = s\<lparr>cl := c1, calls := calls s @ [EvInitDbConn]\<rparr>"
    and "syncRoles_body env s1 = (rolesErr, sr)"
    and "closeDbConn env (cl sr) = (rolesClose, cr)"
    and "syncDatabases_body env s1 = (databasesErr, sd)"
    and "closeDbConn env (cl sd) = (databasesClose, cd)"
  shows "syncRoles env s =
           ((case rolesClose of
               None \<Rightarrow> ret rolesErr
             | Some err2 \<Rightarrow>
                 (case rolesErr of
                    None \<Rightarrow> Failure (Errorf ''could not close database connection: %v'' [err2])
                  | Some prior \<Rightarrow>
                      Failure (Errorf ''could not close database connection: %v (prior error: %v)'' [err2, prior]))),
            sr\<lparr>cl := cr, calls := calls sr @ [EvCloseDbConn]\<rparr>)
       \<and> syncDatabases env s =
           (ret databasesErr,
            sd\<lparr>cl := cd, calls := calls sd @ [EvCloseDbConn],
               logs := logs sd @ (case databasesClose of
                                    None \<Rightarrow> []
                                  | Some err \<Rightarrow> [Errorlog ''could not close database connection: %v''])\<rparr>)
       \<and> (\<exists>evs. calls sr = calls s1 @ evs \<and> EvCloseDbConn \<notin> set evs)
       \<and> (\<exists>evs. calls sd = calls s1 @ evs \<and> EvCloseDbConn \<notin> set evs)"
proof -
  have roles: "syncRoles env s =
           ((case rolesClose of
               None \<Rightarrow> ret rolesErr
             | Some err2 \<Rightarrow>
                 (case rolesErr of
                    None \<Rightarrow> Failure (Errorf ''could not close database connection: %v'' [err2])
                  | Some prior \<Rightarrow>
                      Failure (Errorf ''could not close database connection: %v (prior error: %v)'' [err2, prior]))),
            sr\<lparr>cl := cr, calls := calls sr @ [EvCloseDbConn]\<rparr>)"
    using assms(1,3,4) unfolding assms(2)
    by (cases rolesClose; cases rolesErr; simp add: syncRoles_def act_def)
  have databases: "syncDatabases env s =
           (ret databasesErr,
            sd\<lparr>cl := cd, calls := calls sd @ [EvCloseDbConn],
               logs := logs sd @ (case databasesClose of
                                    None \<Rightarrow> []
                                  | Some err \<Rightarrow> [Errorlog ''could not close database connection: %v''])\<rparr>)"
    using assms(1,5,6) unfolding assms(2)
    by (cases databasesClose; simp add: syncDatabases_def act_def logline_def)
  have r: "\<exists>evs. calls sr = calls s1 @ evs \<and> EvCloseDbConn \<notin> set evs"
    using syncRoles_body_calls [of env s1] assms(3) by simp
  have d: "\<exists>evs. calls sd = calls s1 @ evs \<and> EvCloseDbConn \<notin> set evs"
    using syncDatabases_body_no_close [of env s1] assms(5) by simp
  show ?thesis by (rule conjI [OF roles conjI [OF databases conjI [OF r d]]])
qed

theorem connection_closed_after_body_witness:
  "initDbConn queryAndCloseFailEnv (cl (start ())) = (None, cl (start ()))
   \<and> fst (closeDbConn queryAndCloseFailEnv (cl (start ()))) = Some (ApiError ''close failed'')
   \<and> fst (syncRoles queryAndCloseFailEnv (start ())) =
       Failure (Errorf ''could not close database connection: %v (prior error: %v)''
                  [ApiError ''close failed'',
                   Errorf ''error getting users from the database: %v'' [ApiError ''query failed'']])
   \<and> calls (snd (syncRoles queryAndCloseFailEnv (start ()))) =
       [EvInitDbConn, EvReadPgUsersFromDatabase [''app'', ''robot'', ''pooler''], EvCloseDbConn]
   \<and> fst (syncDatabases queryAndCloseFailEnv (start ())) =
       Failure (Errorf ''could not get current databases: %v'' [ApiError ''query failed''])
   \<and> calls (snd (syncDatabases queryAndCloseFailEnv (start ()))) =
       [EvInitDbConn, EvGetDatabases, EvCloseDbConn]
   \<and> logs (snd (syncDatabases queryAndCloseFailEnv (start ()))) =
       [Errorlog ''could not close database connection: %v'']"
proof -
  have i: "initDbConn queryAndCloseFailEnv (cl (start ())) = (None, cl (start ()))"
    by (simp add: queryAndCloseFailEnv_def example_defs)
  have r: "syncRoles_body queryAndCloseFailEnv ((start ())\<lparr>cl := cl (start ()), calls := calls (start ()) @ [EvInitDbConn]\<rparr>)
      = (Some (Errorf ''error getting users from the database: %v'' [ApiError ''query failed'']),
         \<lparr>cl = (cl (start ()))\<lparr>pgUsers := pgUsers (cl (start ())) @ [(''pooler'', \<lparr>Name = ''pooler'', Password = ''live'', Origin = RoleOriginOther 0\<rparr>)]\<rparr>,
          calls = [EvInitDbConn, EvReadPgUsersFromDatabase [''app'', ''robot'', ''pooler'']], logs = []\<rparr>)"
    by (simp add: syncRoles_body_def lookupUser_def run_defs Let_def queryAndCloseFailEnv_def example_defs)
  have d: "syncDatabases_body queryAndCloseFailEnv ((start ())\<lparr>cl := cl (start ()), calls := calls (start ()) @ [EvInitDbConn]\<rparr>)
      = (Some (Errorf ''could not get current databases: %v'' [ApiError ''query failed'']),
         \<lparr>cl = cl (start ()), calls = [EvInitDbConn, EvGetDatabases], logs = []\<rparr>)"
    by (simp add: syncDatabases_body_def run_defs queryAndCloseFailEnv_def example_defs)
  have c: "closeDbConn queryAndCloseFailEnv (cl (start ())) = (Some (ApiError ''close failed''), cl (start ()))"
    by (simp add: queryAndCloseFailEnv_def)
  have c': "closeDbConn queryAndCloseFailEnv
              (cl \<lparr>cl = (cl (start ()))\<lparr>pgUsers := pgUsers (cl (start ())) @ [(''pooler'', \<lparr>Name = ''pooler'', Password = ''live'', Origin = RoleOriginOther 0\<rparr>)]\<rparr>,
                   calls = [EvInitDbConn, EvReadPgUsersFromDatabase [''app'', ''robot'', ''pooler'']], logs = []\<rparr>)
            = (Some (ApiError ''close failed''),
               (cl (start ()))\<lparr>pgUsers := pgUsers (cl (start ())) @ [(''pooler'', \<lparr>Name = ''pooler'', Password = ''live'', Origin = RoleOriginOther 0\<rparr>)]\<rparr>)"
    by (simp add: queryAndCloseFailEnv_def)
  have c'': "closeDbConn queryAndCloseFailEnv
              (cl \<lparr>cl = cl (start ()), calls = [EvInitDbConn, EvGetDatabases], logs = ([] :: logline list)\<rparr>)
            = (Some (ApiError ''close failed''), cl (start ()))"
    by (simp add: queryAndCloseFailEnv_def)
  show ?thesis
    using connection_closed_after_body [OF i refl r c' d c''] i c
    by (simp add: ret_def)
qed

text \<open>
  C8 as stated fails for \<open>syncDatabases\<close>: closing fails, and the call returns nil when
  its body succeeded, and the bare error of its body when the body failed; the close
  error is in neither.
\<close>

theorem syncDatabases_close_error_counterexample:
  "fst (closeDbConn closeFailsEnv (cl (start ()))) = Some (ApiError ''close failed'')
   \<and> fst (syncDatabases closeFailsEnv (start ())) = Success
   \<and> calls (snd (syncDatabases closeFailsEnv (start ()))) = [EvInitDbConn, EvGetDatabases, EvCloseDbConn]
   \<and> fst (closeDbConn queryAndCloseFailEnv (cl (start ()))) = Some (ApiError ''close failed'')
   \<and> fst (syncDatabases queryAndCloseFailEnv (start ())) =
       Failure (Errorf ''could not get current databases: %v'' [ApiError ''query failed''])"
  by (simp add: syncDatabases_def syncDatabases_body_def run_defs closeFailsEnv_def
        queryAndCloseFailEnv_def example_defs)

subsection \<open>Endpoints\<close>

text \<open>
  C9, as the code has it: when the fetch of the live endpoint succeeds, \<open>syncEndpoint\<close>
  records the fetched endpoint for the role and returns nil.  The fetch is its only call:
  no desired definition is computed or compared and nothing is updated or replaced.
\<close>

theorem syncEndpoint_found_records_only:
  assumes "EndpointsGet env (Namespace (cl s)) (endpointName env role (cl s)) (world (cl s)) = (Ok ep, w1)"
  shows "syncEndpoint env role s =
           (Success,
            s\<lparr>cl := setEndpoint role (Some ep) ((cl s)\<lparr>world := w1\<rparr>),
              calls := calls s @ [EvEndpointsGet (Namespace (cl s)) (endpointName env role (cl s))]\<rparr>)"
  using assms by (simp add: syncEndpoint_def run_defs)

theorem syncEndpoint_found_records_only_witness:
  "EndpointsGet staleEndpointEnv (Namespace (cl (start ()))) (endpointName staleEndpointEnv Master (cl (start ())))
     (world (cl (start ()))) = (Ok (K8sObject ''default'' ''acid-test'' ''stale''), ())
   \<and> syncEndpoint staleEndpointEnv Master (start ()) =
       (Success,
        (start ())\<lparr>cl := setEndpoint Master (Some (K8sObject ''default'' ''acid-test'' ''stale''))
                           ((cl (start ()))\<lparr>world := ()\<rparr>),
                   calls := calls (start ()) @ [EvEndpointsGet ''default'' ''acid-test'']\<rparr>)"
proof -
  have h: "EndpointsGet staleEndpointEnv (Namespace (cl (start ()))) (endpointName staleEndpointEnv Master (cl (start ())))
     (world (cl (start ()))) = (Ok (K8sObject ''default'' ''acid-test'' ''stale''), ())"
    by (simp add: staleEndpointEnv_def example_defs)
  show ?thesis
    using h syncEndpoint_found_records_only [OF h]
    by (simp add: staleEndpointEnv_def example_defs)
qed

text \<open>
  C9 as stated fails: the live endpoint of the master is fetched and differs from the
  endpoint that the cluster would create, and \<open>syncEndpoint\<close> returns nil after the
  fetch alone, keeping the stale endpoint.
\<close>

theorem syncEndpoint_found_counterexample:
  "fst (EndpointsGet staleEndpointEnv ''default'' ''acid-test'' ()) = Ok (K8sObject ''default'' ''acid-test'' ''stale'')
   \<and> fst (createEndpoint staleEndpointEnv Master (cluster0 ())) = Ok (K8sObject ''default'' ''acid-test'' ''endpoints'')
   \<and> fst (syncEndpoint staleEndpointEnv Master (start ())) = Success
   \<and> calls (snd (syncEndpoint staleEndpointEnv Master (start ()))) = [EvEndpointsGet ''default'' ''acid-test'']
   \<and> Endpoints (cl (snd (syncEndpoint staleEndpointEnv Master (start ())))) Master
       = Some (K8sObject ''default'' ''acid-test'' ''stale'')"
  by (simp add: syncEndpoint_def run_defs setEndpoint_def staleEndpointEnv_def example_defs)

end
